theory Spec2Isabelle
  imports Complex_Main
begin

section \<open>Numbers, vectors and matrices\<close>

text \<open>
  The solver computes with C++ \<open>double\<close> and Eigen dense matrices. The model takes a
  \<open>double\<close> to be a real number (exact arithmetic, no rounding, no signed zero), a dynamic
  vector to be a list of reals, and a dense matrix to be the list of its rows. A
  trajectory matrix, which the code only reads and writes one column at a time, is the
  list of its columns. A value that is NaN or infinite has no real number: where the
  code tests for one, the model carries the outcome of the test explicitly.
\<close>

type_synonym vec = "real list"
type_synonym mat = "real list list"

text \<open>\<open>M.norm()\<close>: the Frobenius norm, here of a matrix given by its columns.\<close>

definition norm_fro :: "vec list \<Rightarrow> real" where
  "norm_fro M = sqrt (\<Sum>c\<leftarrow>M. \<Sum>x\<leftarrow>c. x * x)"

text \<open>
  A quotient of two doubles compared with a constant. HOL's \<open>a / 0\<close> is \<open>0\<close>; the
  machine's is an infinity with the sign of \<open>a\<close>, or NaN when \<open>a\<close> is zero too, and every
  comparison with NaN is false. The two definitions write this out for a divisor \<open>+0\<close>.
\<close>

definition quot_gt :: "real \<Rightarrow> real \<Rightarrow> real \<Rightarrow> bool" where
  "quot_gt a b c = (if b = 0 then 0 < a else c < a / b)"

definition quot_lt :: "real \<Rightarrow> real \<Rightarrow> real \<Rightarrow> bool" where
  "quot_lt a b c = (if b = 0 then a < 0 else a / b < c)"


text \<open>Coefficient-wise sum, difference and scaling of vectors; the dot product.\<close>

definition vadd :: "vec \<Rightarrow> vec \<Rightarrow> vec" where
  "vadd x y = map2 (+) x y"

definition vsub :: "vec \<Rightarrow> vec \<Rightarrow> vec" where
  "vsub x y = map2 (-) x y"

definition vscale :: "real \<Rightarrow> vec \<Rightarrow> vec" where
  "vscale a x = map ((*) a) x"

definition dot :: "vec \<Rightarrow> vec \<Rightarrow> real" where
  "dot x y = sum_list (map2 (*) x y)"

text \<open>\<open>v.cwiseAbs().sum()\<close> and \<open>v.lpNorm<Eigen::Infinity>()\<close>.\<close>

definition cwiseAbs_sum :: "vec \<Rightarrow> real" where
  "cwiseAbs_sum v = (\<Sum>x\<leftarrow>v. \<bar>x\<bar>)"

definition lpNorm_inf :: "vec \<Rightarrow> real" where
  "lpNorm_inf v = fold (\<lambda>x m. max \<bar>x\<bar> m) v 0"

text \<open>
  \<open>v.maxCoeff()\<close>. Eigen requires a non-empty vector; the model leaves the value for
  an empty one unspecified.
\<close>

fun maxCoeff :: "vec \<Rightarrow> real" where
  "maxCoeff (x # xs) = fold max xs x"

text \<open>
  Matrices as lists of rows. The number of columns of a matrix without rows cannot be
  read off the list, so transposition takes the number of columns of its argument.
\<close>

definition nrows :: "mat \<Rightarrow> nat" where
  "nrows M = length M"

definition ncols :: "mat \<Rightarrow> nat" where
  "ncols M = (case M of [] \<Rightarrow> 0 | r # _ \<Rightarrow> length r)"

definition is_mat :: "nat \<Rightarrow> nat \<Rightarrow> mat \<Rightarrow> bool" where
  "is_mat r c M = (length M = r \<and> list_all (\<lambda>row. length row = c) M)"

definition col :: "mat \<Rightarrow> nat \<Rightarrow> vec" where
  "col M j = map (\<lambda>row. row ! j) M"

definition mtrans :: "nat \<Rightarrow> mat \<Rightarrow> mat" where
  "mtrans c M = map (col M) [0..<c]"

definition madd :: "mat \<Rightarrow> mat \<Rightarrow> mat" where
  "madd A B = map2 vadd A B"

definition mscale :: "real \<Rightarrow> mat \<Rightarrow> mat" where
  "mscale a M = map (vscale a) M"

definition mat_vec :: "mat \<Rightarrow> vec \<Rightarrow> vec" where
  "mat_vec M x = map (\<lambda>row. dot row x) M"

definition mat_mul :: "mat \<Rightarrow> mat \<Rightarrow> mat" where
  "mat_mul A B = map (\<lambda>row. map (\<lambda>j. dot row (col B j)) [0..<ncols B]) A"

text \<open>\<open>M.diagonal().array() += a\<close>.\<close>

definition add_to_diagonal :: "real \<Rightarrow> mat \<Rightarrow> mat" where
  "add_to_diagonal a M = map (\<lambda>i. (M ! i)[i := M ! i ! i + a]) [0..<length M]"


section \<open>The solver of \<open>ilqr.cpp\<close>\<close>

text \<open>
  The repository holds two implementations of \<open>IterativeLQR\<close>. This section models
  the one written against \<open>ilqr.h\<close> alone: its constructor with the default cost, its
  constraint-to-go store, and its forward pass, which always accepts the step.
\<close>

text \<open>
  How a call can end other than by returning. The first four are C++ exceptions. The
  last two are not exceptions: \<open>OutOfRange\<close> marks an access outside a matrix, which
  Eigen leaves undefined, and \<open>NotFinite\<close> marks a run that goes on with a NaN or an
  infinity, which this model over the reals does not follow.
\<close>

datatype error =
  InvalidArgument | LengthError | HessianIndefinite | RuntimeError | OutOfRange | NotFinite

text \<open>
  The value that 32-bit two's-complement arithmetic gives for an \<open>int\<close> expression
  whose exact value is \<open>x\<close>.
\<close>

definition int32 :: "int \<Rightarrow> int" where
  "int32 x = (x + 2147483648) mod 4294967296 - 2147483648"

text \<open>
  A \<open>casadi::Function\<close> with inputs \<open>(x, u)\<close>: the sizes of its two inputs and the
  function it computes. A cost returns a scalar.
\<close>

record dyn_function =
  size1_in0 :: nat
  size1_in1 :: nat
  f_call :: "vec \<Rightarrow> vec \<Rightarrow> vec"

type_synonym cost_function = "vec \<Rightarrow> vec \<Rightarrow> real"

text \<open>\<open>cs::SX::sumsqr\<close>: the sum of the squares of the entries.\<close>

definition sumsqr :: "vec \<Rightarrow> real" where
  "sumsqr v = (\<Sum>x\<leftarrow>v. x * x)"

text \<open>
  \<open>IntermediateCost\<close>: the cost function \<open>l\<close>, absent until \<open>setCost\<close> is called (the
  gradient and Hessian functions \<open>dl\<close>, \<open>ddl\<close> are derived from \<open>l\<close> by CasADi and are
  not modelled).
\<close>

record intermediate_cost =
  cost_l :: "cost_function option"

definition IntermediateCost :: "nat \<Rightarrow> nat \<Rightarrow> intermediate_cost" where
  "IntermediateCost nx nu = \<lparr> cost_l = None \<rparr>"

definition setCost :: "cost_function \<Rightarrow> intermediate_cost \<Rightarrow> intermediate_cost" where
  "setCost c ic = ic\<lparr> cost_l := Some c \<rparr>"

text \<open>
  \<open>ConstraintToGo\<close>: \<open>_dim\<close> and the preallocated storage \<open>_C\<close> (rows) and \<open>_h\<close>.
  The capacity is the number of allocated rows.
\<close>

record constraint_to_go0 =
  ctg_dim :: nat
  ctg_C :: mat
  ctg_h :: vec

definition ConstraintToGo :: "nat \<Rightarrow> constraint_to_go0" where
  "ConstraintToGo nx =
     (let c_max = nx * 10
      in \<lparr> ctg_dim = 0, ctg_C = replicate c_max (replicate nx 0), ctg_h = replicate c_max 0 \<rparr>)"

text \<open>
  \<open>ConstraintToGo::set(C_to_add, h_to_add)\<close>. The code sets \<open>_dim\<close> to the number of
  incoming rows and writes them over the top rows of the storage, without comparing
  \<open>_dim\<close> with the capacity (``todo: check we don't overflow the matrix!''). In a build
  without Eigen's assertions the write runs past the allocated rows; the model shows that
  as storage longer than the capacity.
\<close>

definition ctg_set :: "mat \<Rightarrow> vec \<Rightarrow> constraint_to_go0 \<Rightarrow> constraint_to_go0" where
  "ctg_set C_to_add h_to_add ctg =
     (let dim = length h_to_add
      in ctg\<lparr> ctg_dim := dim,
              ctg_C := C_to_add @ drop dim (ctg_C ctg),
              ctg_h := h_to_add @ drop dim (ctg_h ctg) \<rparr>)"

text \<open>\<open>Constraint\<close>: whether a function was installed, and its linearization \<open>C\<close>, \<open>h\<close>.\<close>

record constraint0 =
  con_is_valid :: bool
  con_C :: mat
  con_h :: vec

text \<open>\<open>ConstraintToGo::set(const Constraint&)\<close>.\<close>

definition ctg_set_constraint :: "constraint0 \<Rightarrow> constraint_to_go0 \<Rightarrow> constraint_to_go0" where
  "ctg_set_constraint constr ctg =
     (if \<not> con_is_valid constr then ctg
      else ctg_set (con_C constr) (con_h constr) ctg)"

definition ctg_capacity :: "constraint_to_go0 \<Rightarrow> nat" where
  "ctg_capacity ctg = length (ctg_h ctg)"

text \<open>
  \<open>Dynamics\<close>: the Jacobians \<open>A\<close>, \<open>B\<close> of the last linearization and the defect \<open>d\<close>.
  \<open>BackwardPassResult\<close>: feedback gain and feedforward step. \<open>ForwardPassResult\<close>:
  the candidate trajectories. \<open>Temporaries\<close>: of the workspace, the state deviation
  \<open>dx\<close>.
\<close>

record dynamics =
  dyn_A :: mat
  dyn_B :: mat
  dyn_d :: vec

record backward_pass_result0 =
  bp_Lfb :: mat
  bp_du_ff :: vec

record forward_pass_result0 =
  fp0_xtrj :: "vec list"
  fp0_utrj :: "vec list"

record temporaries0 =
  tmp0_dx :: vec

definition Dynamics :: "nat \<Rightarrow> nat \<Rightarrow> dynamics" where
  "Dynamics nx nu =
     \<lparr> dyn_A = replicate nx (replicate nx 0), dyn_B = replicate nx (replicate nu 0),
       dyn_d = replicate nx 0 \<rparr>"

definition BackwardPassResult0 :: "nat \<Rightarrow> nat \<Rightarrow> backward_pass_result0" where
  "BackwardPassResult0 nx nu =
     \<lparr> bp_Lfb = replicate nu (replicate nx 0), bp_du_ff = replicate nu 0 \<rparr>"

definition ForwardPassResult0 :: "nat \<Rightarrow> nat \<Rightarrow> nat \<Rightarrow> forward_pass_result0" where
  "ForwardPassResult0 nx nu N =
     \<lparr> fp0_xtrj = replicate N (replicate nx 0), fp0_utrj = replicate N (replicate nu 0) \<rparr>"

text \<open>The solver object: the members the modelled functions read or write.\<close>

record solver0 =
  b_nx :: nat
  b_nu :: nat
  b_N :: nat
  b_cost :: "intermediate_cost list"
  b_dyn :: "dynamics list"
  b_bp_res :: "backward_pass_result0 list"
  b_constraint_to_go :: constraint_to_go0
  b_fp_res :: forward_pass_result0
  b_tmp :: "temporaries0 list"
  b_xtrj :: "vec list"
  b_utrj :: "vec list"

text \<open>\<open>setIntermediateCost(const std::vector<casadi::Function>&)\<close> and \<open>setFinalCost\<close>.\<close>

definition setIntermediateCost :: "cost_function list \<Rightarrow> solver0 \<Rightarrow> error + solver0" where
  "setIntermediateCost inter_cost s =
     (if length inter_cost \<noteq> b_N s then Inl InvalidArgument
      else Inr (s\<lparr> b_cost :=
             fold (\<lambda>i c. c[i := setCost (inter_cost ! i) (c ! i)]) [0..<b_N s] (b_cost s) \<rparr>))"

definition setFinalCost :: "cost_function \<Rightarrow> solver0 \<Rightarrow> solver0" where
  "setFinalCost final_cost s =
     s\<lparr> b_cost := (b_cost s)[length (b_cost s) - 1 := setCost final_cost (last (b_cost s))] \<rparr>"

text \<open>\<open>set_default_cost\<close>: half the squared input along the horizon, half the squared
  state at the end.\<close>

definition set_default_cost :: "solver0 \<Rightarrow> error + solver0" where
  "set_default_cost s =
     (let l = (\<lambda>x u. 0.5 * sumsqr u);
          lf = (\<lambda>x u. 0.5 * sumsqr x)
      in case setIntermediateCost (replicate (b_N s) l) s of
           Inl e \<Rightarrow> Inl e
         | Inr s' \<Rightarrow> Inr (setFinalCost lf s'))"

text \<open>
  The constructor \<open>IterativeLQR(fdyn, N)\<close>. \<open>N\<close> is an \<open>int\<close>, and so is \<open>N + 1\<close>,
  which wraps around at \<open>N = 2147483647\<close>. The \<open>std::vector\<close> members are built with
  \<open>N + 1\<close> or \<open>N\<close> elements, and a negative count fails with \<open>std::length_error\<close>.
\<close>

definition IterativeLQR :: "dyn_function \<Rightarrow> int \<Rightarrow> error + solver0" where
  "IterativeLQR fdyn N =
     (let N1 = int32 (N + 1)
      in if N1 < 0 \<or> N < 0 then Inl LengthError
         else
           let nx = size1_in0 fdyn; nu = size1_in1 fdyn; n = nat N
           in set_default_cost
                \<lparr> b_nx = nx, b_nu = nu, b_N = n,
                  b_cost = replicate (nat N1) (IntermediateCost nx nu),
                  b_dyn = replicate n (Dynamics nx nu),
                  b_bp_res = replicate n (BackwardPassResult0 nx nu),
                  b_constraint_to_go = ConstraintToGo nx,
                  b_fp_res = ForwardPassResult0 nx nu n,
                  b_tmp = replicate n \<lparr> tmp0_dx = [] \<rparr>,
                  b_xtrj = replicate (n + 1) (replicate nx 0),
                  b_utrj = replicate n (replicate nu 0) \<rparr>)"

text \<open>A final constraint with eleven rows on a one-dimensional state.\<close>

definition constr11 :: constraint0 where
  "constr11 = \<lparr> con_is_valid = True, con_C = replicate 11 [1], con_h = replicate 11 0 \<rparr>"

text \<open>The value of the cost installed at stage \<open>k\<close>, if there is one.\<close>

definition cost_at :: "solver0 \<Rightarrow> nat \<Rightarrow> vec \<Rightarrow> vec \<Rightarrow> real option" where
  "cost_at s k x u =
     (if k < length (b_cost s)
      then (case cost_l (b_cost s ! k) of None \<Rightarrow> None | Some l \<Rightarrow> Some (l x u))
      else None)"

text \<open>
  \<open>forward_pass_iter(i, alpha)\<close> of this solver: it writes the input of stage \<open>i\<close> and
  the state of stage \<open>i + 1\<close> of the candidate trajectory. The defect \<open>d\<close> is added in
  full, whatever \<open>alpha\<close> is.
\<close>

definition forward_pass_iter0 :: "nat \<Rightarrow> real \<Rightarrow> solver0 \<Rightarrow> solver0" where
  "forward_pass_iter0 i alpha s =
     (let xnext = b_xtrj s ! (i + 1);
          xi = b_xtrj s ! i;
          ui = b_utrj s ! i;
          xi_upd = fp0_xtrj (b_fp_res s) ! i;
          dx = vsub xi_upd xi;
          A = dyn_A (b_dyn s ! i);
          B = dyn_B (b_dyn s ! i);
          d = dyn_d (b_dyn s ! i);
          L = bp_Lfb (b_bp_res s ! i);
          l = vscale alpha (bp_du_ff (b_bp_res s ! i));
          ui_upd = vadd (vadd ui l) (mat_vec L dx);
          xnext_upd = vadd (vadd (vadd xnext (mat_vec (madd A (mat_mul B L)) dx)) (mat_vec B l)) d
      in s\<lparr> b_tmp := (b_tmp s)[i := (b_tmp s ! i)\<lparr> tmp0_dx := dx \<rparr>],
            b_fp_res := (b_fp_res s)\<lparr> fp0_utrj := (fp0_utrj (b_fp_res s))[i := ui_upd],
                                     fp0_xtrj := (fp0_xtrj (b_fp_res s))[i + 1 := xnext_upd] \<rparr> \<rparr>)"

text \<open>
  \<open>forward_pass(alpha)\<close> of this solver: start from the current trajectory, run the
  stages in order, and accept the result.
\<close>

definition forward_pass_loop0 :: "real \<Rightarrow> solver0 \<Rightarrow> solver0" where
  "forward_pass_loop0 alpha s = fold (\<lambda>i. forward_pass_iter0 i alpha) [0..<b_N s] s"

definition forward_pass0 :: "real \<Rightarrow> solver0 \<Rightarrow> solver0" where
  "forward_pass0 alpha s =
     (let s1 = s\<lparr> b_fp_res := \<lparr> fp0_xtrj = b_xtrj s, fp0_utrj = b_utrj s \<rparr> \<rparr>;
          s2 = forward_pass_loop0 alpha s1
      in s2\<lparr> b_xtrj := fp0_xtrj (b_fp_res s2), b_utrj := fp0_utrj (b_fp_res s2) \<rparr>)"


section \<open>The solver with line search\<close>

text \<open>
  The second implementation is split over a forward-pass file and a backward-pass file,
  both written against \<open>ilqr_impl.h\<close>. That header, with the structs of the workspace
  and the macro \<open>THROW_NAN\<close>, is not part of the sources at hand; the records below
  hold the members that the two files read or write.
\<close>

subsection \<open>Data model\<close>

text \<open>
  The decomposition selectors. Both \<open>switch\<close> statements of the backward pass end in a
  \<open>default\<close> branch that raises \<open>std::invalid_argument\<close>.
\<close>

datatype decomposition_type = Ldlt | Qr | Lu | Cod | Svd

text \<open>
  A bound is a double that may be infinite: a real number, or plus or minus infinity.
\<close>

datatype bound = MInf | Fin real | PInf

text \<open>\<open>ForwardPassResult\<close>: the candidate trajectory and its scores.\<close>

record forward_pass_result =
  fp_xtrj :: "vec list"
  fp_utrj :: "vec list"
  fp_accepted :: bool
  fp_alpha :: real
  fp_step_length :: real
  fp_cost :: real
  fp_constraint_violation :: real
  fp_defect_norm :: real
  fp_merit :: real
  fp_merit_der :: real
  fp_mu_f :: real
  fp_mu_c :: real

text \<open>
  \<open>IntermediateCost\<close>: the cost function and its last quadratization.
  \<open>Constraint\<close>: the constraint function, absent (\<open>is_valid()\<close> false) or present,
  and its last value \<open>h\<close> and Jacobians \<open>C\<close>, \<open>D\<close>.
\<close>

record cost_stage =
  ic_l :: cost_function
  ic_Q :: mat
  ic_R :: mat
  ic_P :: mat
  ic_q :: vec
  ic_r :: vec

record constraint =
  cn_f :: "(vec \<Rightarrow> vec \<Rightarrow> vec) option"
  cn_C :: mat
  cn_D :: mat
  cn_h :: vec

record value_function =
  vf_S :: mat
  vf_s :: vec

text \<open>
  \<open>BackwardPassResult\<close>: gain \<open>Lu\<close> and feedforward step \<open>lu\<close> of the input, the
  multipliers \<open>glam\<close> with their sensitivity \<open>Gu\<close>, the number \<open>nc\<close> of constraints, the
  initial-state step \<open>dx\<close> with its multipliers, and the member \<open>lz\<close> that
  \<open>compute_merit_slope\<close> reads.
\<close>

record backward_pass_result =
  bp_Lu :: mat
  bp_lu :: vec
  bp_lz :: vec
  bp_glam :: vec
  bp_Gu :: mat
  bp_nc :: nat
  bp_dx :: vec
  bp_dx_lam :: vec

record temporaries =
  tmp_dx :: vec
  tmp_defect :: vec
  tmp_s_plus_S_d :: vec
  tmp_S_A :: mat
  tmp_hx :: vec
  tmp_Hxx :: mat
  tmp_hu :: vec
  tmp_Huu :: mat
  tmp_Hux :: mat
  tmp_kkt :: mat
  tmp_kx0 :: mat
  tmp_u_lam :: mat
  tmp_Cf :: mat
  tmp_Df :: mat
  tmp_hf :: vec
  tmp_codQ :: mat
  tmp_x_kkt :: mat
  tmp_dx_lam :: vec

text \<open>
  The constraint-to-go of this solver carries an input block \<open>D\<close> next to \<open>C\<close> and \<open>h\<close>;
  its dimension is the number of rows it holds. A residual that is an infinity or a NaN
  is no real number: \<open>cg_finite\<close> is false when the store holds such a residual, and
  \<open>cg_h\<close> then has \<open>0\<close> in its place.
\<close>

record constraint_to_go =
  cg_C :: mat
  cg_D :: mat
  cg_h :: vec
  cg_finite :: bool

text \<open>What the solver prints unconditionally: the two warnings of the backward pass.\<close>

datatype warning = LinearlyDependent nat | NotSatisfied nat real

record solver =
  m_nx :: nat
  m_nu :: nat
  m_N :: nat
  m_f :: "vec \<Rightarrow> vec \<Rightarrow> vec"
  m_cost :: "cost_stage list"
  m_constraint :: "constraint list"
  m_value :: "value_function list"
  m_dyn :: "dynamics list"
  m_bp_res :: "backward_pass_result list"
  m_constraint_to_go :: constraint_to_go
  m_fp_res :: forward_pass_result
  m_tmp :: "temporaries list"
  m_xtrj :: "vec list"
  m_utrj :: "vec list"
  m_lam_x :: "vec list"
  m_lam_g :: "vec list"
  m_x_lb :: "bound list list"
  m_x_ub :: "bound list list"
  m_u_lb :: "bound list list"
  m_u_ub :: "bound list list"
  m_hxx_reg :: real
  m_hxx_reg_base :: real
  m_hxx_reg_growth_factor :: real
  m_huu_reg :: real
  m_kkt_reg :: real
  m_svd_threshold :: real
  m_constraint_violation_threshold :: real
  m_kkt_decomp_type :: decomposition_type
  m_constr_decomp_type :: decomposition_type
  m_reported :: "forward_pass_result list"
  m_warnings :: "warning list"

text \<open>
  Modelled from the spec: \<open>report_result\<close> is not among the sources. The specification
  has the result of every line-search attempt handed to the iteration callback and to
  the profiling record; the model appends the result it is called with to
  \<open>m_reported\<close>.
\<close>

definition report_result :: "forward_pass_result \<Rightarrow> solver \<Rightarrow> solver" where
  "report_result fp s = s\<lparr> m_reported := m_reported s @ [fp] \<rparr>"

text \<open>
  \<open>IntermediateCost::evaluate\<close>, \<open>Constraint::evaluate\<close> and the four-argument
  \<open>Dynamics::computeDefect\<close> are declared in the missing header. They are modelled after
  their callers and after \<open>computeDefect\<close> of \<open>ilqr.cpp\<close>: the cost returns the value of
  its function, the constraint stores the value of its function in \<open>h\<close>, and the defect
  is the integrated state minus the next state.
\<close>

definition cost_evaluate :: "cost_stage \<Rightarrow> vec \<Rightarrow> vec \<Rightarrow> real" where
  "cost_evaluate c x u = ic_l c x u"

definition constraint_evaluate :: "constraint \<Rightarrow> vec \<Rightarrow> vec \<Rightarrow> constraint" where
  "constraint_evaluate c x u =
     (case cn_f c of None \<Rightarrow> c | Some f \<Rightarrow> c\<lparr> cn_h := f x u \<rparr>)"

definition is_valid :: "constraint \<Rightarrow> bool" where
  "is_valid c = (cn_f c \<noteq> None)"

definition computeDefect :: "(vec \<Rightarrow> vec \<Rightarrow> vec) \<Rightarrow> vec \<Rightarrow> vec \<Rightarrow> vec \<Rightarrow> vec" where
  "computeDefect f x u xnext = vsub (f x u) xnext"


subsection \<open>Forward pass\<close>

text \<open>
  \<open>forward_pass_iter(i, alpha)\<close>: from the deviation \<open>dx\<close> of the candidate state at
  stage \<open>i\<close> it writes the candidate input of stage \<open>i\<close> and the candidate state of
  stage \<open>i + 1\<close>, and adds the 1-norm of the scaled feedforward step to the step length.
\<close>

definition forward_pass_iter :: "nat \<Rightarrow> real \<Rightarrow> solver \<Rightarrow> solver" where
  "forward_pass_iter i alpha s =
     (let xnext = m_xtrj s ! (i + 1);
          xi = m_xtrj s ! i;
          ui = m_utrj s ! i;
          xi_upd = fp_xtrj (m_fp_res s) ! i;
          dx = vsub xi_upd xi;
          A = dyn_A (m_dyn s ! i);
          B = dyn_B (m_dyn s ! i);
          d = dyn_d (m_dyn s ! i);
          L = bp_Lu (m_bp_res s ! i);
          l = vscale alpha (bp_lu (m_bp_res s ! i));
          ui_upd = vadd (vadd ui l) (mat_vec L dx);
          xnext_upd = vadd (vadd (vadd xnext (mat_vec (madd A (mat_mul B L)) dx)) (mat_vec B l))
                           (vscale alpha d)
      in s\<lparr> m_tmp := (m_tmp s)[i := (m_tmp s ! i)\<lparr> tmp_dx := dx \<rparr>],
            m_fp_res := (m_fp_res s)\<lparr>
               fp_utrj := (fp_utrj (m_fp_res s))[i := ui_upd],
               fp_xtrj := (fp_xtrj (m_fp_res s))[i + 1 := xnext_upd],
               fp_step_length := fp_step_length (m_fp_res s) + cwiseAbs_sum l \<rparr> \<rparr>)"

text \<open>
  \<open>compute_cost\<close>, \<open>compute_constr\<close>, \<open>compute_defect\<close>: sums over the stages,
  divided by \<open>N\<close>. The final cost and the final constraint are given the last input,
  column \<open>N - 1\<close>; with \<open>N = 0\<close> that is column \<open>-1\<close>, outside the matrix. With \<open>N = 0\<close>
  and nothing read outside the matrix the quotient is \<open>0 / 0\<close>, a NaN. Evaluating a
  constraint stores its value, and the defects are left in the workspace.
\<close>

definition compute_cost :: "solver \<Rightarrow> vec list \<Rightarrow> vec list \<Rightarrow> error + real" where
  "compute_cost s xtrj utrj =
     (let cost = fold (\<lambda>i c. c + cost_evaluate (m_cost s ! i) (xtrj ! i) (utrj ! i)) [0..<m_N s] 0
      in if m_N s = 0 then Inl OutOfRange
         else let cost = cost + cost_evaluate (m_cost s ! m_N s) (xtrj ! m_N s) (utrj ! (m_N s - 1))
              in Inr (cost / real (m_N s)))"

definition constr_at :: "vec list \<Rightarrow> vec list \<Rightarrow> nat \<Rightarrow> nat \<Rightarrow> real \<times> solver \<Rightarrow> real \<times> solver" where
  "constr_at xtrj utrj i iu = (\<lambda>(constr, s).
     if \<not> is_valid (m_constraint s ! i) then (constr, s)
     else let c = constraint_evaluate (m_constraint s ! i) (xtrj ! i) (utrj ! iu)
          in (constr + cwiseAbs_sum (cn_h c), s\<lparr> m_constraint := (m_constraint s)[i := c] \<rparr>))"

definition compute_constr :: "vec list \<Rightarrow> vec list \<Rightarrow> solver \<Rightarrow> error + real \<times> solver" where
  "compute_constr xtrj utrj s =
     (let (constr, s1) = fold (\<lambda>i. constr_at xtrj utrj i i) [0..<m_N s] (0, s)
      in if m_N s = 0
         then (if is_valid (m_constraint s1 ! m_N s) then Inl OutOfRange else Inl NotFinite)
         else let (constr, s2) = constr_at xtrj utrj (m_N s) (m_N s - 1) (constr, s1)
              in Inr (constr / real (m_N s), s2))"

definition defect_at :: "vec list \<Rightarrow> vec list \<Rightarrow> nat \<Rightarrow> real \<times> solver \<Rightarrow> real \<times> solver" where
  "defect_at xtrj utrj i = (\<lambda>(defect, s).
     let d = computeDefect (m_f s) (xtrj ! i) (utrj ! i) (xtrj ! (i + 1))
     in (defect + cwiseAbs_sum d, s\<lparr> m_tmp := (m_tmp s)[i := (m_tmp s ! i)\<lparr> tmp_defect := d \<rparr>] \<rparr>))"

definition compute_defect :: "vec list \<Rightarrow> vec list \<Rightarrow> solver \<Rightarrow> error + real \<times> solver" where
  "compute_defect xtrj utrj s =
     (let (defect, s1) = fold (defect_at xtrj utrj) [0..<m_N s] (0, s)
      in if m_N s = 0 then Inl NotFinite else Inr (defect / real (m_N s), s1))"

text \<open>\<open>forward_pass(alpha)\<close>: roll out the candidate trajectory and score it.\<close>

definition forward_pass :: "real \<Rightarrow> solver \<Rightarrow> error + solver" where
  "forward_pass alpha s =
     (let fp0 = (m_fp_res s)\<lparr> fp_accepted := False, fp_alpha := alpha, fp_step_length := 0 \<rparr>;
          fp0 = fp0\<lparr> fp_xtrj := (fp_xtrj fp0)[0 := m_xtrj s ! 0] \<rparr>;
          s1 = fold (\<lambda>i. forward_pass_iter i alpha) [0..<m_N s] (s\<lparr> m_fp_res := fp0 \<rparr>);
          xs = fp_xtrj (m_fp_res s1);
          us = fp_utrj (m_fp_res s1)
      in case compute_cost s1 xs us of
           Inl e \<Rightarrow> Inl e
         | Inr cost \<Rightarrow>
             (case compute_constr xs us s1 of
                Inl e \<Rightarrow> Inl e
              | Inr (constr, s2) \<Rightarrow>
                  (case compute_defect xs us s2 of
                     Inl e \<Rightarrow> Inl e
                   | Inr (defect, s3) \<Rightarrow>
                       Inr (s3\<lparr> m_fp_res := (m_fp_res s3)\<lparr> fp_cost := cost,
                                  fp_constraint_violation := constr,
                                  fp_defect_norm := defect \<rparr> \<rparr>))))"

subsection \<open>Merit function\<close>

text \<open>
  \<open>compute_merit_slope\<close>: the loop pairs the workspace gradient \<open>hu\<close> of each stage
  with the member \<open>lz\<close> of the backward-pass result.
\<close>

definition compute_merit_slope :: "solver \<Rightarrow> real \<Rightarrow> real \<Rightarrow> real \<Rightarrow> real \<Rightarrow> real" where
  "compute_merit_slope s mu_f mu_c defect_norm constr_viol =
     (let der = fold (\<lambda>i der. der + dot (bp_lz (m_bp_res s ! i)) (tmp_hu (m_tmp s ! i)))
                     [0..<m_N s] 0
      in der - mu_f * defect_norm - mu_c * constr_viol)"

definition compute_merit_value :: "real \<Rightarrow> real \<Rightarrow> real \<Rightarrow> real \<Rightarrow> real \<Rightarrow> real" where
  "compute_merit_value mu_f mu_c cost defect_norm constr_viol =
     cost + mu_f * defect_norm + mu_c * constr_viol"

text \<open>
  \<open>compute_merit_weights\<close>: twice the largest adjoint estimate and twice the largest
  constraint multiplier estimate, taken with \<open>dx = 0\<close>.
\<close>

definition merit_weights_at :: "nat \<Rightarrow> (real \<times> real) \<times> solver \<Rightarrow> (real \<times> real) \<times> solver" where
  "merit_weights_at i = (\<lambda>((lam_x_max, lam_g_max), s).
     let res = m_bp_res s ! i;
         l = bp_lu res;
         lam_x = (m_lam_x s)[i := vf_s (m_value s ! i)];
         lam_x_max = max lam_x_max (maxCoeff (map abs (lam_x ! i)))
     in if bp_nc res > 0
        then let lam_g = (m_lam_g s)[i := vadd (bp_glam res) (mat_vec (bp_Gu res) l)]
             in ((lam_x_max, max lam_g_max (maxCoeff (map abs (lam_g ! i)))),
                 s\<lparr> m_lam_x := lam_x, m_lam_g := lam_g \<rparr>)
        else ((lam_x_max, lam_g_max), s\<lparr> m_lam_x := lam_x \<rparr>))"

definition compute_merit_weights :: "solver \<Rightarrow> (real \<times> real) \<times> solver" where
  "compute_merit_weights s =
     (let ((lam_x_max, lam_g_max), s1) = fold merit_weights_at [0..<m_N s] ((0, 0), s);
          merit_safety_factor = 2
      in ((lam_x_max * merit_safety_factor, lam_g_max * merit_safety_factor), s1))"

subsection \<open>Line search\<close>

definition step_reduction_factor :: real where
  "step_reduction_factor = 0.5"

definition alpha_min :: real where
  "alpha_min = 0.001"

definition eta :: real where
  "eta = 1 / 10 ^ 4"

text \<open>
  One turn of the \<open>while\<close> loop of \<open>line_search\<close>: forward pass at \<open>alpha\<close>, merit of
  the candidate, Armijo's condition, report.
\<close>

definition ls_try :: "real \<Rightarrow> real \<Rightarrow> real \<Rightarrow> real \<Rightarrow> real \<Rightarrow> solver \<Rightarrow> error + solver" where
  "ls_try mu_f mu_c merit merit_der alpha s =
     (case forward_pass alpha s of
        Inl e \<Rightarrow> Inl e
      | Inr s1 \<Rightarrow>
          (let fp1 = (m_fp_res s1)\<lparr> fp_merit :=
                       compute_merit_value mu_f mu_c (fp_cost (m_fp_res s1))
                         (fp_defect_norm (m_fp_res s1)) (fp_constraint_violation (m_fp_res s1)) \<rparr>;
               fp2 = fp1\<lparr> fp_accepted := (fp_merit fp1 \<le> merit + eta * alpha * merit_der) \<rparr>
           in Inr (report_result fp2 (s1\<lparr> m_fp_res := fp2 \<rparr>))))"

function ls_loop :: "real \<Rightarrow> real \<Rightarrow> real \<Rightarrow> real \<Rightarrow> real \<Rightarrow> solver \<Rightarrow> error + solver" where
  "ls_loop mu_f mu_c merit merit_der alpha s =
     (if alpha \<ge> alpha_min
      then (case ls_try mu_f mu_c merit merit_der alpha s of
              Inl e \<Rightarrow> Inl e
            | Inr s1 \<Rightarrow>
                if fp_accepted (m_fp_res s1) then Inr s1
                else ls_loop mu_f mu_c merit merit_der (alpha * step_reduction_factor) s1)
      else Inr s)"
  by pat_completeness auto
termination
proof (relation "measure (\<lambda>(mu_f, mu_c, merit, merit_der, alpha, s). nat \<lfloor>alpha * 1000\<rfloor>)")
  show "wf (measure (\<lambda>(mu_f, mu_c, merit, merit_der, alpha, s). nat \<lfloor>alpha * 1000\<rfloor>))"
    by simp
next
  fix mu_f mu_c merit merit_der alpha :: real and s x :: solver
  assume a: "alpha_min \<le> alpha"
  have "1 \<le> alpha * 1000" using a by (simp add: alpha_min_def)
  then have f1: "1 \<le> \<lfloor>alpha * 1000\<rfloor>" by linarith
  have "alpha * 1000 / 2 < of_int \<lfloor>alpha * 1000\<rfloor>"
    using f1 by linarith
  then have "\<lfloor>alpha * 1000 / 2\<rfloor> < \<lfloor>alpha * 1000\<rfloor>"
    by linarith
  then have "nat \<lfloor>alpha * step_reduction_factor * 1000\<rfloor> < nat \<lfloor>alpha * 1000\<rfloor>"
    using f1 by (simp add: step_reduction_factor_def)
  then show "((mu_f, mu_c, merit, merit_der, alpha * step_reduction_factor, x),
              (mu_f, mu_c, merit, merit_der, alpha, s))
             \<in> measure (\<lambda>(mu_f, mu_c, merit, merit_der, alpha, s). nat \<lfloor>alpha * 1000\<rfloor>)"
    by simp
qed

declare ls_loop.simps [simp del]

text \<open>
  \<open>line_search(iter)\<close> in three parts. Before the loop: the merit weights, the
  merit of the current result, reported when \<open>iter\<close> is \<open>0\<close>, and the merit slope.
  The loop, from \<open>alpha = 1\<close>. After the loop: a result that was not accepted is
  accepted and reported once more, and the candidate trajectory becomes the current one.
\<close>

definition ls_prepare :: "int \<Rightarrow> solver \<Rightarrow> (real \<times> real \<times> real \<times> real) \<times> solver" where
  "ls_prepare iter s =
     (let ((mu_f, mu_c), s1) = compute_merit_weights s;
          s2 = s1\<lparr> m_fp_res := (m_fp_res s1)\<lparr> fp_mu_f := mu_f, fp_mu_c := mu_c \<rparr> \<rparr>;
          merit = compute_merit_value mu_f mu_c (fp_cost (m_fp_res s2))
                    (fp_defect_norm (m_fp_res s2)) (fp_constraint_violation (m_fp_res s2));
          s3 = (if iter = 0
                then (let fp = (m_fp_res s2)\<lparr> fp_merit := merit \<rparr>
                      in report_result fp (s2\<lparr> m_fp_res := fp \<rparr>))
                else s2);
          merit_der = compute_merit_slope s3 mu_f mu_c (fp_defect_norm (m_fp_res s3))
                        (fp_constraint_violation (m_fp_res s3));
          s4 = s3\<lparr> m_fp_res := (m_fp_res s3)\<lparr> fp_merit_der := merit_der \<rparr> \<rparr>
      in ((mu_f, mu_c, merit, merit_der), s4))"

definition ls_finish :: "solver \<Rightarrow> solver" where
  "ls_finish s =
     (let s1 = (if \<not> fp_accepted (m_fp_res s)
                then (let fp = (m_fp_res s)\<lparr> fp_accepted := True \<rparr>
                      in report_result fp (s\<lparr> m_fp_res := fp \<rparr>))
                else s)
      in s1\<lparr> m_xtrj := fp_xtrj (m_fp_res s1), m_utrj := fp_utrj (m_fp_res s1) \<rparr>)"

definition line_search :: "int \<Rightarrow> solver \<Rightarrow> error + solver" where
  "line_search iter s =
     (let alpha = 1;
          ((mu_f, mu_c, merit, merit_der), s4) = ls_prepare iter s
      in case ls_loop mu_f mu_c merit merit_der alpha s4 of
           Inl e \<Rightarrow> Inl e
         | Inr s5 \<Rightarrow> Inr (ls_finish s5))"

subsection \<open>Stopping test\<close>

text \<open>\<open>should_stop\<close>: feasibility first, then the normalised slope, then the
  normalised step.\<close>

definition should_stop :: "solver \<Rightarrow> bool" where
  "should_stop s =
     (if fp_constraint_violation (m_fp_res s) > 1 / 10 ^ 6 then False
      else if fp_defect_norm (m_fp_res s) > 1 / 10 ^ 6 then False
      else if quot_gt (fp_merit_der (m_fp_res s)) (fp_merit (m_fp_res s)) (- (1 / 10 ^ 9)) then True
      else if quot_lt (fp_step_length (m_fp_res s)) (norm_fro (m_utrj s)) (1 / 10 ^ 9) then True
      else False)"

text \<open>
  The stopping rule in the words of the specification: feasible, and either the
  normalised slope or the normalised step is below \<open>1e-9\<close> in absolute value.
\<close>

definition stop_spec :: "solver \<Rightarrow> bool" where
  "stop_spec s =
     (fp_defect_norm (m_fp_res s) \<le> 1 / 10 ^ 6 \<and>
      fp_constraint_violation (m_fp_res s) \<le> 1 / 10 ^ 6 \<and>
      (\<bar>fp_merit_der (m_fp_res s)\<bar> / \<bar>fp_merit (m_fp_res s)\<bar> < 1 / 10 ^ 9 \<or>
       fp_step_length (m_fp_res s) / norm_fro (m_utrj s) < 1 / 10 ^ 9))"


section \<open>Backward pass of the solver with line search\<close>

subsection \<open>Numerical routines and the macro \<open>THROW_NAN\<close>\<close>

text \<open>
  Eigen's factorizations are not part of the repository; the model takes them as
  parameters. A linear solve returns its solution, or \<open>None\<close> when the solution holds a
  NaN or an infinity. A rank-revealing decomposition, computed with a threshold, returns
  its rank, its largest pivot (or its singular values) and its full orthogonal factor.
  The initial-state solve by QR uses a decomposition that was never given the matrix.

  The macro \<open>THROW_NAN\<close> is defined in the missing header, so what it does is a
  parameter as well: \<open>throw_nan env b\<close> is the exception that \<open>THROW_NAN(M)\<close> raises,
  if it raises one, on an argument \<open>M\<close> that is finite in every entry (\<open>b\<close> true) or
  that holds a NaN or an infinity (\<open>b\<close> false). The matrices that the model holds are
  real, hence finite; what can fail to be finite is the solution of a linear solve and a
  residual of the constraint-to-go.
\<close>

record pivoted_decomposition =
  pd_rank :: nat
  pd_maxPivot :: real
  pd_matrixQ :: mat

record svd_decomposition =
  sv_rank :: nat
  sv_singularValues :: vec
  sv_matrixU :: mat

record numerics =
  kkt_lu :: "mat \<Rightarrow> mat \<Rightarrow> mat option"
  kkt_qr :: "mat \<Rightarrow> mat \<Rightarrow> mat option"
  kkt_ldlt :: "mat \<Rightarrow> mat \<Rightarrow> mat option"
  ccod :: "real \<Rightarrow> mat \<Rightarrow> pivoted_decomposition"
  cqr :: "real \<Rightarrow> mat \<Rightarrow> pivoted_decomposition"
  csvd :: "real \<Rightarrow> mat \<Rightarrow> svd_decomposition"
  x_lu :: "mat \<Rightarrow> vec \<Rightarrow> vec option"
  x_qr :: "vec \<Rightarrow> vec option"
  x_ldlt :: "mat \<Rightarrow> vec \<Rightarrow> vec option"
  throw_nan :: "bool \<Rightarrow> error option"

definition THROW_NAN :: "numerics \<Rightarrow> bool \<Rightarrow> error option" where
  "THROW_NAN env all_finite = throw_nan env all_finite"

text \<open>
  A call ends by an exception, or where the model stops (\<open>OutOfRange\<close>, \<open>NotFinite\<close>),
  with the solver as it is at that point, or it returns the solver. \<open>raising r s k\<close>
  is a statement that may raise, followed by the rest \<open>k\<close> of the function.
\<close>

type_synonym outcome = "(error \<times> solver) + solver"

definition raising :: "error option \<Rightarrow> solver \<Rightarrow> outcome \<Rightarrow> outcome" where
  "raising r s k = (case r of Some e \<Rightarrow> Inl (e, s) | None \<Rightarrow> k)"

subsection \<open>Constraint-to-go\<close>

text \<open>
  Modelled from the spec: the class \<open>ConstraintToGo\<close> of this solver (its \<open>set\<close>, the
  three \<open>add\<close>, \<open>propagate_backwards\<close>, \<open>clear\<close>, \<open>dim\<close>) is declared in the missing
  header. The specification has the store reset at the start of a backward pass and
  loaded with the final-stage constraint; a stage's own rows stacked below the rows
  already held; a propagated store \<open>C \<leftarrow> C A\<close>, \<open>D \<leftarrow> C B\<close>, \<open>h \<leftarrow> h - C d\<close>, as in
  \<open>handle_constraints\<close> of \<open>ilqr.cpp\<close>; and rows pushed back appended, with a zero
  input block.
\<close>

definition cg_dim :: "constraint_to_go \<Rightarrow> nat" where
  "cg_dim cg = length (cg_h cg)"

definition cg_clear :: "constraint_to_go \<Rightarrow> constraint_to_go" where
  "cg_clear cg = \<lparr> cg_C = [], cg_D = [], cg_h = [], cg_finite = True \<rparr>"

definition cg_add :: "mat \<Rightarrow> mat \<Rightarrow> vec \<Rightarrow> constraint_to_go \<Rightarrow> constraint_to_go" where
  "cg_add C D h cg = cg\<lparr> cg_C := cg_C cg @ C, cg_D := cg_D cg @ D, cg_h := cg_h cg @ h \<rparr>"

text \<open>One row with a residual that may fail to be finite.\<close>

definition cg_add_row :: "vec \<Rightarrow> vec \<Rightarrow> real option \<Rightarrow> constraint_to_go \<Rightarrow> constraint_to_go" where
  "cg_add_row c d h cg =
     (case h of
        Some r \<Rightarrow> cg_add [c] [d] [r] cg
      | None \<Rightarrow> (cg_add [c] [d] [0] cg)\<lparr> cg_finite := False \<rparr>)"

definition cg_add_constraint :: "constraint \<Rightarrow> constraint_to_go \<Rightarrow> constraint_to_go" where
  "cg_add_constraint constr cg =
     (if \<not> is_valid constr then cg else cg_add (cn_C constr) (cn_D constr) (cn_h constr) cg)"

definition cg_set_constraint :: "constraint \<Rightarrow> constraint_to_go \<Rightarrow> constraint_to_go" where
  "cg_set_constraint constr cg = cg_add_constraint constr (cg_clear cg)"

definition cg_add_state_rows :: "nat \<Rightarrow> mat \<Rightarrow> vec \<Rightarrow> constraint_to_go \<Rightarrow> constraint_to_go" where
  "cg_add_state_rows nu C h cg = cg_add C (map (\<lambda>_. replicate nu 0) C) h cg"

definition cg_propagate_backwards :: "mat \<Rightarrow> mat \<Rightarrow> vec \<Rightarrow> constraint_to_go \<Rightarrow> constraint_to_go" where
  "cg_propagate_backwards A B d cg =
     cg\<lparr> cg_C := mat_mul (cg_C cg) A, cg_D := mat_mul (cg_C cg) B,
         cg_h := vsub (cg_h cg) (mat_vec (cg_C cg) d) \<rparr>"

subsection \<open>Bounds\<close>

text \<open>
  \<open>lb == ub\<close> on two doubles, which holds for two equal infinities as well, and the
  residual \<open>x - lb\<close>, which is finite only when the bound is.

  Modelled from the spec: \<open>fixed_initial_state\<close> is declared in the missing header; the
  specification calls the initial state fixed when lower and upper bound of stage \<open>0\<close>
  agree elementwise.
\<close>

definition bounds_equal :: "bound \<Rightarrow> bound \<Rightarrow> bool" where
  "bounds_equal lb ub = (lb = ub)"

definition bound_residual :: "real \<Rightarrow> bound \<Rightarrow> real option" where
  "bound_residual x b = (case b of Fin a \<Rightarrow> Some (x - a) | _ \<Rightarrow> None)"

definition fixed_initial_state :: "solver \<Rightarrow> bool" where
  "fixed_initial_state s = list_all2 bounds_equal (m_x_lb s ! 0) (m_x_ub s ! 0)"

definition unit_row :: "nat \<Rightarrow> nat \<Rightarrow> vec" where
  "unit_row n i = (replicate n 0)[i := 1]"

text \<open>
  \<open>add_bound_constraint(k)\<close>: every state or input whose two bounds at stage \<open>k\<close>
  are equal becomes a row of the constraint-to-go, with the distance of the current
  value from the bound as residual.
\<close>

definition add_state_bound :: "nat \<Rightarrow> nat \<Rightarrow> solver \<Rightarrow> solver" where
  "add_state_bound k i s =
     (if k = 0 \<and> fixed_initial_state s then s
      else if bounds_equal (m_x_lb s ! k ! i) (m_x_ub s ! k ! i)
      then s\<lparr> m_constraint_to_go :=
                cg_add_row (unit_row (m_nx s) i) (replicate (m_nu s) 0)
                  (bound_residual (m_xtrj s ! k ! i) (m_x_lb s ! k ! i)) (m_constraint_to_go s) \<rparr>
      else s)"

definition add_input_bound :: "nat \<Rightarrow> nat \<Rightarrow> solver \<Rightarrow> solver" where
  "add_input_bound k i s =
     (if bounds_equal (m_u_lb s ! k ! i) (m_u_ub s ! k ! i)
      then s\<lparr> m_constraint_to_go :=
                cg_add_row (replicate (m_nx s) 0) (unit_row (m_nu s) i)
                  (bound_residual (m_utrj s ! k ! i) (m_u_lb s ! k ! i)) (m_constraint_to_go s) \<rparr>
      else s)"

definition add_bound_constraint :: "nat \<Rightarrow> solver \<Rightarrow> solver" where
  "add_bound_constraint k s =
     (let s1 = fold (add_state_bound k) [0..<m_nx s] s
      in if k = m_N s then s1 else fold (add_input_bound k) [0..<m_nu s1] s1)"

subsection \<open>Regularization\<close>

definition increase_regularization :: "solver \<Rightarrow> solver" where
  "increase_regularization s =
     (let s1 = (if m_hxx_reg s < 1 / 10 ^ 6 then s\<lparr> m_hxx_reg := 1 \<rparr> else s);
          s2 = s1\<lparr> m_hxx_reg := m_hxx_reg s1 * m_hxx_reg_growth_factor s1 \<rparr>
      in if m_hxx_reg s2 < m_hxx_reg_base s2 then s2\<lparr> m_hxx_reg := m_hxx_reg_base s2 \<rparr> else s2)"

subsection \<open>Constraint handling\<close>

definition leftCols :: "nat \<Rightarrow> mat \<Rightarrow> mat" where
  "leftCols n M = map (take n) M"

definition rightCols :: "nat \<Rightarrow> mat \<Rightarrow> mat" where
  "rightCols n M = map (\<lambda>row. drop (length row - n) row) M"

text \<open>
  The \<open>switch\<close> on the decomposition type in \<open>handle_constraints\<close>: each branch sets
  the configured threshold, decomposes \<open>D\<close>, takes the rank, and resets the rank to zero
  when the largest pivot, or the first singular value, is below the threshold. It returns
  the rank and the orthogonal factor.
\<close>

definition constraint_decomp_inner :: "numerics \<Rightarrow> solver \<Rightarrow> mat \<Rightarrow> error + nat \<times> mat" where
  "constraint_decomp_inner env s D =
     (case m_constr_decomp_type s of
        Cod \<Rightarrow>
          (let cod = ccod env (m_svd_threshold s) D;
               rank = pd_rank cod;
               rank = (if pd_maxPivot cod < m_svd_threshold s then 0 else rank)
           in Inr (rank, pd_matrixQ cod))
      | Qr \<Rightarrow>
          (let qr = cqr env (m_svd_threshold s) D;
               rank = pd_rank qr;
               rank = (if pd_maxPivot qr < m_svd_threshold s then 0 else rank)
           in Inr (rank, pd_matrixQ qr))
      | Svd \<Rightarrow>
          (let svd = csvd env (m_svd_threshold s) D;
               rank = sv_rank svd
           in case sv_singularValues svd of
                [] \<Rightarrow> Inl OutOfRange
              | sv0 # _ \<Rightarrow>
                  Inr (if sv0 < m_svd_threshold s then 0 else rank, sv_matrixU svd))
      | _ \<Rightarrow> Inl InvalidArgument)"

text \<open>
  The loop over the infeasible rows. A row whose residual and whose coefficients are all
  below \<open>1e-9\<close> in absolute value is reported and skipped; any other row is added to the
  constraint-to-go. The warning prints the loop variable, which is the row index.
\<close>

definition infeasible_row :: "mat \<Rightarrow> vec \<Rightarrow> nat \<Rightarrow> solver \<Rightarrow> solver" where
  "infeasible_row Cinf hinf j s =
     (if \<bar>hinf ! j\<bar> < 1 / 10 ^ 9 \<and> lpNorm_inf (Cinf ! j) < 1 / 10 ^ 9
      then s\<lparr> m_warnings := m_warnings s @ [LinearlyDependent j] \<rparr>
      else s\<lparr> m_constraint_to_go :=
               cg_add_state_rows (m_nu s) [Cinf ! j] [hinf ! j] (m_constraint_to_go s) \<rparr>)"

definition set_feasible :: "nat \<Rightarrow> mat \<Rightarrow> mat \<Rightarrow> vec \<Rightarrow> solver \<Rightarrow> solver" where
  "set_feasible i Cf Df hf s =
     s\<lparr> m_tmp := (m_tmp s)[i := (m_tmp s ! i)\<lparr> tmp_Cf := Cf, tmp_Df := Df, tmp_hf := hf \<rparr>] \<rparr>"

text \<open>
  The first part of \<open>handle_constraints(i)\<close>: propagate the constraint-to-go through the
  dynamics of stage \<open>i\<close>, add the constraint and the bound equalities of the stage, and
  record the number of rows.
\<close>

definition constraint_prepare_inner :: "nat \<Rightarrow> solver \<Rightarrow> solver" where
  "constraint_prepare_inner i s =
     (let A = dyn_A (m_dyn s ! i);
          B = dyn_B (m_dyn s ! i);
          d = dyn_d (m_dyn s ! i);
          cg1 = cg_propagate_backwards A B d (m_constraint_to_go s);
          cg2 = cg_add_constraint (m_constraint s ! i) cg1;
          s1 = add_bound_constraint i (s\<lparr> m_constraint_to_go := cg2 \<rparr>);
          nc = cg_dim (m_constraint_to_go s1)
      in s1\<lparr> m_bp_res := (m_bp_res s1)[i := (m_bp_res s1 ! i)\<lparr> bp_nc := nc \<rparr>] \<rparr>)"

text \<open>
  The last part of \<open>handle_constraints(i)\<close>: with the rank \<open>rank\<close> and the factor \<open>Q\<close>,
  the first \<open>rank\<close> columns of \<open>Q\<close> give the feasible block, the other \<open>nc - rank\<close>
  columns give the infeasible rows, which are pushed back one by one.
\<close>

definition constraint_upd_to_go_inner :: "nat \<Rightarrow> nat \<Rightarrow> mat \<Rightarrow> solver \<Rightarrow> solver" where
  "constraint_upd_to_go_inner i rank Q s =
     (let C = cg_C (m_constraint_to_go s);
          D = cg_D (m_constraint_to_go s);
          h = cg_h (m_constraint_to_go s);
          nc = cg_dim (m_constraint_to_go s);
          s1 = s\<lparr> m_tmp := (m_tmp s)[i := (m_tmp s ! i)\<lparr> tmp_codQ := Q \<rparr>] \<rparr>;
          codQ1 = leftCols rank Q;
          codQ2 = rightCols (nc - rank) Q;
          Cf = mat_mul (mtrans rank codQ1) C;
          Df = mat_mul (mtrans rank codQ1) D;
          hf = mat_vec (mtrans rank codQ1) h;
          s2 = set_feasible i Cf Df hf s1;
          Cinf = mat_mul (mtrans (nc - rank) codQ2) C;
          hinf = mat_vec (mtrans (nc - rank) codQ2) h;
          s3 = s2\<lparr> m_constraint_to_go := cg_clear (m_constraint_to_go s2) \<rparr>
      in fold (infeasible_row Cinf hinf) [0..<length hinf] s3)"

text \<open>
  \<open>handle_constraints(i)\<close>. Between the preparation and the decomposition stand
  \<open>THROW_NAN(C)\<close>, \<open>THROW_NAN(D)\<close> and \<open>THROW_NAN(h)\<close>, and after the decomposition
  \<open>THROW_NAN(tmp.codQ)\<close>. Past a residual that is not finite the model does not follow
  the run.
\<close>

definition set_codQ :: "nat \<Rightarrow> mat \<Rightarrow> solver \<Rightarrow> solver" where
  "set_codQ i Q s = s\<lparr> m_tmp := (m_tmp s)[i := (m_tmp s ! i)\<lparr> tmp_codQ := Q \<rparr>] \<rparr>"

definition handle_constraints :: "numerics \<Rightarrow> nat \<Rightarrow> solver \<Rightarrow> outcome" where
  "handle_constraints env i s =
     (let s1 = constraint_prepare_inner i s;
          cg = m_constraint_to_go s1
      in if cg_dim cg = 0 then Inr (set_feasible i [] [] [] s1)
         else
           raising (THROW_NAN env True) s1
          (raising (THROW_NAN env True) s1
          (raising (THROW_NAN env (cg_finite cg)) s1
          (if \<not> cg_finite cg then Inl (NotFinite, s1)
           else case constraint_decomp_inner env s1 (cg_D cg) of
                  Inl e \<Rightarrow> Inl (e, s1)
                | Inr (rank, Q) \<Rightarrow>
                    raising (THROW_NAN env True) (set_codQ i Q s1)
                      (Inr (constraint_upd_to_go_inner i rank Q s1))))))"

subsection \<open>One stage of the backward pass\<close>

definition mneg :: "mat \<Rightarrow> mat" where
  "mneg M = map (map uminus) M"

definition hcat :: "mat \<Rightarrow> mat \<Rightarrow> mat" where
  "hcat A B = map2 (@) A B"

text \<open>
  The components of the value function of stage \<open>i + 1\<close> seen from stage \<open>i\<close>, with
  the two regularizations added on the diagonals.
\<close>

definition form_value_fn_inner :: "nat \<Rightarrow> solver \<Rightarrow> solver" where
  "form_value_fn_inner i s =
     (let r = ic_r (m_cost s ! i); q = ic_q (m_cost s ! i);
          Q = ic_Q (m_cost s ! i); R = ic_R (m_cost s ! i); P = ic_P (m_cost s ! i);
          A = dyn_A (m_dyn s ! i); B = dyn_B (m_dyn s ! i); d = dyn_d (m_dyn s ! i);
          Snext = vf_S (m_value s ! (i + 1));
          snext = vf_s (m_value s ! (i + 1));
          s_plus_S_d = vadd snext (mat_vec Snext d);
          S_A = mat_mul Snext A;
          hx = vadd q (mat_vec (mtrans (m_nx s) A) s_plus_S_d);
          Hxx = add_to_diagonal (m_hxx_reg s) (madd Q (mat_mul (mtrans (m_nx s) A) S_A));
          hu = vadd r (mat_vec (mtrans (m_nu s) B) s_plus_S_d);
          Huu = madd R (mat_mul (mat_mul (mtrans (m_nu s) B) Snext) B);
          Hux = madd P (mat_mul (mtrans (m_nu s) B) S_A);
          Huu = add_to_diagonal (m_huu_reg s) Huu
      in s\<lparr> m_tmp := (m_tmp s)[i := (m_tmp s ! i)\<lparr>
               tmp_s_plus_S_d := s_plus_S_d, tmp_S_A := S_A, tmp_hx := hx, tmp_Hxx := Hxx,
               tmp_hu := hu, tmp_Huu := Huu, tmp_Hux := Hux \<rparr>] \<rparr>)"

text \<open>
  The KKT matrix \<open>[Huu, Df\<^sup>T; Df, -kkt_reg I]\<close> and the right-hand side
  \<open>[-Hux, -hu; -Cf, -hf]\<close>.
\<close>

definition form_kkt_inner :: "nat \<Rightarrow> solver \<Rightarrow> solver" where
  "form_kkt_inner i s =
     (let tmp = m_tmp s ! i;
          nc = length (tmp_hf tmp);
          K = hcat (tmp_Huu tmp) (mtrans (m_nu s) (tmp_Df tmp)) @
              hcat (tmp_Df tmp) (map (\<lambda>j. (replicate nc 0)[j := 0 - m_kkt_reg s]) [0..<nc]);
          kx0 = hcat (mneg (tmp_Hux tmp) @ mneg (tmp_Cf tmp))
                     (map (\<lambda>x. [x]) (map uminus (tmp_hu tmp) @ map uminus (tmp_hf tmp)))
      in s\<lparr> m_tmp := (m_tmp s)[i := tmp\<lparr> tmp_kkt := K, tmp_kx0 := kx0 \<rparr>] \<rparr>)"

definition solve_kkt_inner :: "numerics \<Rightarrow> decomposition_type \<Rightarrow> mat \<Rightarrow> mat \<Rightarrow> error + mat option" where
  "solve_kkt_inner env t K kx0 =
     (case t of
        Lu \<Rightarrow> Inr (kkt_lu env K kx0)
      | Qr \<Rightarrow> Inr (kkt_qr env K kx0)
      | Ldlt \<Rightarrow> Inr (kkt_ldlt env K kx0)
      | _ \<Rightarrow> Inl InvalidArgument)"

text \<open>Saving the solution: gain, feedforward step and multipliers are cut out of
  \<open>u_lam\<close>.\<close>

definition save_solution :: "nat \<Rightarrow> mat \<Rightarrow> solver \<Rightarrow> solver" where
  "save_solution i u_lam s =
     (let nc = length (tmp_hf (m_tmp s ! i));
          c = col u_lam (m_nx s)
      in s\<lparr> m_tmp := (m_tmp s)[i := (m_tmp s ! i)\<lparr> tmp_u_lam := u_lam \<rparr>],
            m_bp_res := (m_bp_res s)[i := (m_bp_res s ! i)\<lparr>
               bp_Lu := map (take (m_nx s)) (take (m_nu s) u_lam),
               bp_lu := take (m_nu s) c,
               bp_glam := drop (length c - nc) c \<rparr>] \<rparr>)"

text \<open>
  \<open>S = 0.5*(S + S.transpose())\<close>. Eigen evaluates the right-hand side coefficient by
  coefficient while it assigns, without a temporary: the destination is traversed column
  by column, and the coefficient \<open>(i, j)\<close> is computed from the current contents of
  \<open>S\<close>, in which the coefficients visited earlier are already overwritten.
\<close>

definition symmetrize_coeff :: "nat \<times> nat \<Rightarrow> mat \<Rightarrow> mat" where
  "symmetrize_coeff = (\<lambda>(i, j) S. S[i := (S ! i)[j := 0.5 * (S ! i ! j + S ! j ! i)]])"

definition column_major :: "nat \<Rightarrow> (nat \<times> nat) list" where
  "column_major n = concat (map (\<lambda>j. map (\<lambda>i. (i, j)) [0..<n]) [0..<n])"

definition symmetrize_in_place :: "mat \<Rightarrow> mat" where
  "symmetrize_in_place S = fold symmetrize_coeff (column_major (length S)) S"

definition upd_value_fn_inner :: "nat \<Rightarrow> solver \<Rightarrow> solver" where
  "upd_value_fn_inner i s =
     (let tmp = m_tmp s ! i;
          Lu = bp_Lu (m_bp_res s ! i);
          lu = bp_lu (m_bp_res s ! i);
          LuT = mtrans (m_nx s) Lu;
          HuxT = mtrans (m_nx s) (tmp_Hux tmp);
          S = madd (madd (tmp_Hxx tmp) (mat_mul LuT (madd (mat_mul (tmp_Huu tmp) Lu) (tmp_Hux tmp))))
                   (mat_mul HuxT Lu);
          S = symmetrize_in_place S;
          sv = vadd (vadd (tmp_hx tmp) (mat_vec HuxT lu))
                    (mat_vec LuT (vadd (tmp_hu tmp) (mat_vec (tmp_Huu tmp) lu)))
      in s\<lparr> m_value := (m_value s)[i := \<lparr> vf_S = S, vf_s = sv \<rparr>] \<rparr>)"

text \<open>
  \<open>backward_pass_iter(i)\<close>. \<open>THROW_NAN\<close> is applied to the value function of the next
  stage, to the KKT matrix and its right-hand side, to the solution \<open>u_lam\<close>, and to the
  new value function. After \<open>THROW_NAN(u_lam)\<close> comes the test that raises
  \<open>HessianIndefinite\<close>.
\<close>

definition backward_pass_iter :: "numerics \<Rightarrow> nat \<Rightarrow> solver \<Rightarrow> outcome" where
  "backward_pass_iter env i s =
     (case handle_constraints env i s of
        Inl e \<Rightarrow> Inl e
      | Inr s1 \<Rightarrow>
          raising (THROW_NAN env True) s1
         (raising (THROW_NAN env True) s1
         (let s2 = form_kkt_inner i (form_value_fn_inner i s1)
          in raising (THROW_NAN env True) s2
            (raising (THROW_NAN env True) s2
            (case solve_kkt_inner env (m_kkt_decomp_type s2)
                    (tmp_kkt (m_tmp s2 ! i)) (tmp_kx0 (m_tmp s2 ! i)) of
               Inl e \<Rightarrow> Inl (e, s2)
             | Inr u_lam \<Rightarrow>
                 raising (THROW_NAN env (u_lam \<noteq> None)) s2
                   (case u_lam of
                      None \<Rightarrow> Inl (HessianIndefinite, s2)
                    | Some X \<Rightarrow>
                        (let s3 = upd_value_fn_inner i (save_solution i X s2)
                         in raising (THROW_NAN env True) s3
                           (raising (THROW_NAN env True) s3 (Inr s3)))))))))"

subsection \<open>Initial state\<close>

text \<open>
  \<open>optimize_initial_state\<close>: with a fixed initial state the step is the distance to
  the bound, \<open>lb - x\<close>, which is finite only when the bound is. Otherwise a KKT system in the initial state and the multipliers of the
  remaining constraint-to-go is solved, and the rows that the solution leaves violated
  by the threshold or more are put back. \<open>THROW_NAN\<close> is applied to the KKT matrix, to
  its right-hand side, which holds the residuals, and to the solution.
\<close>

definition unsatisfied_row :: "mat \<Rightarrow> vec \<Rightarrow> vec \<Rightarrow> nat \<Rightarrow> solver \<Rightarrow> solver" where
  "unsatisfied_row Cinf hinf dx j s =
     (if \<bar>dot (Cinf ! j) dx + hinf ! j\<bar> < m_constraint_violation_threshold s then s
      else s\<lparr> m_constraint_to_go :=
               cg_add_state_rows (m_nu s) [Cinf ! j] [hinf ! j] (m_constraint_to_go s) \<rparr>)"

definition solve_state_kkt :: "numerics \<Rightarrow> decomposition_type \<Rightarrow> mat \<Rightarrow> vec \<Rightarrow> error + vec option" where
  "solve_state_kkt env t K k =
     (case t of
        Lu \<Rightarrow> Inr (x_lu env K k)
      | Qr \<Rightarrow> Inr (x_qr env k)
      | Ldlt \<Rightarrow> Inr (x_ldlt env K k)
      | _ \<Rightarrow> Inl InvalidArgument)"

definition optimize_initial_state :: "numerics \<Rightarrow> solver \<Rightarrow> outcome" where
  "optimize_initial_state env s =
     (if fixed_initial_state s
      then (case those (map2 (\<lambda>lb x. map_option uminus (bound_residual x lb))
                               (m_x_lb s ! 0) (m_xtrj s ! 0)) of
              None \<Rightarrow> Inl (NotFinite, s)
            | Some dx \<Rightarrow> Inr (s\<lparr> m_bp_res := (m_bp_res s)[0 := (m_bp_res s ! 0)\<lparr> bp_dx := dx \<rparr>] \<rparr>))
      else
        let S = vf_S (m_value s ! 0);
            sv = vf_s (m_value s ! 0);
            cg = m_constraint_to_go s;
            C = cg_C cg;
            h = cg_h cg;
            K = hcat S (mtrans (m_nx s) C) @ hcat C (replicate (length h) (replicate (length h) 0));
            k = map uminus sv @ map uminus h;
            s1 = s\<lparr> m_tmp := (m_tmp s)[0 := (m_tmp s ! 0)\<lparr> tmp_x_kkt := K \<rparr>] \<rparr>
        in raising (THROW_NAN env True) s1
          (raising (THROW_NAN env (cg_finite cg)) s1
          (if \<not> cg_finite cg then Inl (NotFinite, s1)
           else case solve_state_kkt env (m_kkt_decomp_type s1) K k of
                  Inl e \<Rightarrow> Inl (e, s1)
                | Inr r \<Rightarrow>
                    raising (THROW_NAN env (r \<noteq> None)) s1
                      (case r of
                         None \<Rightarrow> Inl (NotFinite, s1)
                       | Some dx_lam \<Rightarrow>
                           (let dx = take (length sv) dx_lam;
                                lam = drop (length dx_lam - length h) dx_lam;
                                s2 = s1\<lparr> m_tmp := (m_tmp s1)[0 := (m_tmp s1 ! 0)\<lparr>
                                           tmp_dx_lam := dx_lam \<rparr>],
                                        m_bp_res := (m_bp_res s1)[0 := (m_bp_res s1 ! 0)\<lparr>
                                           bp_dx := dx, bp_dx_lam := lam \<rparr>] \<rparr>;
                                s3 = s2\<lparr> m_constraint_to_go := cg_clear (m_constraint_to_go s2) \<rparr>
                            in Inr (fold (unsatisfied_row C h dx) [0..<length h] s3))))))"

subsection \<open>The backward pass\<close>

text \<open>
  The start of \<open>backward_pass\<close>: the value function of the last stage is the final
  cost, regularized, and the constraint-to-go is the final constraint with the bound
  equalities of the last stage.
\<close>

definition backward_pass_init :: "solver \<Rightarrow> solver" where
  "backward_pass_init s =
     (let n = length (m_value s) - 1;
          S = add_to_diagonal (m_hxx_reg s) (ic_Q (last (m_cost s)));
          s1 = s\<lparr> m_value := (m_value s)[n := \<lparr> vf_S = S, vf_s = ic_q (last (m_cost s)) \<rparr>],
                  m_constraint_to_go :=
                    cg_set_constraint (last (m_constraint s)) (m_constraint_to_go s) \<rparr>
      in add_bound_constraint (m_N s1) s1)"

text \<open>The stages \<open>n - 1, \<dots>, 0\<close> in turn, up to the first exception.\<close>

fun backward_stages :: "numerics \<Rightarrow> nat \<Rightarrow> solver \<Rightarrow> outcome" where
  "backward_stages env 0 s = Inr s"
| "backward_stages env (Suc i) s =
     (case backward_pass_iter env i s of
        Inl e \<Rightarrow> Inl e
      | Inr s1 \<Rightarrow> backward_stages env i s1)"

text \<open>
  The end of \<open>backward_pass\<close>: the initial state, and a warning when rows of the
  constraint-to-go are left with a residual above \<open>1e-8\<close>.
\<close>

definition backward_pass_finish :: "numerics \<Rightarrow> solver \<Rightarrow> outcome" where
  "backward_pass_finish env s =
     (case optimize_initial_state env s of
        Inl e \<Rightarrow> Inl e
      | Inr s1 \<Rightarrow>
          (let cg = m_constraint_to_go s1
           in if cg_dim cg > 0
              then (if \<not> cg_finite cg then Inl (NotFinite, s1)
                    else let residual = vadd (mat_vec (cg_C cg) (bp_dx (m_bp_res s1 ! 0))) (cg_h cg)
                         in if cwiseAbs_sum residual > 1 / 10 ^ 8
                            then Inr (s1\<lparr> m_warnings := m_warnings s1 @
                                             [NotSatisfied (cg_dim cg) (lpNorm_inf residual)] \<rparr>)
                            else Inr s1)
              else Inr s1))"

text \<open>
  \<open>backward_pass\<close>. When a stage raises \<open>HessianIndefinite\<close> the regularization is
  increased and the function calls itself; nothing bounds the number of restarts, so the
  model is a partial function, with \<open>None\<close> for a backward pass that restarts forever.
\<close>

partial_function (option) backward_pass :: "numerics \<Rightarrow> solver \<Rightarrow> outcome option" where
  "backward_pass env s =
     (let s0 = backward_pass_init s
      in case backward_stages env (m_N s0) s0 of
           Inl (e, s1) \<Rightarrow>
             (if e = HessianIndefinite then backward_pass env (increase_regularization s1)
              else Some (Inl (e, s1)))
         | Inr s1 \<Rightarrow> Some (backward_pass_finish env s1))"


section \<open>A scalar example\<close>

text \<open>
  A scalar integrator \<open>x' = x + u\<close> over one interval, from \<open>x = 1\<close> with \<open>u = 0\<close>
  and with the next state guessed as \<open>0\<close>, so that the defect is \<open>1\<close>. The stage cost is
  \<open>0.5 u\<^sup>2\<close> and the final cost \<open>0.5 x\<^sup>2\<close>, there are no constraints and no equal
  bounds, and the workspace holds the zeros it is constructed with. The linear solves
  divide by the scalar coefficient; a zero coefficient gives a solution that is not
  finite.
\<close>

definition ex_fp :: forward_pass_result where
  "ex_fp = \<lparr> fp_xtrj = [[0], [0]], fp_utrj = [[0]], fp_accepted = False, fp_alpha = 0,
     fp_step_length = 0, fp_cost = 0, fp_constraint_violation = 0, fp_defect_norm = 1,
     fp_merit = 0, fp_merit_der = 0, fp_mu_f = 0, fp_mu_c = 0 \<rparr>"

definition ex_tmp :: temporaries where
  "ex_tmp = \<lparr> tmp_dx = [0], tmp_defect = [0], tmp_s_plus_S_d = [0], tmp_S_A = [[0]],
     tmp_hx = [0], tmp_Hxx = [[0]], tmp_hu = [0], tmp_Huu = [[0]], tmp_Hux = [[0]],
     tmp_kkt = [], tmp_kx0 = [], tmp_u_lam = [], tmp_Cf = [], tmp_Df = [], tmp_hf = [],
     tmp_codQ = [], tmp_x_kkt = [], tmp_dx_lam = [] \<rparr>"

definition ex_bp :: backward_pass_result where
  "ex_bp = \<lparr> bp_Lu = [[0]], bp_lu = [0], bp_lz = [0], bp_glam = [], bp_Gu = [], bp_nc = 0,
     bp_dx = [0], bp_dx_lam = [] \<rparr>"

definition ex_solver :: solver where
  "ex_solver = \<lparr> m_nx = 1, m_nu = 1, m_N = 1,
     m_f = (\<lambda>x u. vadd x u),
     m_cost = [\<lparr> ic_l = (\<lambda>x u. 0.5 * sumsqr u), ic_Q = [[0]], ic_R = [[1]], ic_P = [[0]],
                 ic_q = [0], ic_r = [0] \<rparr>,
               \<lparr> ic_l = (\<lambda>x u. 0.5 * sumsqr x), ic_Q = [[1]], ic_R = [[0]], ic_P = [[0]],
                 ic_q = [0], ic_r = [0] \<rparr>],
     m_constraint = [\<lparr> cn_f = None, cn_C = [], cn_D = [], cn_h = [] \<rparr>,
                     \<lparr> cn_f = None, cn_C = [], cn_D = [], cn_h = [] \<rparr>],
     m_value = [\<lparr> vf_S = [[0]], vf_s = [0] \<rparr>, \<lparr> vf_S = [[0]], vf_s = [0] \<rparr>],
     m_dyn = [\<lparr> dyn_A = [[1]], dyn_B = [[1]], dyn_d = [1] \<rparr>],
     m_bp_res = [ex_bp],
     m_constraint_to_go = \<lparr> cg_C = [], cg_D = [], cg_h = [], cg_finite = True \<rparr>,
     m_fp_res = ex_fp,
     m_tmp = [ex_tmp],
     m_xtrj = [[1], [0]],
     m_utrj = [[0]],
     m_lam_x = [[0]],
     m_lam_g = [[]],
     m_x_lb = [[MInf], [MInf]], m_x_ub = [[PInf], [PInf]],
     m_u_lb = [[MInf]], m_u_ub = [[PInf]],
     m_hxx_reg = 0, m_hxx_reg_base = 0, m_hxx_reg_growth_factor = 10,
     m_huu_reg = 0, m_kkt_reg = 0, m_svd_threshold = 1 / 10 ^ 12,
     m_constraint_violation_threshold = 1 / 10 ^ 4,
     m_kkt_decomp_type = Lu, m_constr_decomp_type = Qr,
     m_reported = [], m_warnings = [] \<rparr>"

definition scalar_solve :: "mat \<Rightarrow> mat \<Rightarrow> mat option" where
  "scalar_solve K kx0 =
     (case (K, kx0) of
        ([[k]], [row]) \<Rightarrow> (if k = 0 then None else Some [map (\<lambda>x. x / k) row])
      | _ \<Rightarrow> None)"

definition scalar_decomp :: "real \<Rightarrow> mat \<Rightarrow> pivoted_decomposition" where
  "scalar_decomp thr D =
     \<lparr> pd_rank = (if \<bar>D ! 0 ! 0\<bar> > 0 then 1 else 0), pd_maxPivot = \<bar>D ! 0 ! 0\<bar>,
       pd_matrixQ = map (\<lambda>i. (replicate (length D) 0)[i := 1]) [0..<length D] \<rparr>"

text \<open>
  The numerical routines of the example, for a given reading of the macro \<open>THROW_NAN\<close>:
  in \<open>ex_env\<close> the macro raises nothing, in \<open>ex_env_hi\<close> it raises \<open>HessianIndefinite\<close> on
  a value that is not finite, in \<open>ex_env_rt\<close> it raises \<open>std::runtime_error\<close> on one.
\<close>

definition ex_numerics :: "(bool \<Rightarrow> error option) \<Rightarrow> numerics" where
  "ex_numerics macro = \<lparr> kkt_lu = scalar_solve, kkt_qr = scalar_solve, kkt_ldlt = scalar_solve,
     ccod = scalar_decomp, cqr = scalar_decomp,
     csvd = (\<lambda>thr D. \<lparr> sv_rank = pd_rank (scalar_decomp thr D),
                        sv_singularValues = [pd_maxPivot (scalar_decomp thr D)],
                        sv_matrixU = pd_matrixQ (scalar_decomp thr D) \<rparr>),
     x_lu = (\<lambda>K k. if K ! 0 ! 0 = 0 then None else Some [k ! 0 / (K ! 0 ! 0)]),
     x_qr = (\<lambda>k. None),
     x_ldlt = (\<lambda>K k. if K ! 0 ! 0 = 0 then None else Some [k ! 0 / (K ! 0 ! 0)]),
     throw_nan = macro \<rparr>"

definition ex_env :: numerics where
  "ex_env = ex_numerics (\<lambda>all_finite. None)"

definition ex_env_hi :: numerics where
  "ex_env_hi = ex_numerics (\<lambda>all_finite. if all_finite then None else Some HessianIndefinite)"

definition ex_env_rt :: numerics where
  "ex_env_rt = ex_numerics (\<lambda>all_finite. if all_finite then None else Some RuntimeError)"

text \<open>The same problem for the solver of \<open>ilqr.cpp\<close>, with zero gains.\<close>

definition ex_solver0 :: solver0 where
  "ex_solver0 = \<lparr> b_nx = 1, b_nu = 1, b_N = 1,
     b_cost = [\<lparr> cost_l = Some (\<lambda>x u. 0.5 * sumsqr u) \<rparr>,
               \<lparr> cost_l = Some (\<lambda>x u. 0.5 * sumsqr x) \<rparr>],
     b_dyn = [\<lparr> dyn_A = [[1]], dyn_B = [[1]], dyn_d = [1] \<rparr>],
     b_bp_res = [\<lparr> bp_Lfb = [[0]], bp_du_ff = [0] \<rparr>],
     b_constraint_to_go = ConstraintToGo 1,
     b_fp_res = ForwardPassResult0 1 1 1,
     b_tmp = [\<lparr> tmp0_dx = [] \<rparr>],
     b_xtrj = [[1], [0]],
     b_utrj = [[0]] \<rparr>"

text \<open>
  The update of the forward pass in the words of the specification: the new input and
  the new next state, from the deviation \<open>dx\<close> of the new state at the stage.
\<close>

definition spec_input :: "real \<Rightarrow> vec \<Rightarrow> mat \<Rightarrow> vec \<Rightarrow> vec \<Rightarrow> vec" where
  "spec_input alpha u L l dx = vadd (vadd u (vscale alpha l)) (mat_vec L dx)"

definition spec_next_state ::
    "real \<Rightarrow> vec \<Rightarrow> mat \<Rightarrow> mat \<Rightarrow> mat \<Rightarrow> vec \<Rightarrow> vec \<Rightarrow> vec \<Rightarrow> vec" where
  "spec_next_state alpha xnext A B L l d dx =
     vadd (vadd (vadd xnext (mat_vec (madd A (mat_mul B L)) dx)) (mat_vec B (vscale alpha l)))
          (vscale alpha d)"


text \<open>The example after the stage \<open>0\<close> of its backward pass.\<close>

definition ex_stage0 :: solver where
  "ex_stage0 = ex_solver\<lparr>
     m_value := [\<lparr>vf_S = [[1 / 2]], vf_s = [1 / 2]\<rparr>, \<lparr>vf_S = [[1]], vf_s = [0]\<rparr>],
     m_bp_res := [ex_bp\<lparr> bp_Lu := [[- (1 / 2)]], bp_lu := [- (1 / 2)] \<rparr>],
     m_tmp := [ex_tmp\<lparr> tmp_s_plus_S_d := [1], tmp_S_A := [[1]],
      tmp_hx := [1], tmp_Hxx := [[1]], tmp_hu := [1], tmp_Huu := [[2]],
      tmp_Hux := [[1]], tmp_kkt := [[2]], tmp_kx0 := [[- 1, - 1]],
      tmp_u_lam := [[- (1 / 2), - (1 / 2)]]\<rparr>] \<rparr>"


text \<open>
  The example with a stage cost that is linear in the input and no final cost: all
  Hessians vanish, the KKT matrix of stage \<open>0\<close> is zero, and its solution is not finite.
\<close>

definition ex_singular :: solver where
  "ex_singular = ex_solver\<lparr> m_cost :=
     [\<lparr> ic_l = (\<lambda>x u. sum_list u), ic_Q = [[0]], ic_R = [[0]], ic_P = [[0]],
        ic_q = [0], ic_r = [1] \<rparr>,
      \<lparr> ic_l = (\<lambda>x u. 0), ic_Q = [[0]], ic_R = [[0]], ic_P = [[0]],
        ic_q = [0], ic_r = [0] \<rparr>] \<rparr>"


text \<open>
  That example as its stage \<open>0\<close> leaves it when the solution is found not to be finite.
\<close>

definition ex_singular_thrown :: solver where
  "ex_singular_thrown = ex_singular\<lparr>
     m_tmp := [ex_tmp\<lparr> tmp_hu := [1], tmp_kkt := [[0]], tmp_kx0 := [[0, - 1]] \<rparr>] \<rparr>"

text \<open>
  The example after the stage \<open>0\<close> of its backward pass, with \<open>5/4\<close> taken off the stage
  cost: the cost of the current trajectory is \<open>-5/4\<close>, and the cost after a full step is
  \<open>-1\<close>.
\<close>

definition ex_neg :: solver where
  "ex_neg = ex_stage0\<lparr>
     m_cost := [\<lparr> ic_l = (\<lambda>x u. 0.5 * sumsqr u - 5 / 4), ic_Q = [[0]], ic_R = [[1]],
                  ic_P = [[0]], ic_q = [0], ic_r = [0] \<rparr>,
                \<lparr> ic_l = (\<lambda>x u. 0.5 * sumsqr x), ic_Q = [[1]], ic_R = [[0]], ic_P = [[0]],
                  ic_q = [0], ic_r = [0] \<rparr>],
     m_fp_res := ex_fp\<lparr> fp_cost := - (5 / 4) \<rparr> \<rparr>"







text \<open>
  The example with an input that hardly acts on the state (\<open>B = 1e-13\<close>) and a
  constraint-to-go of two rows, \<open>x - 1 = 0\<close> and \<open>0 = 0\<close>, as a final constraint
  leaves it. The decomposition of the example counts every nonzero pivot in the rank,
  as Eigen does with a threshold relative to the largest pivot.
\<close>

definition ex_two_rows :: solver where
  "ex_two_rows = ex_solver\<lparr>
     m_dyn := [\<lparr> dyn_A = [[1]], dyn_B = [[1 / 10 ^ 13]], dyn_d = [1] \<rparr>],
     m_constraint_to_go :=
       \<lparr> cg_C = [[1], [0]], cg_D = [[0], [0]], cg_h = [- 1, 0], cg_finite = True \<rparr> \<rparr>"


section \<open>Invariants\<close>

text \<open>
  The two updates as loop invariants: what stage \<open>i\<close> of the forward pass of either
  solver has written into the candidate trajectory \<open>fp\<close>.
\<close>

definition rollout_ok :: "real \<Rightarrow> solver \<Rightarrow> forward_pass_result \<Rightarrow> nat \<Rightarrow> bool" where
  "rollout_ok alpha s fp i =
     (let dx = vsub (fp_xtrj fp ! i) (m_xtrj s ! i);
          A = dyn_A (m_dyn s ! i); B = dyn_B (m_dyn s ! i); d = dyn_d (m_dyn s ! i);
          L = bp_Lu (m_bp_res s ! i); l = bp_lu (m_bp_res s ! i)
      in fp_utrj fp ! i = vadd (vadd (m_utrj s ! i) (vscale alpha l)) (mat_vec L dx) \<and>
         fp_xtrj fp ! (i + 1) =
           vadd (vadd (vadd (m_xtrj s ! (i + 1)) (mat_vec (madd A (mat_mul B L)) dx))
                      (mat_vec B (vscale alpha l)))
                (vscale alpha d))"


definition rollout0_ok :: "real \<Rightarrow> solver0 \<Rightarrow> forward_pass_result0 \<Rightarrow> nat \<Rightarrow> bool" where
  "rollout0_ok alpha s fp i =
     (let dx = vsub (fp0_xtrj fp ! i) (b_xtrj s ! i);
          A = dyn_A (b_dyn s ! i); B = dyn_B (b_dyn s ! i); d = dyn_d (b_dyn s ! i);
          L = bp_Lfb (b_bp_res s ! i); l = bp_du_ff (b_bp_res s ! i)
      in fp0_utrj fp ! i = vadd (vadd (b_utrj s ! i) (vscale alpha l)) (mat_vec L dx) \<and>
         fp0_xtrj fp ! (i + 1) =
           vadd (vadd (vadd (b_xtrj s ! (i + 1)) (mat_vec (madd A (mat_mul B L)) dx))
                      (mat_vec B (vscale alpha l)))
                d)"


text \<open>A square matrix of size \<open>n\<close> that agrees with its transpose entry by entry.\<close>

definition is_symmetric :: "nat \<Rightarrow> mat \<Rightarrow> bool" where
  "is_symmetric n S = (is_mat n n S \<and> (\<forall>i<n. \<forall>j<n. S ! i ! j = S ! j ! i))"

text \<open>The symmetrization in the words of the specification: \<open>(S + S\<^sup>T) / 2\<close>.\<close>

definition symmetrize_spec :: "nat \<Rightarrow> mat \<Rightarrow> mat" where
  "symmetrize_spec n S = mscale 0.5 (madd S (mtrans n S))"

text \<open>
  What the constraint handler of a stage leaves alone: the problem data, the value
  functions, the sizes, the regularizations and their settings, the sizes of the
  workspace and of the results, and the member \<open>lz\<close> of every result.
\<close>

definition stage_inputs where
  "stage_inputs s =
     (m_cost s, m_dyn s, m_value s, m_nx s, m_nu s, m_N s, m_hxx_reg s, m_huu_reg s,
      m_kkt_reg s, m_kkt_decomp_type s, length (m_tmp s), length (m_bp_res s),
      map bp_lz (m_bp_res s), m_hxx_reg_base s, m_hxx_reg_growth_factor s)"

text \<open>
  The first \<open>k\<close> stages of a backward pass over \<open>n\<close> stages, \<open>n - 1, \<dots>, n - k\<close>, up to
  the first exception.
\<close>

fun backward_stages_part :: "numerics \<Rightarrow> nat \<Rightarrow> nat \<Rightarrow> solver \<Rightarrow> outcome" where
  "backward_stages_part env 0 n s = Inr s"
| "backward_stages_part env (Suc k) 0 s = Inr s"
| "backward_stages_part env (Suc k) (Suc n) s =
     (case backward_pass_iter env n s of
        Inl e \<Rightarrow> Inl e
      | Inr s1 \<Rightarrow> backward_stages_part env k n s1)"

text \<open>
  A linear solve returns a solution of the shape of its right-hand side.
\<close>

definition solves_in_shape :: "numerics \<Rightarrow> bool" where
  "solves_in_shape env =
     (\<forall>K kx0 X. (kkt_lu env K kx0 = Some X \<or> kkt_qr env K kx0 = Some X \<or>
                  kkt_ldlt env K kx0 = Some X) \<longrightarrow> is_mat (length kx0) (ncols kx0) X)"


text \<open>
  The quadratic terms that \<open>backward_pass_iter\<close> forms at stage \<open>i\<close>, and the value
  matrix it computes from them and from the gain, before symmetrization.
\<close>

definition stage_Hxx :: "solver \<Rightarrow> nat \<Rightarrow> mat" where
  "stage_Hxx s i =
     add_to_diagonal (m_hxx_reg s)
       (madd (ic_Q (m_cost s ! i))
             (mat_mul (mtrans (m_nx s) (dyn_A (m_dyn s ! i)))
                      (mat_mul (vf_S (m_value s ! (i + 1))) (dyn_A (m_dyn s ! i)))))"

definition stage_Huu :: "solver \<Rightarrow> nat \<Rightarrow> mat" where
  "stage_Huu s i =
     add_to_diagonal (m_huu_reg s)
       (madd (ic_R (m_cost s ! i))
             (mat_mul (mat_mul (mtrans (m_nu s) (dyn_B (m_dyn s ! i))) (vf_S (m_value s ! (i + 1))))
                      (dyn_B (m_dyn s ! i))))"

definition stage_Hux :: "solver \<Rightarrow> nat \<Rightarrow> mat" where
  "stage_Hux s i =
     madd (ic_P (m_cost s ! i))
          (mat_mul (mtrans (m_nu s) (dyn_B (m_dyn s ! i)))
                   (mat_mul (vf_S (m_value s ! (i + 1))) (dyn_A (m_dyn s ! i))))"

definition value_update :: "nat \<Rightarrow> mat \<Rightarrow> mat \<Rightarrow> mat \<Rightarrow> mat \<Rightarrow> mat" where
  "value_update n Hxx Huu Hux L =
     madd (madd Hxx (mat_mul (mtrans n L) (madd (mat_mul Huu L) Hux))) (mat_mul (mtrans n Hux) L)"


text \<open>
  The merit slope in the words of the specification: the feedforward steps \<open>lu\<close> saved
  by the backward pass, paired with the input gradients \<open>hu\<close>.
\<close>

definition merit_slope_spec :: "solver \<Rightarrow> real \<Rightarrow> real \<Rightarrow> real \<Rightarrow> real \<Rightarrow> real" where
  "merit_slope_spec s mu_f mu_c defect_norm constr_viol =
     (\<Sum>i<m_N s. dot (bp_lu (m_bp_res s ! i)) (tmp_hu (m_tmp s ! i)))
       - mu_f * defect_norm - mu_c * constr_viol"





text \<open>
  The largest pivot, or the largest singular value, and the rank that the configured
  decomposition reports for \<open>D\<close> when it is computed with the configured threshold.
\<close>

definition max_pivot :: "numerics \<Rightarrow> solver \<Rightarrow> mat \<Rightarrow> real option" where
  "max_pivot env s D =
     (case m_constr_decomp_type s of
        Cod \<Rightarrow> Some (pd_maxPivot (ccod env (m_svd_threshold s) D))
      | Qr \<Rightarrow> Some (pd_maxPivot (cqr env (m_svd_threshold s) D))
      | Svd \<Rightarrow> (case sv_singularValues (csvd env (m_svd_threshold s) D) of
                  [] \<Rightarrow> None | sv0 # _ \<Rightarrow> Some sv0)
      | _ \<Rightarrow> None)"

definition decomp_rank :: "numerics \<Rightarrow> solver \<Rightarrow> mat \<Rightarrow> nat" where
  "decomp_rank env s D =
     (case m_constr_decomp_type s of
        Cod \<Rightarrow> pd_rank (ccod env (m_svd_threshold s) D)
      | Qr \<Rightarrow> pd_rank (cqr env (m_svd_threshold s) D)
      | _ \<Rightarrow> sv_rank (csvd env (m_svd_threshold s) D))"

text \<open>
  The infeasible rows that \<open>handle_constraints\<close> forms for a rank and an orthogonal
  factor, and the test under which it drops row \<open>j\<close>.
\<close>

definition infeasible_C :: "solver \<Rightarrow> nat \<Rightarrow> mat \<Rightarrow> mat" where
  "infeasible_C s rank Q =
     (let nc = cg_dim (m_constraint_to_go s)
      in mat_mul (mtrans (nc - rank) (rightCols (nc - rank) Q)) (cg_C (m_constraint_to_go s)))"

definition infeasible_h :: "solver \<Rightarrow> nat \<Rightarrow> mat \<Rightarrow> vec" where
  "infeasible_h s rank Q =
     (let nc = cg_dim (m_constraint_to_go s)
      in mat_vec (mtrans (nc - rank) (rightCols (nc - rank) Q)) (cg_h (m_constraint_to_go s)))"

definition is_dropped :: "mat \<Rightarrow> vec \<Rightarrow> nat \<Rightarrow> bool" where
  "is_dropped Cinf hinf j = (\<bar>hinf ! j\<bar> < 1 / 10 ^ 9 \<and> lpNorm_inf (Cinf ! j) < 1 / 10 ^ 9)"


text \<open>What the preparation of the constraints leaves alone besides the stage inputs.\<close>

definition config_inputs where
  "config_inputs s = (m_svd_threshold s, m_constr_decomp_type s, m_warnings s)"


section \<open>Properties\<close>

subsection \<open>Default cost\<close>

lemma fold_setCost_length:
  "length (fold (\<lambda>i c. c[i := setCost (cs ! i) (c ! i)]) [0..<n] c0) = length c0"
  by (induction n) simp_all

lemma fold_setCost_nth:
  "k < length c0 \<Longrightarrow>
   fold (\<lambda>i c. c[i := setCost (cs ! i) (c ! i)]) [0..<n] c0 ! k =
     (if k < n then setCost (cs ! k) (c0 ! k) else c0 ! k)"
proof (induction n)
  case 0
  then show ?case by simp
next
  case (Suc n)
  then show ?case
    by (cases "k = n") (simp_all add: fold_setCost_length)
qed

lemma set_default_cost_result:
  assumes "length (b_cost s) = b_N s + 1"
  shows "\<exists>s'. set_default_cost s = Inr s' \<and>
           (\<forall>k<b_N s. cost_at s' k x u = Some (0.5 * sumsqr u)) \<and>
           cost_at s' (b_N s) x u = Some (0.5 * sumsqr x)"
proof -
  let ?l = "\<lambda>(x::vec) (u::vec). 0.5 * sumsqr u"
  let ?cs = "replicate (b_N s) ?l"
  let ?c1 = "fold (\<lambda>i c. c[i := setCost (?cs ! i) (c ! i)]) [0..<b_N s] (b_cost s)"
  have len: "length ?c1 = b_N s + 1"
    using assms by (simp add: fold_setCost_length)
  have inter: "cost_l (?c1 ! k) = Some ?l" if "k < b_N s" for k
  proof -
    have "?c1 ! k = setCost (?cs ! k) (b_cost s ! k)"
      using that assms by (simp add: fold_setCost_nth)
    then show ?thesis using that by (simp add: setCost_def)
  qed
  have "set_default_cost s = Inr (setFinalCost (\<lambda>x u. 0.5 * sumsqr x) (s\<lparr> b_cost := ?c1 \<rparr>))"
    by (simp add: set_default_cost_def setIntermediateCost_def)
  moreover have "cost_at (setFinalCost (\<lambda>x u. 0.5 * sumsqr x) (s\<lparr> b_cost := ?c1 \<rparr>)) k x u
                   = Some (0.5 * sumsqr u)" if "k < b_N s" for k
    using that len inter [OF that] by (simp add: cost_at_def setFinalCost_def)
  moreover have "cost_at (setFinalCost (\<lambda>x u. 0.5 * sumsqr x) (s\<lparr> b_cost := ?c1 \<rparr>)) (b_N s) x u
                   = Some (0.5 * sumsqr x)"
    using len by (simp add: cost_at_def setFinalCost_def setCost_def)
  ultimately show ?thesis by simp
qed

lemma int32_in_range: "0 \<le> N \<Longrightarrow> N < 2147483647 \<Longrightarrow> int32 (N + 1) = N + 1"
  by (simp add: int32_def)

text \<open>
  At the largest \<open>int\<close> the count \<open>N + 1\<close> of the cost vector wraps to a negative number
  and the constructor fails.
\<close>

lemma construction_overflow: "IterativeLQR fdyn 2147483647 = Inl LengthError"
  by (simp add: IterativeLQR_def int32_def)

text \<open>
  Claim C10: right after \<open>IterativeLQR(fdyn, N)\<close> with \<open>0 \<le> N < 2147483647\<close>, and before
  any cost setter is called, the constructor has succeeded with a horizon of \<open>N\<close> stages
  and \<open>N + 1\<close> costs, the cost installed at every stage \<open>k < N\<close> is \<open>0.5 * \<parallel>u\<parallel>\<^sup>2\<close> and the
  cost installed at stage \<open>N\<close> is \<open>0.5 * \<parallel>x\<parallel>\<^sup>2\<close>. So every cost that a pass over the
  horizon quadratizes or evaluates holds a function, without the user installing one.
\<close>

theorem default_cost_after_construction:
  assumes "0 \<le> N" and "N < 2147483647"
  shows "\<exists>s. IterativeLQR fdyn N = Inr s \<and> b_N s = nat N \<and> length (b_cost s) = nat N + 1 \<and>
           (\<forall>k<nat N. cost_at s k x u = Some (0.5 * sumsqr u)) \<and>
           cost_at s (nat N) x u = Some (0.5 * sumsqr x) \<and>
           (\<forall>k\<le>nat N. cost_l (b_cost s ! k) \<noteq> None)"
proof -
  let ?s0 = "\<lparr> b_nx = size1_in0 fdyn, b_nu = size1_in1 fdyn, b_N = nat N,
               b_cost = replicate (nat N + 1) (IntermediateCost (size1_in0 fdyn) (size1_in1 fdyn)),
               b_dyn = replicate (nat N) (Dynamics (size1_in0 fdyn) (size1_in1 fdyn)),
               b_bp_res = replicate (nat N) (BackwardPassResult0 (size1_in0 fdyn) (size1_in1 fdyn)),
               b_constraint_to_go = ConstraintToGo (size1_in0 fdyn),
               b_fp_res = ForwardPassResult0 (size1_in0 fdyn) (size1_in1 fdyn) (nat N),
               b_tmp = replicate (nat N) \<lparr> tmp0_dx = [] \<rparr>,
               b_xtrj = replicate (nat N + 1) (replicate (size1_in0 fdyn) 0),
               b_utrj = replicate (nat N) (replicate (size1_in1 fdyn) 0) \<rparr>"
  have n1: "nat (N + 1) = nat N + 1" using assms(1) by simp
  have c: "IterativeLQR fdyn N = set_default_cost ?s0"
    using assms by (simp add: IterativeLQR_def Let_def int32_in_range n1)
  have len: "length (b_cost ?s0) = b_N ?s0 + 1" by simp
  from set_default_cost_result [OF len, of "[]" "[]"]
  obtain s' where s1: "set_default_cost ?s0 = Inr s'" by auto
  have s2: "\<forall>k<nat N. cost_at s' k x u = Some (0.5 * sumsqr u)"
    and s3: "cost_at s' (nat N) x u = Some (0.5 * sumsqr x)" for x u
    using set_default_cost_result [OF len, of x u] s1 by auto
  note s' = s1 s2 s3
  have f: "b_N s' = nat N" "length (b_cost s') = nat N + 1"
    using s'(1)
    by (auto simp: set_default_cost_def setIntermediateCost_def setFinalCost_def Let_def
                   fold_setCost_length split: sum.splits if_splits)
  have "cost_l (b_cost s' ! k) \<noteq> None" if "k \<le> nat N" for k
  proof (cases "k < nat N")
    case True
    then show ?thesis
      using s'(2) [of "[]" "[]"] f(2) by (auto simp: cost_at_def split: option.splits)
  next
    case False
    then have "k = nat N" using that by simp
    then show ?thesis
      using s'(3) [of "[]" "[]"] f(2) by (auto simp: cost_at_def split: option.splits)
  qed
  with c s' f show ?thesis by auto
qed

theorem default_cost_after_construction_witness:
  "(0::int) \<le> 3 \<and> (3::int) < 2147483647 \<and>
   (\<exists>s. IterativeLQR \<lparr> size1_in0 = 2, size1_in1 = 1, f_call = (\<lambda>x u. x) \<rparr> 3 = Inr s \<and>
        length (b_cost s) = 4 \<and>
        cost_at s 0 [1, 2] [3] = Some (9 / 2) \<and>
        cost_at s 2 [1, 2] [3] = Some (9 / 2) \<and>
        cost_at s 3 [1, 2] [3] = Some (5 / 2))"
  using default_cost_after_construction
          [of 3 "\<lparr> size1_in0 = 2, size1_in1 = 1, f_call = (\<lambda>x u. x) \<rparr>" "[1, 2]" "[3]"]
  by (auto simp: sumsqr_def)

subsection \<open>Capacity of the constraint-to-go store\<close>

lemma ctg_set_within_capacity:
  "length h_to_add = length C_to_add \<Longrightarrow> length (ctg_C ctg) = length (ctg_h ctg) \<Longrightarrow>
   length h_to_add \<le> ctg_capacity ctg \<Longrightarrow>
   ctg_capacity (ctg_set C_to_add h_to_add ctg) = ctg_capacity ctg \<and>
   ctg_dim (ctg_set C_to_add h_to_add ctg) \<le> ctg_capacity ctg"
  by (simp add: ctg_set_def ctg_capacity_def Let_def)

text \<open>
  Claim C8 says that every set of rows keeps the dimension of the constraint-to-go store
  within the capacity of \<open>10 * nx\<close> rows allocated at construction. \<open>set\<close> does not
  check this: for \<open>nx = 1\<close> the capacity is ten rows, and setting the store from a final
  constraint with eleven rows leaves \<open>_dim = 11\<close>, with the rows written past the
  allocated storage.
\<close>

theorem ctg_set_exceeds_capacity:
  "ctg_capacity (ConstraintToGo 1) = 10 \<and>
   ctg_dim (ctg_set_constraint constr11 (ConstraintToGo 1)) = 11 \<and>
   length (ctg_C (ctg_set_constraint constr11 (ConstraintToGo 1))) = 11"
  by (simp add: ctg_capacity_def ConstraintToGo_def ctg_set_constraint_def ctg_set_def
                constr11_def Let_def)

subsection \<open>Forward pass\<close>

lemma forward_pass_iter_frame:
  "m_xtrj (forward_pass_iter i alpha s) = m_xtrj s"
  "m_utrj (forward_pass_iter i alpha s) = m_utrj s"
  "m_dyn (forward_pass_iter i alpha s) = m_dyn s"
  "m_bp_res (forward_pass_iter i alpha s) = m_bp_res s"
  "m_N (forward_pass_iter i alpha s) = m_N s"
  "length (fp_xtrj (m_fp_res (forward_pass_iter i alpha s))) = length (fp_xtrj (m_fp_res s))"
  "length (fp_utrj (m_fp_res (forward_pass_iter i alpha s))) = length (fp_utrj (m_fp_res s))"
  by (simp_all add: forward_pass_iter_def Let_def)

lemma forward_pass_iter_cols:
  assumes "length (fp_xtrj (m_fp_res s)) = n + 1" "length (fp_utrj (m_fp_res s)) = n" "k < n"
  shows "rollout_ok alpha s (m_fp_res (forward_pass_iter k alpha s)) k"
    and "\<And>j. j \<noteq> k + 1 \<Longrightarrow> fp_xtrj (m_fp_res (forward_pass_iter k alpha s)) ! j = fp_xtrj (m_fp_res s) ! j"
    and "\<And>j. j \<noteq> k \<Longrightarrow> fp_utrj (m_fp_res (forward_pass_iter k alpha s)) ! j = fp_utrj (m_fp_res s) ! j"
  using assms by (simp_all add: forward_pass_iter_def rollout_ok_def Let_def)

lemma rollout_ok_cong:
  assumes "m_xtrj s' = m_xtrj s" "m_utrj s' = m_utrj s" "m_dyn s' = m_dyn s" "m_bp_res s' = m_bp_res s"
    "fp_xtrj fp' ! i = fp_xtrj fp ! i" "fp_xtrj fp' ! (i + 1) = fp_xtrj fp ! (i + 1)"
    "fp_utrj fp' ! i = fp_utrj fp ! i"
  shows "rollout_ok alpha s' fp' i = rollout_ok alpha s fp i"
  using assms by (simp add: rollout_ok_def)

lemma forward_loop_inv:
  assumes "length (fp_xtrj (m_fp_res s)) = n + 1" "length (fp_utrj (m_fp_res s)) = n" "k \<le> n"
  shows "m_xtrj (fold (\<lambda>i. forward_pass_iter i alpha) [0..<k] s) = m_xtrj s \<and>
         m_utrj (fold (\<lambda>i. forward_pass_iter i alpha) [0..<k] s) = m_utrj s \<and>
         m_dyn (fold (\<lambda>i. forward_pass_iter i alpha) [0..<k] s) = m_dyn s \<and>
         m_bp_res (fold (\<lambda>i. forward_pass_iter i alpha) [0..<k] s) = m_bp_res s \<and>
         m_N (fold (\<lambda>i. forward_pass_iter i alpha) [0..<k] s) = m_N s \<and>
         length (fp_xtrj (m_fp_res (fold (\<lambda>i. forward_pass_iter i alpha) [0..<k] s))) = n + 1 \<and>
         length (fp_utrj (m_fp_res (fold (\<lambda>i. forward_pass_iter i alpha) [0..<k] s))) = n \<and>
         fp_xtrj (m_fp_res (fold (\<lambda>i. forward_pass_iter i alpha) [0..<k] s)) ! 0 = fp_xtrj (m_fp_res s) ! 0 \<and>
         (\<forall>i<k. rollout_ok alpha s (m_fp_res (fold (\<lambda>i. forward_pass_iter i alpha) [0..<k] s)) i)"
  using assms(3)
proof (induction k)
  case 0
  then show ?case using assms by simp
next
  case (Suc k)
  let ?t = "fold (\<lambda>i. forward_pass_iter i alpha) [0..<k] s"
  have ih: "m_xtrj ?t = m_xtrj s" "m_utrj ?t = m_utrj s" "m_dyn ?t = m_dyn s"
    "m_bp_res ?t = m_bp_res s" "m_N ?t = m_N s"
    "length (fp_xtrj (m_fp_res ?t)) = n + 1" "length (fp_utrj (m_fp_res ?t)) = n"
    "fp_xtrj (m_fp_res ?t) ! 0 = fp_xtrj (m_fp_res s) ! 0"
    "\<forall>i<k. rollout_ok alpha s (m_fp_res ?t) i"
    using Suc by simp_all
  have kn: "k < n" using Suc.prems by simp
  have step: "fold (\<lambda>i. forward_pass_iter i alpha) [0..<Suc k] s = forward_pass_iter k alpha ?t"
    by simp
  note c = forward_pass_iter_cols [OF ih(6) ih(7) kn, where alpha=alpha]
  have new: "rollout_ok alpha s (m_fp_res (forward_pass_iter k alpha ?t)) k"
    using c(1) by (simp add: rollout_ok_def ih)
  have old: "rollout_ok alpha s (m_fp_res (forward_pass_iter k alpha ?t)) i" if "i < k" for i
  proof -
    have "rollout_ok alpha s (m_fp_res (forward_pass_iter k alpha ?t)) i
            = rollout_ok alpha s (m_fp_res ?t) i"
      using that by (intro rollout_ok_cong) (simp_all add: c(2) c(3))
    then show ?thesis using ih(9) that by simp
  qed
  have all: "\<forall>i<Suc k. rollout_ok alpha s (m_fp_res (forward_pass_iter k alpha ?t)) i"
    using new old less_Suc_eq by auto
  show ?case
    unfolding step using all ih
    by (simp add: forward_pass_iter_frame c(2))
qed


lemma fold_forward_pass_iter_frame:
  "m_N (fold (\<lambda>i. forward_pass_iter i a) js s) = m_N s \<and>
   m_reported (fold (\<lambda>i. forward_pass_iter i a) js s) = m_reported s \<and>
   fp_alpha (m_fp_res (fold (\<lambda>i. forward_pass_iter i a) js s)) = fp_alpha (m_fp_res s)"
  by (induction js arbitrary: s) (simp_all add: forward_pass_iter_def Let_def)

lemma constr_at_frame:
  "m_fp_res (snd (constr_at xs us i iu cs)) = m_fp_res (snd cs)"
  "m_N (snd (constr_at xs us i iu cs)) = m_N (snd cs)"
  "m_reported (snd (constr_at xs us i iu cs)) = m_reported (snd cs)"
  by (cases cs; simp add: constr_at_def Let_def)+

lemma fold_constr_at_frame:
  "m_fp_res (snd (fold (\<lambda>i. constr_at xs us i (g i)) js cs)) = m_fp_res (snd cs) \<and>
   m_N (snd (fold (\<lambda>i. constr_at xs us i (g i)) js cs)) = m_N (snd cs) \<and>
   m_reported (snd (fold (\<lambda>i. constr_at xs us i (g i)) js cs)) = m_reported (snd cs)"
  by (induction js arbitrary: cs) (simp_all add: constr_at_frame)

lemma compute_constr_frame:
  assumes "compute_constr xs us s = Inr (c, s')"
  shows "m_fp_res s' = m_fp_res s" "m_N s' = m_N s" "m_reported s' = m_reported s"
  using assms fold_constr_at_frame [of xs us "\<lambda>i. i" "[0..<m_N s]" "(0, s)"]
        constr_at_frame [of xs us "m_N s" "m_N s - 1" "fold (\<lambda>i. constr_at xs us i i) [0..<m_N s] (0, s)"]
  by (auto simp: compute_constr_def Let_def case_prod_beta split: if_splits)

lemma compute_constr_Inr:
  "0 < m_N s \<Longrightarrow> \<exists>c s'. compute_constr xs us s = Inr (c, s')"
  by (simp add: compute_constr_def Let_def case_prod_beta)

lemma defect_at_frame:
  "m_fp_res (snd (defect_at xs us i cs)) = m_fp_res (snd cs)"
  "m_N (snd (defect_at xs us i cs)) = m_N (snd cs)"
  "m_reported (snd (defect_at xs us i cs)) = m_reported (snd cs)"
  by (cases cs; simp add: defect_at_def Let_def)+

lemma fold_defect_at_frame:
  "m_fp_res (snd (fold (defect_at xs us) js cs)) = m_fp_res (snd cs) \<and>
   m_N (snd (fold (defect_at xs us) js cs)) = m_N (snd cs) \<and>
   m_reported (snd (fold (defect_at xs us) js cs)) = m_reported (snd cs)"
  by (induction js arbitrary: cs) (simp_all add: defect_at_frame)

lemma compute_defect_frame:
  assumes "compute_defect xs us s = Inr (c, s')"
  shows "m_fp_res s' = m_fp_res s" "m_N s' = m_N s" "m_reported s' = m_reported s"
  using assms fold_defect_at_frame [of xs us "[0..<m_N s]" "(0, s)"]
  by (auto simp: compute_defect_def Let_def case_prod_beta split: if_splits)

lemma compute_defect_Inr:
  "0 < m_N s \<Longrightarrow> \<exists>c s'. compute_defect xs us s = Inr (c, s')"
  by (simp add: compute_defect_def Let_def case_prod_beta)

text \<open>
  With at least one stage the forward pass returns; its result holds the trajectory that
  the loop over the stages has rolled out, and the scores of that trajectory.
\<close>

lemma forward_pass_Inr:
  assumes "0 < m_N s"
  shows "\<exists>s'. forward_pass alpha s = Inr s' \<and> m_N s' = m_N s \<and>
           m_reported s' = m_reported s \<and> fp_alpha (m_fp_res s') = alpha \<and>
           fp_xtrj (m_fp_res s') =
             fp_xtrj (m_fp_res (fold (\<lambda>i. forward_pass_iter i alpha) [0..<m_N s]
               (s\<lparr> m_fp_res := (m_fp_res s)\<lparr> fp_accepted := False, fp_alpha := alpha,
                      fp_step_length := 0, fp_xtrj := (fp_xtrj (m_fp_res s))[0 := m_xtrj s ! 0] \<rparr> \<rparr>))) \<and>
           fp_utrj (m_fp_res s') =
             fp_utrj (m_fp_res (fold (\<lambda>i. forward_pass_iter i alpha) [0..<m_N s]
               (s\<lparr> m_fp_res := (m_fp_res s)\<lparr> fp_accepted := False, fp_alpha := alpha,
                      fp_step_length := 0, fp_xtrj := (fp_xtrj (m_fp_res s))[0 := m_xtrj s ! 0] \<rparr> \<rparr>)))"
proof -
  let ?s0 = "s\<lparr> m_fp_res := (m_fp_res s)\<lparr> fp_accepted := False, fp_alpha := alpha,
                  fp_step_length := 0, fp_xtrj := (fp_xtrj (m_fp_res s))[0 := m_xtrj s ! 0] \<rparr> \<rparr>"
  let ?s1 = "fold (\<lambda>i. forward_pass_iter i alpha) [0..<m_N s] ?s0"
  let ?xs = "fp_xtrj (m_fp_res ?s1)" and ?us = "fp_utrj (m_fp_res ?s1)"
  have f1: "m_N ?s1 = m_N s" "m_reported ?s1 = m_reported s" "fp_alpha (m_fp_res ?s1) = alpha"
    using fold_forward_pass_iter_frame [of alpha "[0..<m_N s]" ?s0] by simp_all
  obtain cost where cost: "compute_cost ?s1 ?xs ?us = Inr cost"
    using assms f1(1) by (simp add: compute_cost_def Let_def)
  obtain constr s2 where c2: "compute_constr ?xs ?us ?s1 = Inr (constr, s2)"
    using compute_constr_Inr [of ?s1 ?xs ?us] assms f1(1) by auto
  note f2 = compute_constr_frame [OF c2]
  obtain defect s3 where c3: "compute_defect ?xs ?us s2 = Inr (defect, s3)"
    using compute_defect_Inr [of s2 ?xs ?us] assms f1(1) f2(2) by auto
  note f3 = compute_defect_frame [OF c3]
  have "forward_pass alpha s = Inr (s3\<lparr> m_fp_res := (m_fp_res s3)\<lparr> fp_cost := cost,
          fp_constraint_violation := constr, fp_defect_norm := defect \<rparr> \<rparr>)"
    using cost c2 c3 by (simp add: forward_pass_def Let_def)
  then show ?thesis
    using f1 f2 f3 by simp
qed

text \<open>Without stages the forward pass reads the input of stage \<open>-1\<close>.\<close>

lemma forward_pass_no_stage: "m_N s = 0 \<Longrightarrow> forward_pass alpha s = Inl OutOfRange"
  by (simp add: forward_pass_def compute_cost_def Let_def)

lemma forward_pass_rollout:
  assumes "length (fp_xtrj (m_fp_res s)) = m_N s + 1"
    and "length (fp_utrj (m_fp_res s)) = m_N s"
    and "i < m_N s"
  shows "\<exists>s'. forward_pass alpha s = Inr s' \<and>
        (let fp = m_fp_res s';
             dx = vsub (fp_xtrj fp ! i) (m_xtrj s ! i);
             A = dyn_A (m_dyn s ! i); B = dyn_B (m_dyn s ! i); d = dyn_d (m_dyn s ! i);
             L = bp_Lu (m_bp_res s ! i); l = bp_lu (m_bp_res s ! i)
         in fp_xtrj fp ! 0 = m_xtrj s ! 0 \<and>
            fp_utrj fp ! i = vadd (vadd (m_utrj s ! i) (vscale alpha l)) (mat_vec L dx) \<and>
            fp_xtrj fp ! (i + 1) =
              vadd (vadd (vadd (m_xtrj s ! (i + 1)) (mat_vec (madd A (mat_mul B L)) dx))
                         (mat_vec B (vscale alpha l)))
                   (vscale alpha d))"
proof -
  let ?s0 = "s\<lparr> m_fp_res := (m_fp_res s)\<lparr> fp_accepted := False, fp_alpha := alpha,
                  fp_step_length := 0, fp_xtrj := (fp_xtrj (m_fp_res s))[0 := m_xtrj s ! 0] \<rparr> \<rparr>"
  let ?s1 = "fold (\<lambda>i. forward_pass_iter i alpha) [0..<m_N s] ?s0"
  have pos: "0 < m_N s" using assms(3) by simp
  from forward_pass_Inr [OF pos, of alpha] obtain s' where
    s': "forward_pass alpha s = Inr s'"
        "fp_xtrj (m_fp_res s') = fp_xtrj (m_fp_res ?s1)"
        "fp_utrj (m_fp_res s') = fp_utrj (m_fp_res ?s1)"
    by blast
  have l1: "length (fp_xtrj (m_fp_res ?s0)) = m_N s + 1" using assms(1) by simp
  have l2: "length (fp_utrj (m_fp_res ?s0)) = m_N s" using assms(2) by simp
  from forward_loop_inv [OF l1 l2 order_refl, of alpha]
  have inv: "fp_xtrj (m_fp_res ?s1) ! 0 = fp_xtrj (m_fp_res ?s0) ! 0"
    "\<forall>i<m_N s. rollout_ok alpha ?s0 (m_fp_res ?s1) i"
    by blast+
  have x0: "fp_xtrj (m_fp_res ?s0) ! 0 = m_xtrj s ! 0" using assms(1) by simp
  have "rollout_ok alpha ?s0 (m_fp_res ?s1) i" using inv(2) assms(3) by blast
  then have r: "rollout_ok alpha s (m_fp_res ?s1) i" by (simp add: rollout_ok_def)
  show ?thesis
    using r inv(1) x0 s'
    by (intro exI [of _ s']) (simp add: rollout_ok_def Let_def)
qed

lemma forward_pass_iter0_frame:
  "b_xtrj (forward_pass_iter0 i alpha s) = b_xtrj s"
  "b_utrj (forward_pass_iter0 i alpha s) = b_utrj s"
  "b_dyn (forward_pass_iter0 i alpha s) = b_dyn s"
  "b_bp_res (forward_pass_iter0 i alpha s) = b_bp_res s"
  "length (fp0_xtrj (b_fp_res (forward_pass_iter0 i alpha s))) = length (fp0_xtrj (b_fp_res s))"
  "length (fp0_utrj (b_fp_res (forward_pass_iter0 i alpha s))) = length (fp0_utrj (b_fp_res s))"
  by (simp_all add: forward_pass_iter0_def Let_def)

lemma forward_pass_iter0_cols:
  assumes "length (fp0_xtrj (b_fp_res s)) = n + 1" "length (fp0_utrj (b_fp_res s)) = n" "k < n"
  shows "rollout0_ok alpha s (b_fp_res (forward_pass_iter0 k alpha s)) k"
    and "\<And>j. j \<noteq> k + 1 \<Longrightarrow>
           fp0_xtrj (b_fp_res (forward_pass_iter0 k alpha s)) ! j = fp0_xtrj (b_fp_res s) ! j"
    and "\<And>j. j \<noteq> k \<Longrightarrow>
           fp0_utrj (b_fp_res (forward_pass_iter0 k alpha s)) ! j = fp0_utrj (b_fp_res s) ! j"
  using assms by (simp_all add: forward_pass_iter0_def rollout0_ok_def Let_def)

lemma rollout0_ok_cong:
  assumes "b_xtrj s' = b_xtrj s" "b_utrj s' = b_utrj s" "b_dyn s' = b_dyn s"
    "b_bp_res s' = b_bp_res s"
    "fp0_xtrj fp' ! i = fp0_xtrj fp ! i" "fp0_xtrj fp' ! (i + 1) = fp0_xtrj fp ! (i + 1)"
    "fp0_utrj fp' ! i = fp0_utrj fp ! i"
  shows "rollout0_ok alpha s' fp' i = rollout0_ok alpha s fp i"
  using assms by (simp add: rollout0_ok_def)

lemma forward_loop0_inv:
  assumes "length (fp0_xtrj (b_fp_res s)) = n + 1" "length (fp0_utrj (b_fp_res s)) = n" "k \<le> n"
  shows "b_xtrj (fold (\<lambda>i. forward_pass_iter0 i alpha) [0..<k] s) = b_xtrj s \<and>
         b_utrj (fold (\<lambda>i. forward_pass_iter0 i alpha) [0..<k] s) = b_utrj s \<and>
         b_dyn (fold (\<lambda>i. forward_pass_iter0 i alpha) [0..<k] s) = b_dyn s \<and>
         b_bp_res (fold (\<lambda>i. forward_pass_iter0 i alpha) [0..<k] s) = b_bp_res s \<and>
         length (fp0_xtrj (b_fp_res (fold (\<lambda>i. forward_pass_iter0 i alpha) [0..<k] s))) = n + 1 \<and>
         length (fp0_utrj (b_fp_res (fold (\<lambda>i. forward_pass_iter0 i alpha) [0..<k] s))) = n \<and>
         fp0_xtrj (b_fp_res (fold (\<lambda>i. forward_pass_iter0 i alpha) [0..<k] s)) ! 0
           = fp0_xtrj (b_fp_res s) ! 0 \<and>
         (\<forall>i<k. rollout0_ok alpha s (b_fp_res (fold (\<lambda>i. forward_pass_iter0 i alpha) [0..<k] s)) i)"
  using assms(3)
proof (induction k)
  case 0
  then show ?case using assms by simp
next
  case (Suc k)
  let ?t = "fold (\<lambda>i. forward_pass_iter0 i alpha) [0..<k] s"
  have ih: "b_xtrj ?t = b_xtrj s" "b_utrj ?t = b_utrj s" "b_dyn ?t = b_dyn s"
    "b_bp_res ?t = b_bp_res s"
    "length (fp0_xtrj (b_fp_res ?t)) = n + 1" "length (fp0_utrj (b_fp_res ?t)) = n"
    "fp0_xtrj (b_fp_res ?t) ! 0 = fp0_xtrj (b_fp_res s) ! 0"
    "\<forall>i<k. rollout0_ok alpha s (b_fp_res ?t) i"
    using Suc by simp_all
  have kn: "k < n" using Suc.prems by simp
  have step: "fold (\<lambda>i. forward_pass_iter0 i alpha) [0..<Suc k] s = forward_pass_iter0 k alpha ?t"
    by simp
  note c = forward_pass_iter0_cols [OF ih(5) ih(6) kn, where alpha=alpha]
  have new: "rollout0_ok alpha s (b_fp_res (forward_pass_iter0 k alpha ?t)) k"
    using c(1) by (simp add: rollout0_ok_def ih)
  have old: "rollout0_ok alpha s (b_fp_res (forward_pass_iter0 k alpha ?t)) i" if "i < k" for i
  proof -
    have "rollout0_ok alpha s (b_fp_res (forward_pass_iter0 k alpha ?t)) i
            = rollout0_ok alpha s (b_fp_res ?t) i"
      using that by (intro rollout0_ok_cong) (simp_all add: c(2) c(3))
    then show ?thesis using ih(8) that by simp
  qed
  have all: "\<forall>i<Suc k. rollout0_ok alpha s (b_fp_res (forward_pass_iter0 k alpha ?t)) i"
    using new old less_Suc_eq by auto
  show ?case
    unfolding step using all ih
    by (simp add: forward_pass_iter0_frame c(2))
qed

lemma forward_pass0_rollout:
  assumes "length (b_xtrj s) = b_N s + 1" and "length (b_utrj s) = b_N s" and "i < b_N s"
  shows "let s' = forward_pass0 alpha s;
             dx = vsub (b_xtrj s' ! i) (b_xtrj s ! i);
             A = dyn_A (b_dyn s ! i); B = dyn_B (b_dyn s ! i); d = dyn_d (b_dyn s ! i);
             L = bp_Lfb (b_bp_res s ! i); l = bp_du_ff (b_bp_res s ! i)
         in b_xtrj s' ! 0 = b_xtrj s ! 0 \<and>
            b_utrj s' ! i = spec_input alpha (b_utrj s ! i) L l dx \<and>
            b_xtrj s' ! (i + 1) =
              vadd (vadd (vadd (b_xtrj s ! (i + 1)) (mat_vec (madd A (mat_mul B L)) dx))
                         (mat_vec B (vscale alpha l)))
                   d"
proof -
  let ?s0 = "s\<lparr> b_fp_res := \<lparr> fp0_xtrj = b_xtrj s, fp0_utrj = b_utrj s \<rparr> \<rparr>"
  let ?s1 = "fold (\<lambda>i. forward_pass_iter0 i alpha) [0..<b_N s] ?s0"
  have l1: "length (fp0_xtrj (b_fp_res ?s0)) = b_N s + 1" using assms(1) by simp
  have l2: "length (fp0_utrj (b_fp_res ?s0)) = b_N s" using assms(2) by simp
  from forward_loop0_inv [OF l1 l2 order_refl, of alpha]
  have inv: "fp0_xtrj (b_fp_res ?s1) ! 0 = fp0_xtrj (b_fp_res ?s0) ! 0"
    "\<forall>i<b_N s. rollout0_ok alpha ?s0 (b_fp_res ?s1) i"
    by blast+
  have "rollout0_ok alpha ?s0 (b_fp_res ?s1) i" using inv(2) assms(3) by blast
  then have r: "rollout0_ok alpha s (b_fp_res ?s1) i" by (simp add: rollout0_ok_def)
  have res: "b_xtrj (forward_pass0 alpha s) = fp0_xtrj (b_fp_res ?s1)"
            "b_utrj (forward_pass0 alpha s) = fp0_utrj (b_fp_res ?s1)"
    by (simp_all add: forward_pass0_def forward_pass_loop0_def Let_def)
  show ?thesis
    using r inv(1)
    by (simp add: res rollout0_ok_def spec_input_def Let_def)
qed


lemma ex_solver_fields:
  "m_N ex_solver = 1" "m_xtrj ex_solver = [[1], [0]]" "m_utrj ex_solver = [[0]]"
  "m_dyn ex_solver = [\<lparr> dyn_A = [[1]], dyn_B = [[1]], dyn_d = [1] \<rparr>]"
  "m_bp_res ex_solver = [ex_bp]" "m_fp_res ex_solver = ex_fp" "m_tmp ex_solver = [ex_tmp]"
  "m_nx ex_solver = 1" "m_nu ex_solver = 1"
  by (simp_all add: ex_solver_def)

lemma ex_solver0_fields:
  "b_N ex_solver0 = 1" "b_xtrj ex_solver0 = [[1], [0]]" "b_utrj ex_solver0 = [[0]]"
  "b_dyn ex_solver0 = [\<lparr> dyn_A = [[1]], dyn_B = [[1]], dyn_d = [1] \<rparr>]"
  "b_bp_res ex_solver0 = [\<lparr> bp_Lfb = [[0]], bp_du_ff = [0] \<rparr>]"
  by (simp_all add: ex_solver0_def)

lemmas lin_alg_defs = vadd_def vsub_def vscale_def mat_vec_def madd_def mat_mul_def dot_def
  ncols_def col_def

text \<open>
  Claim C4, as stated: the forward pass adds the defect multiplied by \<open>alpha\<close>. The
  forward pass of \<open>ilqr.cpp\<close> adds the defect in full: with \<open>alpha = 1/2\<close>, zero gains
  and defect \<open>1\<close>, it moves the next state from \<open>0\<close> to \<open>1\<close>, where the stated update
  gives \<open>1/2\<close>.
\<close>

theorem forward_pass_defect_counterexample:
  "b_xtrj (forward_pass0 (1 / 2) ex_solver0) ! 1 = [1] \<and>
   spec_next_state (1 / 2) (b_xtrj ex_solver0 ! 1) (dyn_A (b_dyn ex_solver0 ! 0))
     (dyn_B (b_dyn ex_solver0 ! 0)) (bp_Lfb (b_bp_res ex_solver0 ! 0))
     (bp_du_ff (b_bp_res ex_solver0 ! 0)) (dyn_d (b_dyn ex_solver0 ! 0))
     (vsub (b_xtrj (forward_pass0 (1 / 2) ex_solver0) ! 0) (b_xtrj ex_solver0 ! 0)) = [1 / 2]"
  by (simp add: forward_pass0_def forward_pass_loop0_def forward_pass_iter0_def
                ex_solver0_fields spec_next_state_def Let_def lin_alg_defs)

text \<open>
  Claim C4, amended: in the solver with line search, for every stage \<open>i < N\<close> the forward
  pass with step size \<open>alpha\<close> returns, starts from the current initial state and writes
  \<open>u_i + alpha l_i + L_i dx_i\<close> and
  \<open>x_{i+1} + (A_i + B_i L_i) dx_i + B_i alpha l_i + alpha d_i\<close>, with
  \<open>dx_i\<close> the deviation of the new state \<open>i\<close> from the current one. In the solver of
  \<open>ilqr.cpp\<close> the same holds with the defect \<open>d_i\<close> added in full instead of
  \<open>alpha d_i\<close>.
\<close>

theorem forward_pass_update_amended:
  assumes "length (fp_xtrj (m_fp_res s)) = m_N s + 1"
    and "length (fp_utrj (m_fp_res s)) = m_N s"
    and "i < m_N s"
    and "length (b_xtrj t) = b_N t + 1"
    and "length (b_utrj t) = b_N t"
    and "j < b_N t"
  shows "(\<exists>s'. forward_pass alpha s = Inr s' \<and>
          (let fp = m_fp_res s';
               dx = vsub (fp_xtrj fp ! i) (m_xtrj s ! i);
               A = dyn_A (m_dyn s ! i); B = dyn_B (m_dyn s ! i); d = dyn_d (m_dyn s ! i);
               L = bp_Lu (m_bp_res s ! i); l = bp_lu (m_bp_res s ! i)
           in fp_xtrj fp ! 0 = m_xtrj s ! 0 \<and>
              fp_utrj fp ! i = spec_input alpha (m_utrj s ! i) L l dx \<and>
              fp_xtrj fp ! (i + 1) = spec_next_state alpha (m_xtrj s ! (i + 1)) A B L l d dx)) \<and>
         (let t' = forward_pass0 alpha t;
              dx = vsub (b_xtrj t' ! j) (b_xtrj t ! j);
              A = dyn_A (b_dyn t ! j); B = dyn_B (b_dyn t ! j); d = dyn_d (b_dyn t ! j);
              L = bp_Lfb (b_bp_res t ! j); l = bp_du_ff (b_bp_res t ! j)
          in b_xtrj t' ! 0 = b_xtrj t ! 0 \<and>
             b_utrj t' ! j = spec_input alpha (b_utrj t ! j) L l dx \<and>
             b_xtrj t' ! (j + 1) =
               vadd (vadd (vadd (b_xtrj t ! (j + 1)) (mat_vec (madd A (mat_mul B L)) dx))
                          (mat_vec B (vscale alpha l)))
                    d)"
  using forward_pass_rollout [OF assms(1-3), of alpha]
        forward_pass0_rollout [OF assms(4-6), of alpha]
  by (simp add: spec_input_def spec_next_state_def Let_def)

theorem forward_pass_update_amended_witness:
  "length (fp_xtrj (m_fp_res ex_solver)) = m_N ex_solver + 1 \<and>
   length (fp_utrj (m_fp_res ex_solver)) = m_N ex_solver \<and> 0 < m_N ex_solver \<and>
   length (b_xtrj ex_solver0) = b_N ex_solver0 + 1 \<and>
   length (b_utrj ex_solver0) = b_N ex_solver0 \<and> 0 < b_N ex_solver0 \<and>
   (\<exists>s'. forward_pass (1 / 2) ex_solver = Inr s' \<and> fp_xtrj (m_fp_res s') ! 1 = [1 / 2]) \<and>
   b_xtrj (forward_pass0 (1 / 2) ex_solver0) ! 1 = [1]"
proof -
  have h: "length (fp_xtrj (m_fp_res ex_solver)) = m_N ex_solver + 1"
    "length (fp_utrj (m_fp_res ex_solver)) = m_N ex_solver" "0 < m_N ex_solver"
    "length (b_xtrj ex_solver0) = b_N ex_solver0 + 1"
    "length (b_utrj ex_solver0) = b_N ex_solver0" "0 < b_N ex_solver0"
    by (simp_all add: ex_solver_fields ex_solver0_fields ex_fp_def)
  from forward_pass_update_amended [OF h, of "1 / 2"]
  have "(\<exists>s'. forward_pass (1 / 2) ex_solver = Inr s' \<and> fp_xtrj (m_fp_res s') ! 1 = [1 / 2]) \<and>
        b_xtrj (forward_pass0 (1 / 2) ex_solver0) ! 1 = [1]"
    by (auto simp: ex_solver_fields ex_solver0_fields ex_bp_def spec_next_state_def Let_def
                   lin_alg_defs)
  with h show ?thesis by simp
qed
subsection \<open>Entries of sums, products and transposes\<close>

lemma is_mat_nth: "is_mat r c M \<Longrightarrow> i < r \<Longrightarrow> length (M ! i) = c"
  by (simp add: is_mat_def list_all_length)

lemma is_mat_length: "is_mat r c M \<Longrightarrow> length M = r"
  by (simp add: is_mat_def)

lemma is_matI: "length M = r \<Longrightarrow> (\<And>i. i < r \<Longrightarrow> length (M ! i) = c) \<Longrightarrow> is_mat r c M"
  by (simp add: is_mat_def list_all_length)

lemma mat_eqI:
  assumes "is_mat r c A" "is_mat r c B" "\<And>i j. i < r \<Longrightarrow> j < c \<Longrightarrow> A ! i ! j = B ! i ! j"
  shows "A = B"
proof (rule nth_equalityI)
  show "length A = length B" using assms by (simp add: is_mat_def)
next
  fix i assume "i < length A"
  then have i: "i < r" using assms(1) by (simp add: is_mat_def)
  show "A ! i = B ! i"
  proof (rule nth_equalityI)
    show "length (A ! i) = length (B ! i)" using i assms by (simp add: is_mat_nth)
  next
    fix j assume "j < length (A ! i)"
    then have "j < c" using i assms(1) by (simp add: is_mat_nth)
    then show "A ! i ! j = B ! i ! j" using i assms(3) by simp
  qed
qed

lemma ncols_is_mat: "is_mat r c M \<Longrightarrow> 0 < r \<Longrightarrow> ncols M = c"
  by (cases M) (simp_all add: ncols_def is_mat_def)

lemma dot_sum: "length x = k \<Longrightarrow> length y = k \<Longrightarrow> dot x y = (\<Sum>l<k. x ! l * y ! l)"
proof -
  assume a: "length x = k" "length y = k"
  have "dot x y = (\<Sum>l = 0..<length (map2 (*) x y). map2 (*) x y ! l)"
    unfolding dot_def by (rule sum_list_sum_nth)
  also have "\<dots> = (\<Sum>l = 0..<k. x ! l * y ! l)"
    using a by (intro sum.cong) simp_all
  finally show ?thesis by (simp add: lessThan_atLeast0)
qed

lemma is_mat_mtrans: "is_mat r c M \<Longrightarrow> is_mat c r (mtrans c M)"
  by (simp add: is_mat_def mtrans_def col_def list_all_length)

lemma mtrans_nth: "is_mat r c M \<Longrightarrow> i < r \<Longrightarrow> j < c \<Longrightarrow> mtrans c M ! j ! i = M ! i ! j"
  by (simp add: is_mat_def mtrans_def col_def)

lemma is_mat_madd: "is_mat r c A \<Longrightarrow> is_mat r c B \<Longrightarrow> is_mat r c (madd A B)"
  by (simp add: is_mat_def madd_def vadd_def list_all_length)

lemma madd_nth:
  "is_mat r c A \<Longrightarrow> is_mat r c B \<Longrightarrow> i < r \<Longrightarrow> j < c \<Longrightarrow> madd A B ! i ! j = A ! i ! j + B ! i ! j"
  by (simp add: is_mat_def madd_def vadd_def list_all_length)

lemma is_mat_mat_mul: "is_mat r k A \<Longrightarrow> is_mat k c B \<Longrightarrow> 0 < k \<Longrightarrow> is_mat r c (mat_mul A B)"
  by (simp add: mat_mul_def ncols_is_mat) (simp add: is_mat_def list_all_length)

lemma mat_mul_nth:
  assumes "is_mat r k A" "is_mat k c B" "0 < k" "i < r" "j < c"
  shows "mat_mul A B ! i ! j = (\<Sum>l<k. A ! i ! l * B ! l ! j)"
proof -
  have "mat_mul A B ! i ! j = dot (A ! i) (col B j)"
    using assms by (simp add: mat_mul_def ncols_is_mat is_mat_length)
  also have "\<dots> = (\<Sum>l<k. A ! i ! l * col B j ! l)"
    using assms by (intro dot_sum) (simp_all add: is_mat_nth col_def is_mat_length)
  also have "\<dots> = (\<Sum>l<k. A ! i ! l * B ! l ! j)"
    using assms by (intro sum.cong) (simp_all add: col_def is_mat_length)
  finally show ?thesis .
qed

lemma is_mat_add_to_diagonal: "is_mat n n M \<Longrightarrow> is_mat n n (add_to_diagonal a M)"
  by (simp add: is_mat_def add_to_diagonal_def list_all_length)

lemma add_to_diagonal_nth:
  "is_mat n n M \<Longrightarrow> i < n \<Longrightarrow> j < n \<Longrightarrow>
   add_to_diagonal a M ! i ! j = M ! i ! j + (if i = j then a else 0)"
  by (simp add: is_mat_def add_to_diagonal_def list_all_length nth_list_update)

lemma is_symmetric_mtrans: "is_symmetric n S \<Longrightarrow> mtrans n S = S"
  unfolding is_symmetric_def
  by (rule mat_eqI [of n n]) (auto simp: is_mat_mtrans mtrans_nth)

lemma mtrans_is_symmetric: "mtrans n S = S \<Longrightarrow> is_symmetric n S"
proof -
  assume a: "mtrans n S = S"
  have len: "length S = n" using a by (metis length_map length_upt mtrans_def minus_nat.diff_0)
  have row: "S ! i = col S i" if "i < n" for i
    using a that by (metis mtrans_def nth_map_upt add.left_neutral minus_nat.diff_0)
  have m: "is_mat n n S"
    by (rule is_matI [OF len]) (simp add: row col_def len)
  have "S ! i ! j = S ! j ! i" if "i < n" "j < n" for i j
    using row [OF that(1)] that len by (simp add: col_def)
  with m show ?thesis by (simp add: is_symmetric_def)
qed


lemma is_symmetric_madd: "is_symmetric n A \<Longrightarrow> is_symmetric n B \<Longrightarrow> is_symmetric n (madd A B)"
  by (auto simp: is_symmetric_def is_mat_madd madd_nth [of n n])

lemma is_symmetric_add_to_diagonal: "is_symmetric n A \<Longrightarrow> is_symmetric n (add_to_diagonal a A)"
  by (auto simp: is_symmetric_def is_mat_add_to_diagonal add_to_diagonal_nth)

lemma double_sum_sym:
  fixes M :: "nat \<Rightarrow> nat \<Rightarrow> real"
  assumes "\<And>a b. a < k \<Longrightarrow> b < k \<Longrightarrow> M a b = M b a"
  shows "(\<Sum>a<k. \<Sum>b<k. X a i * M a b * X b j) = (\<Sum>a<k. \<Sum>b<k. X a j * M a b * X b i)"
proof -
  have "(\<Sum>a<k. \<Sum>b<k. X a i * M a b * X b j) = (\<Sum>b<k. \<Sum>a<k. X a i * M a b * X b j)"
    by (rule sum.swap)
  also have "\<dots> = (\<Sum>b<k. \<Sum>a<k. X b j * M b a * X a i)"
    using assms by (intro sum.cong refl) (simp add: mult_ac)
  finally show ?thesis .
qed

text \<open>A congruence of a symmetric matrix is symmetric, however the product is bracketed.\<close>

lemma congruence_right_nth:
  assumes "is_mat k k M" "is_mat k n X" "0 < k" "i < n" "j < n"
  shows "mat_mul (mtrans n X) (mat_mul M X) ! i ! j = (\<Sum>a<k. \<Sum>b<k. X ! a ! i * M ! a ! b * X ! b ! j)"
proof -
  have mx: "is_mat k n (mat_mul M X)" using assms by (intro is_mat_mat_mul [of k k _ n]) simp_all
  have "mat_mul (mtrans n X) (mat_mul M X) ! i ! j
          = (\<Sum>a<k. mtrans n X ! i ! a * mat_mul M X ! a ! j)"
    using assms mx by (intro mat_mul_nth [of n k _ n]) (simp_all add: is_mat_mtrans)
  also have "\<dots> = (\<Sum>a<k. X ! a ! i * (\<Sum>b<k. M ! a ! b * X ! b ! j))"
    using assms by (intro sum.cong refl) (simp add: mtrans_nth mat_mul_nth [of k k M n X])
  also have "\<dots> = (\<Sum>a<k. \<Sum>b<k. X ! a ! i * M ! a ! b * X ! b ! j)"
    by (simp add: sum_distrib_left mult.assoc)
  finally show ?thesis .
qed

lemma congruence_left_nth:
  assumes "is_mat k k M" "is_mat k n X" "0 < k" "i < n" "j < n"
  shows "mat_mul (mat_mul (mtrans n X) M) X ! i ! j = (\<Sum>a<k. \<Sum>b<k. X ! a ! i * M ! a ! b * X ! b ! j)"
proof -
  have xm: "is_mat n k (mat_mul (mtrans n X) M)"
    using assms by (intro is_mat_mat_mul [of n k _ k]) (simp_all add: is_mat_mtrans)
  have "mat_mul (mat_mul (mtrans n X) M) X ! i ! j
          = (\<Sum>b<k. mat_mul (mtrans n X) M ! i ! b * X ! b ! j)"
    using assms xm by (intro mat_mul_nth [of n k _ n]) simp_all
  also have "\<dots> = (\<Sum>b<k. (\<Sum>a<k. X ! a ! i * M ! a ! b) * X ! b ! j)"
    using assms
    by (intro sum.cong refl) (simp add: mtrans_nth mat_mul_nth [of n k "mtrans n X" k M] is_mat_mtrans)
  also have "\<dots> = (\<Sum>b<k. \<Sum>a<k. X ! a ! i * M ! a ! b * X ! b ! j)"
    by (simp add: sum_distrib_right)
  also have "\<dots> = (\<Sum>a<k. \<Sum>b<k. X ! a ! i * M ! a ! b * X ! b ! j)"
    by (rule sum.swap)
  finally show ?thesis .
qed

lemma sym_congruence_right:
  assumes "is_symmetric k M" "is_mat k n X" "0 < k"
  shows "is_symmetric n (mat_mul (mtrans n X) (mat_mul M X))"
proof -
  have m: "is_mat k k M" and ms: "\<And>a b. a < k \<Longrightarrow> b < k \<Longrightarrow> M ! a ! b = M ! b ! a"
    using assms(1) by (simp_all add: is_symmetric_def)
  have "is_mat n n (mat_mul (mtrans n X) (mat_mul M X))"
    using assms m
    by (intro is_mat_mat_mul [of n k _ n] is_mat_mat_mul [of k k _ n]) (simp_all add: is_mat_mtrans)
  moreover have "mat_mul (mtrans n X) (mat_mul M X) ! i ! j = mat_mul (mtrans n X) (mat_mul M X) ! j ! i"
    if "i < n" "j < n" for i j
  proof -
    have "(\<Sum>a<k. \<Sum>b<k. X ! a ! i * M ! a ! b * X ! b ! j) = (\<Sum>a<k. \<Sum>b<k. X ! a ! j * M ! a ! b * X ! b ! i)"
      using double_sum_sym [of k "\<lambda>a b. M ! a ! b" "\<lambda>a c. X ! a ! c" i j] ms by simp
    then show ?thesis
      using that assms m by (simp add: congruence_right_nth)
  qed
  ultimately show ?thesis by (simp add: is_symmetric_def)
qed

lemma sym_congruence_left:
  assumes "is_symmetric k M" "is_mat k n X" "0 < k"
  shows "is_symmetric n (mat_mul (mat_mul (mtrans n X) M) X)"
proof -
  have m: "is_mat k k M" and ms: "\<And>a b. a < k \<Longrightarrow> b < k \<Longrightarrow> M ! a ! b = M ! b ! a"
    using assms(1) by (simp_all add: is_symmetric_def)
  have "is_mat n n (mat_mul (mat_mul (mtrans n X) M) X)"
    using assms m
    by (intro is_mat_mat_mul [of n k _ n] is_mat_mat_mul [of n k _ k]) (simp_all add: is_mat_mtrans)
  moreover have "mat_mul (mat_mul (mtrans n X) M) X ! i ! j = mat_mul (mat_mul (mtrans n X) M) X ! j ! i"
    if "i < n" "j < n" for i j
  proof -
    have "(\<Sum>a<k. \<Sum>b<k. X ! a ! i * M ! a ! b * X ! b ! j) = (\<Sum>a<k. \<Sum>b<k. X ! a ! j * M ! a ! b * X ! b ! i)"
      using double_sum_sym [of k "\<lambda>a b. M ! a ! b" "\<lambda>a c. X ! a ! c" i j] ms by simp
    then show ?thesis
      using that assms m by (simp add: congruence_left_nth)
  qed
  ultimately show ?thesis by (simp add: is_symmetric_def)
qed

text \<open>The update of the value function before symmetrization.\<close>

lemma value_update_nth:
  assumes "is_mat n n Hxx" "is_mat k k Huu" "is_mat k n Hux" "is_mat k n L" "0 < k" "i < n" "j < n"
  shows "madd (madd Hxx (mat_mul (mtrans n L) (madd (mat_mul Huu L) Hux))) (mat_mul (mtrans n Hux) L) ! i ! j
         = Hxx ! i ! j + (\<Sum>a<k. \<Sum>b<k. L ! a ! i * Huu ! a ! b * L ! b ! j)
           + (\<Sum>a<k. L ! a ! i * Hux ! a ! j) + (\<Sum>a<k. Hux ! a ! i * L ! a ! j)"
proof -
  have t1: "is_mat k n (mat_mul Huu L)" using assms by (intro is_mat_mat_mul [of k k _ n]) simp_all
  have t2: "is_mat k n (madd (mat_mul Huu L) Hux)" using assms t1 by (simp add: is_mat_madd)
  have t3: "is_mat n n (mat_mul (mtrans n L) (madd (mat_mul Huu L) Hux))"
    using assms t2 by (intro is_mat_mat_mul [of n k _ n]) (simp_all add: is_mat_mtrans)
  have t4: "is_mat n n (mat_mul (mtrans n Hux) L)"
    using assms by (intro is_mat_mat_mul [of n k _ n]) (simp_all add: is_mat_mtrans)
  have t5: "is_mat n n (madd Hxx (mat_mul (mtrans n L) (madd (mat_mul Huu L) Hux)))"
    using assms t3 by (simp add: is_mat_madd)
  have e3: "mat_mul (mtrans n L) (madd (mat_mul Huu L) Hux) ! i ! j
            = (\<Sum>a<k. \<Sum>b<k. L ! a ! i * Huu ! a ! b * L ! b ! j) + (\<Sum>a<k. L ! a ! i * Hux ! a ! j)"
  proof -
    have "mat_mul (mtrans n L) (madd (mat_mul Huu L) Hux) ! i ! j
            = (\<Sum>a<k. mtrans n L ! i ! a * madd (mat_mul Huu L) Hux ! a ! j)"
      using assms t2 by (intro mat_mul_nth [of n k _ n]) (simp_all add: is_mat_mtrans)
    also have "\<dots> = (\<Sum>a<k. L ! a ! i * ((\<Sum>b<k. Huu ! a ! b * L ! b ! j) + Hux ! a ! j))"
      using assms t1
      by (intro sum.cong refl) (simp add: mtrans_nth madd_nth [of k n] mat_mul_nth [of k k Huu n L])
    also have "\<dots> = (\<Sum>a<k. (\<Sum>b<k. L ! a ! i * Huu ! a ! b * L ! b ! j) + L ! a ! i * Hux ! a ! j)"
      by (simp add: distrib_left sum_distrib_left mult.assoc)
    finally show ?thesis by (simp add: sum.distrib)
  qed
  have e4: "mat_mul (mtrans n Hux) L ! i ! j = (\<Sum>a<k. Hux ! a ! i * L ! a ! j)"
  proof -
    have "mat_mul (mtrans n Hux) L ! i ! j = (\<Sum>a<k. mtrans n Hux ! i ! a * L ! a ! j)"
      using assms by (intro mat_mul_nth [of n k _ n]) (simp_all add: is_mat_mtrans)
    also have "\<dots> = (\<Sum>a<k. Hux ! a ! i * L ! a ! j)"
      using assms by (intro sum.cong refl) (simp add: mtrans_nth)
    finally show ?thesis .
  qed
  show ?thesis
    using assms t3 t4 t5 by (simp add: madd_nth [of n n] e3 e4)
qed

lemma value_update_sym:
  assumes "is_symmetric n Hxx" "is_symmetric k Huu" "is_mat k n Hux" "is_mat k n L" "0 < k"
  shows "is_symmetric n
           (madd (madd Hxx (mat_mul (mtrans n L) (madd (mat_mul Huu L) Hux))) (mat_mul (mtrans n Hux) L))"
proof -
  have hxx: "is_mat n n Hxx" and hxxs: "\<And>i j. i < n \<Longrightarrow> j < n \<Longrightarrow> Hxx ! i ! j = Hxx ! j ! i"
    using assms(1) by (simp_all add: is_symmetric_def)
  have huu: "is_mat k k Huu" and huus: "\<And>a b. a < k \<Longrightarrow> b < k \<Longrightarrow> Huu ! a ! b = Huu ! b ! a"
    using assms(2) by (simp_all add: is_symmetric_def)
  let ?S = "madd (madd Hxx (mat_mul (mtrans n L) (madd (mat_mul Huu L) Hux))) (mat_mul (mtrans n Hux) L)"
  have m: "is_mat n n ?S"
    using assms hxx huu
    by (intro is_mat_madd is_mat_mat_mul [of n k _ n] is_mat_mat_mul [of k k _ n])
       (simp_all add: is_mat_mtrans)
  have "?S ! i ! j = ?S ! j ! i" if "i < n" "j < n" for i j
  proof -
    have c: "(\<Sum>a<k. L ! a ! i * Hux ! a ! j) = (\<Sum>a<k. Hux ! a ! j * L ! a ! i)"
            "(\<Sum>a<k. L ! a ! j * Hux ! a ! i) = (\<Sum>a<k. Hux ! a ! i * L ! a ! j)"
      by (simp_all add: mult.commute)
    have ds: "(\<Sum>a<k. \<Sum>b<k. L ! a ! i * Huu ! a ! b * L ! b ! j)
              = (\<Sum>a<k. \<Sum>b<k. L ! a ! j * Huu ! a ! b * L ! b ! i)"
      using double_sum_sym [of k "\<lambda>a b. Huu ! a ! b" "\<lambda>a c. L ! a ! c" i j] huus by simp
    show ?thesis
      using that hxxs [OF that]
      by (simp add: value_update_nth [OF hxx huu assms(3) assms(4) assms(5)] ds c)
  qed
  with m show ?thesis by (simp add: is_symmetric_def)
qed

lemma fold_fixed: "(\<And>p. p \<in> set ps \<Longrightarrow> f p S = S) \<Longrightarrow> fold f ps S = S"
  by (induction ps) simp_all

lemma symmetrize_in_place_sym:
  assumes "is_symmetric n S"
  shows "symmetrize_in_place S = S"
proof -
  have len: "length S = n" using assms by (simp add: is_symmetric_def is_mat_def)
  have "symmetrize_coeff p S = S" if "p \<in> set (column_major n)" for p
  proof -
    obtain i j where p: "p = (i, j)" by (cases p)
    have ij: "i < n" "j < n" using that p by (auto simp: column_major_def)
    have "S ! j ! i = S ! i ! j" using assms ij by (simp add: is_symmetric_def)
    then show ?thesis by (simp add: p symmetrize_coeff_def)
  qed
  then show ?thesis
    unfolding symmetrize_in_place_def len by (rule fold_fixed)
qed

subsection \<open>One stage of the backward pass\<close>

lemmas bwd_defs = backward_pass_init_def add_bound_constraint_def add_state_bound_def
  add_input_bound_def bounds_equal_def fixed_initial_state_def cg_set_constraint_def
  cg_add_constraint_def cg_clear_def cg_add_def is_valid_def add_to_diagonal_def
  backward_pass_iter_def handle_constraints_def constraint_prepare_inner_def
  cg_propagate_backwards_def cg_dim_def set_feasible_def form_value_fn_inner_def
  form_kkt_inner_def solve_kkt_inner_def THROW_NAN_def raising_def save_solution_def
  upd_value_fn_inner_def symmetrize_in_place_def column_major_def symmetrize_coeff_def
  hcat_def mneg_def mtrans_def cg_add_row_def bound_residual_def set_codQ_def

lemma raising_Inr: "raising r s k = Inr t \<longleftrightarrow> r = None \<and> k = Inr t"
  by (cases r) (simp_all add: raising_def)

lemma raising_Inl:
  "raising r s k = Inl (e, t) \<longleftrightarrow> r = Some e \<and> t = s \<or> r = None \<and> k = Inl (e, t)"
  by (cases r) (auto simp: raising_def)

lemma raising_None: "raising None s k = k"
  by (simp add: raising_def)

lemma fold_keeps: "(\<And>x s. P (g x s) = P s) \<Longrightarrow> P (fold g xs s) = P s"
  by (induction xs arbitrary: s) simp_all

lemma map_update_same: "f y = f (xs ! i) \<Longrightarrow> map f (xs[i := y]) = map f xs"
  by (induction xs arbitrary: i) (auto split: nat.splits)

lemma stage_inputs_add_state_bound: "stage_inputs (add_state_bound k i s) = stage_inputs s"
  by (simp add: add_state_bound_def stage_inputs_def)

lemma stage_inputs_add_input_bound: "stage_inputs (add_input_bound k i s) = stage_inputs s"
  by (simp add: add_input_bound_def stage_inputs_def)

lemma stage_inputs_add_bound_constraint: "stage_inputs (add_bound_constraint k s) = stage_inputs s"
  by (simp add: add_bound_constraint_def Let_def
        fold_keeps [of stage_inputs, OF stage_inputs_add_state_bound]
        fold_keeps [of stage_inputs, OF stage_inputs_add_input_bound])

lemma stage_inputs_set_nc:
  "stage_inputs (s\<lparr> m_bp_res := (m_bp_res s)[i := (m_bp_res s ! i)\<lparr> bp_nc := nc \<rparr>] \<rparr>) = stage_inputs s"
  by (simp add: stage_inputs_def map_update_same)

lemma stage_inputs_ctg: "stage_inputs (s\<lparr> m_constraint_to_go := cg \<rparr>) = stage_inputs s"
  by (simp add: stage_inputs_def)

lemma stage_inputs_tmp: "stage_inputs (s\<lparr> m_tmp := (m_tmp s)[i := t] \<rparr>) = stage_inputs s"
  by (simp add: stage_inputs_def)

lemma stage_inputs_prepare: "stage_inputs (constraint_prepare_inner i s) = stage_inputs s"
  unfolding constraint_prepare_inner_def Let_def
  by (simp only: stage_inputs_set_nc stage_inputs_add_bound_constraint stage_inputs_ctg)

lemma stage_inputs_infeasible_row: "stage_inputs (infeasible_row Cinf hinf j s) = stage_inputs s"
  by (simp add: infeasible_row_def stage_inputs_def)

lemma stage_inputs_set_feasible: "stage_inputs (set_feasible i Cf Df hf s) = stage_inputs s"
  by (simp add: set_feasible_def stage_inputs_def)

lemma stage_inputs_upd_to_go: "stage_inputs (constraint_upd_to_go_inner i rank Q s) = stage_inputs s"
  unfolding constraint_upd_to_go_inner_def Let_def
  by (simp only: fold_keeps [of stage_inputs, OF stage_inputs_infeasible_row]
        stage_inputs_set_feasible stage_inputs_tmp stage_inputs_ctg)

text \<open>
  A call of \<open>handle_constraints\<close> that returns has found no row, or has passed the four
  \<open>THROW_NAN\<close> with finite residuals and has decomposed \<open>D\<close>.
\<close>

lemma handle_constraints_Inr:
  assumes "handle_constraints env i s = Inr s1"
  shows "cg_dim (m_constraint_to_go (constraint_prepare_inner i s)) = 0 \<and>
           s1 = set_feasible i [] [] [] (constraint_prepare_inner i s) \<or>
         cg_dim (m_constraint_to_go (constraint_prepare_inner i s)) \<noteq> 0 \<and>
           THROW_NAN env True = None \<and>
           cg_finite (m_constraint_to_go (constraint_prepare_inner i s)) \<and>
           (\<exists>rank Q. constraint_decomp_inner env (constraint_prepare_inner i s)
                        (cg_D (m_constraint_to_go (constraint_prepare_inner i s))) = Inr (rank, Q) \<and>
                      s1 = constraint_upd_to_go_inner i rank Q (constraint_prepare_inner i s))"
  using assms
  by (auto simp: handle_constraints_def Let_def raising_Inr split: if_splits sum.splits)

lemma handle_constraints_rows:
  assumes "THROW_NAN env True = None"
    and "cg_dim (m_constraint_to_go (constraint_prepare_inner i s)) \<noteq> 0"
    and "cg_finite (m_constraint_to_go (constraint_prepare_inner i s))"
  shows "handle_constraints env i s =
           (case constraint_decomp_inner env (constraint_prepare_inner i s)
                   (cg_D (m_constraint_to_go (constraint_prepare_inner i s))) of
              Inl e \<Rightarrow> Inl (e, constraint_prepare_inner i s)
            | Inr (rank, Q) \<Rightarrow> Inr (constraint_upd_to_go_inner i rank Q (constraint_prepare_inner i s)))"
  using assms
  by (auto simp: handle_constraints_def Let_def raising_def split: sum.splits)

lemma stage_inputs_handle_constraints:
  "handle_constraints env i s = Inr s1 \<Longrightarrow> stage_inputs s1 = stage_inputs s"
  using handle_constraints_Inr [of env i s s1]
  by (auto simp: stage_inputs_set_feasible stage_inputs_prepare stage_inputs_upd_to_go)


lemma m_tmp_infeasible_row: "m_tmp (infeasible_row Cinf hinf j s) = m_tmp s"
  by (simp add: infeasible_row_def)

lemma length_tmp_prepare: "length (m_tmp (constraint_prepare_inner i s)) = length (m_tmp s)"
  using stage_inputs_prepare [of i s] by (simp add: stage_inputs_def)

lemma feasible_rows_handle_constraints:
  assumes "handle_constraints env i s = Inr s1" "i < length (m_tmp s)"
  shows "length (tmp_Cf (m_tmp s1 ! i)) = length (tmp_hf (m_tmp s1 ! i))"
proof -
  let ?p = "constraint_prepare_inner i s"
  have lp: "i < length (m_tmp ?p)" using assms(2) by (simp add: length_tmp_prepare)
  show ?thesis
  proof (cases "cg_dim (m_constraint_to_go ?p) = 0")
    case True
    then have "s1 = set_feasible i [] [] [] ?p"
      using handle_constraints_Inr [OF assms(1)] by simp
    then show ?thesis using lp by (simp add: set_feasible_def)
  next
    case False
    then obtain rank Q where s1: "s1 = constraint_upd_to_go_inner i rank Q ?p"
      using handle_constraints_Inr [OF assms(1)] by auto
    show ?thesis
      unfolding s1 constraint_upd_to_go_inner_def Let_def
      using lp
      by (simp add: fold_keeps [of m_tmp, OF m_tmp_infeasible_row] set_feasible_def
            mat_mul_def mat_vec_def mtrans_def)
  qed
qed

text \<open>
  A stage that returns has handled its constraints, has passed every \<open>THROW_NAN\<close>, and
  has found a finite solution \<open>X\<close> of its KKT system.
\<close>

lemma backward_pass_iter_Inr:
  assumes "backward_pass_iter env i s = Inr s'"
  shows "\<exists>s1 X. handle_constraints env i s = Inr s1 \<and> THROW_NAN env True = None \<and>
           solve_kkt_inner env (m_kkt_decomp_type (form_kkt_inner i (form_value_fn_inner i s1)))
             (tmp_kkt (m_tmp (form_kkt_inner i (form_value_fn_inner i s1)) ! i))
             (tmp_kx0 (m_tmp (form_kkt_inner i (form_value_fn_inner i s1)) ! i)) = Inr (Some X) \<and>
           s' = upd_value_fn_inner i (save_solution i X (form_kkt_inner i (form_value_fn_inner i s1)))"
  using assms
  by (auto simp: backward_pass_iter_def Let_def raising_Inr split: sum.splits option.splits)

lemma backward_pass_iter_value:
  assumes ok: "backward_pass_iter env i s = Inr s'"
    and i: "i < length (m_tmp s)" "i < length (m_bp_res s)" "i < length (m_value s)"
  shows "\<exists>s1 X. handle_constraints env i s = Inr s1 \<and>
           (kkt_lu env (tmp_kkt (m_tmp (form_kkt_inner i (form_value_fn_inner i s1)) ! i))
                       (tmp_kx0 (m_tmp (form_kkt_inner i (form_value_fn_inner i s1)) ! i)) = Some X \<or>
            kkt_qr env (tmp_kkt (m_tmp (form_kkt_inner i (form_value_fn_inner i s1)) ! i))
                       (tmp_kx0 (m_tmp (form_kkt_inner i (form_value_fn_inner i s1)) ! i)) = Some X \<or>
            kkt_ldlt env (tmp_kkt (m_tmp (form_kkt_inner i (form_value_fn_inner i s1)) ! i))
                       (tmp_kx0 (m_tmp (form_kkt_inner i (form_value_fn_inner i s1)) ! i)) = Some X) \<and>
           tmp_kx0 (m_tmp (form_kkt_inner i (form_value_fn_inner i s1)) ! i) =
             hcat (mneg (stage_Hux s i) @ mneg (tmp_Cf (m_tmp s1 ! i)))
                  (map (\<lambda>x. [x]) (map uminus (vadd (ic_r (m_cost s ! i))
                      (mat_vec (mtrans (m_nu s) (dyn_B (m_dyn s ! i)))
                         (vadd (vf_s (m_value s ! (i + 1)))
                               (mat_vec (vf_S (m_value s ! (i + 1))) (dyn_d (m_dyn s ! i))))))
                     @ map uminus (tmp_hf (m_tmp s1 ! i)))) \<and>
           vf_S (m_value s' ! i) =
             symmetrize_in_place (value_update (m_nx s) (stage_Hxx s i) (stage_Huu s i) (stage_Hux s i)
                                    (map (take (m_nx s)) (take (m_nu s) X)))"
proof -
  let ?k = "\<lambda>s1. form_kkt_inner i (form_value_fn_inner i s1)"
  from backward_pass_iter_Inr [OF ok] obtain s1 X where h: "handle_constraints env i s = Inr s1"
    and sol: "solve_kkt_inner env (m_kkt_decomp_type (?k s1)) (tmp_kkt (m_tmp (?k s1) ! i))
                (tmp_kx0 (m_tmp (?k s1) ! i)) = Inr (Some X)"
    and s': "s' = upd_value_fn_inner i (save_solution i X (?k s1))"
    by blast
  have fr: "stage_inputs s1 = stage_inputs s" by (rule stage_inputs_handle_constraints [OF h])
  then have eqs: "m_cost s1 = m_cost s" "m_dyn s1 = m_dyn s" "m_value s1 = m_value s"
    "m_nx s1 = m_nx s" "m_nu s1 = m_nu s" "m_hxx_reg s1 = m_hxx_reg s" "m_huu_reg s1 = m_huu_reg s"
    "length (m_tmp s1) = length (m_tmp s)" "length (m_bp_res s1) = length (m_bp_res s)"
    by (simp_all add: stage_inputs_def)
  let ?s2 = "form_kkt_inner i (form_value_fn_inner i s1)"
  have k: "kkt_lu env (tmp_kkt (m_tmp ?s2 ! i)) (tmp_kx0 (m_tmp ?s2 ! i)) = Some X \<or>
           kkt_qr env (tmp_kkt (m_tmp ?s2 ! i)) (tmp_kx0 (m_tmp ?s2 ! i)) = Some X \<or>
           kkt_ldlt env (tmp_kkt (m_tmp ?s2 ! i)) (tmp_kx0 (m_tmp ?s2 ! i)) = Some X"
    using sol by (auto simp: solve_kkt_inner_def split: decomposition_type.splits)
  have kx0: "tmp_kx0 (m_tmp ?s2 ! i) =
             hcat (mneg (stage_Hux s i) @ mneg (tmp_Cf (m_tmp s1 ! i)))
                  (map (\<lambda>x. [x]) (map uminus (vadd (ic_r (m_cost s ! i))
                      (mat_vec (mtrans (m_nu s) (dyn_B (m_dyn s ! i)))
                         (vadd (vf_s (m_value s ! (i + 1)))
                               (mat_vec (vf_S (m_value s ! (i + 1))) (dyn_d (m_dyn s ! i))))))
                     @ map uminus (tmp_hf (m_tmp s1 ! i))))"
    using i eqs by (simp add: form_kkt_inner_def form_value_fn_inner_def Let_def stage_Hux_def)
  have S: "vf_S (m_value s' ! i) =
             symmetrize_in_place (value_update (m_nx s) (stage_Hxx s i) (stage_Huu s i) (stage_Hux s i)
                                    (map (take (m_nx s)) (take (m_nu s) X)))"
    unfolding s' using i eqs
    by (simp add: upd_value_fn_inner_def save_solution_def form_kkt_inner_def form_value_fn_inner_def
          Let_def stage_Hxx_def stage_Huu_def stage_Hux_def value_update_def)
  from h k kx0 S show ?thesis by blast
qed


lemma is_mat_take_block:
  assumes "is_mat r c X" "n \<le> r" "m \<le> c"
  shows "is_mat n m (map (take m) (take n X))"
  using assms by (simp add: is_mat_def list_all_length)

lemma value_function_symmetric_data:
  assumes ok: "backward_pass_iter env i s = Inr s'"
    and shape: "solves_in_shape env"
    and pos: "0 < m_nx s" "0 < m_nu s"
    and i: "i < length (m_tmp s)" "i < length (m_bp_res s)" "i < length (m_value s)"
    and Q: "is_symmetric (m_nx s) (ic_Q (m_cost s ! i))"
    and R: "is_symmetric (m_nu s) (ic_R (m_cost s ! i))"
    and P: "is_mat (m_nu s) (m_nx s) (ic_P (m_cost s ! i))"
    and r: "length (ic_r (m_cost s ! i)) = m_nu s"
    and A: "is_mat (m_nx s) (m_nx s) (dyn_A (m_dyn s ! i))"
    and B: "is_mat (m_nx s) (m_nu s) (dyn_B (m_dyn s ! i))"
    and Snext: "is_symmetric (m_nx s) (vf_S (m_value s ! (i + 1)))"
  shows "is_symmetric (m_nx s) (vf_S (m_value s' ! i))"
proof -
  let ?nx = "m_nx s" and ?nu = "m_nu s"
  let ?A = "dyn_A (m_dyn s ! i)" and ?B = "dyn_B (m_dyn s ! i)"
  let ?S = "vf_S (m_value s ! (i + 1))"
  have Sm: "is_mat ?nx ?nx ?S" using Snext by (simp add: is_symmetric_def)
  have hxx: "is_symmetric ?nx (stage_Hxx s i)"
    unfolding stage_Hxx_def
    by (intro is_symmetric_add_to_diagonal is_symmetric_madd Q
              sym_congruence_right [OF Snext A pos(1)])
  have huu: "is_symmetric ?nu (stage_Huu s i)"
    unfolding stage_Huu_def
    by (intro is_symmetric_add_to_diagonal is_symmetric_madd R
              sym_congruence_left [OF Snext B pos(1)])
  have sa: "is_mat ?nx ?nx (mat_mul ?S ?A)"
    using Sm A pos by (intro is_mat_mat_mul [of ?nx ?nx _ ?nx]) simp_all
  have hux: "is_mat ?nu ?nx (stage_Hux s i)"
    unfolding stage_Hux_def
    using P B sa pos
    by (intro is_mat_madd is_mat_mat_mul [of ?nu ?nx _ ?nx]) (simp_all add: is_mat_mtrans)
  from backward_pass_iter_value [OF ok i] obtain s1 X
    where h: "handle_constraints env i s = Inr s1"
      and sol: "kkt_lu env (tmp_kkt (m_tmp (form_kkt_inner i (form_value_fn_inner i s1)) ! i))
                       (tmp_kx0 (m_tmp (form_kkt_inner i (form_value_fn_inner i s1)) ! i)) = Some X \<or>
            kkt_qr env (tmp_kkt (m_tmp (form_kkt_inner i (form_value_fn_inner i s1)) ! i))
                       (tmp_kx0 (m_tmp (form_kkt_inner i (form_value_fn_inner i s1)) ! i)) = Some X \<or>
            kkt_ldlt env (tmp_kkt (m_tmp (form_kkt_inner i (form_value_fn_inner i s1)) ! i))
                       (tmp_kx0 (m_tmp (form_kkt_inner i (form_value_fn_inner i s1)) ! i)) = Some X"
      and kx0: "tmp_kx0 (m_tmp (form_kkt_inner i (form_value_fn_inner i s1)) ! i) =
             hcat (mneg (stage_Hux s i) @ mneg (tmp_Cf (m_tmp s1 ! i)))
                  (map (\<lambda>x. [x]) (map uminus (vadd (ic_r (m_cost s ! i))
                      (mat_vec (mtrans (m_nu s) (dyn_B (m_dyn s ! i)))
                         (vadd (vf_s (m_value s ! (i + 1)))
                               (mat_vec (vf_S (m_value s ! (i + 1))) (dyn_d (m_dyn s ! i))))))
                     @ map uminus (tmp_hf (m_tmp s1 ! i))))"
      and S: "vf_S (m_value s' ! i) =
             symmetrize_in_place (value_update (m_nx s) (stage_Hxx s i) (stage_Huu s i) (stage_Hux s i)
                                    (map (take (m_nx s)) (take (m_nu s) X)))"
    by blast
  let ?kx0 = "tmp_kx0 (m_tmp (form_kkt_inner i (form_value_fn_inner i s1)) ! i)"
  have rows: "length (tmp_Cf (m_tmp s1 ! i)) = length (tmp_hf (m_tmp s1 ! i))"
    by (rule feasible_rows_handle_constraints [OF h i(1)])
  have hl: "length (stage_Hux s i) = ?nu" using hux by (simp add: is_mat_def)
  have len: "length ?kx0 = ?nu + length (tmp_hf (m_tmp s1 ! i))"
    unfolding kx0 using rows hl r
    by (simp add: hcat_def mneg_def vadd_def mat_vec_def mtrans_def)
  obtain row0 rest where hx: "stage_Hux s i = row0 # rest" and r0: "length row0 = ?nx"
    using hux pos by (cases "stage_Hux s i") (auto simp: is_mat_def)
  have nc: "ncols ?kx0 = ?nx + 1"
    unfolding kx0 hx using r r0 pos
    by (cases "ic_r (m_cost s ! i)"; cases "mtrans (m_nu s) (dyn_B (m_dyn s ! i))")
       (simp_all add: hcat_def mneg_def vadd_def mat_vec_def ncols_def mtrans_def upt_conv_Cons)
  have "is_mat (length ?kx0) (ncols ?kx0) X"
    using shape sol unfolding solves_in_shape_def by blast
  then have "is_mat (?nu + length (tmp_hf (m_tmp s1 ! i))) (?nx + 1) X" by (simp add: len nc)
  then have L: "is_mat ?nu ?nx (map (take ?nx) (take ?nu X))"
    by (rule is_mat_take_block) simp_all
  have "is_symmetric ?nx (value_update ?nx (stage_Hxx s i) (stage_Huu s i) (stage_Hux s i)
                            (map (take ?nx) (take ?nu X)))"
    unfolding value_update_def by (rule value_update_sym [OF hxx huu hux L pos(2)])
  then show ?thesis
    unfolding S by (simp add: symmetrize_in_place_sym)
qed

lemma ex_init: "backward_pass_init ex_solver =
    ex_solver\<lparr> m_value := [\<lparr>vf_S = [[0]], vf_s = [0]\<rparr>, \<lparr>vf_S = [[1]], vf_s = [0]\<rparr>] \<rparr>"
  by (simp add: ex_solver_def bwd_defs Let_def)

lemma ex_iter: "backward_pass_iter ex_env 0 (backward_pass_init ex_solver) = Inr ex_stage0"
  unfolding ex_init
  by (simp add: ex_solver_def ex_env_def ex_numerics_def scalar_solve_def ex_stage0_def ex_bp_def
        ex_tmp_def bwd_defs lin_alg_defs Let_def)

lemma backward_pass_iter_frame:
  assumes ok: "backward_pass_iter env i s = Inr s'"
  shows "m_cost s' = m_cost s \<and> m_dyn s' = m_dyn s \<and> m_nx s' = m_nx s \<and> m_nu s' = m_nu s \<and>
         length (m_tmp s') = length (m_tmp s) \<and> length (m_bp_res s') = length (m_bp_res s) \<and>
         length (m_value s') = length (m_value s) \<and>
         (\<forall>j. j \<noteq> i \<longrightarrow> m_value s' ! j = m_value s ! j) \<and>
         map bp_lz (m_bp_res s') = map bp_lz (m_bp_res s)"
proof -
  from backward_pass_iter_Inr [OF ok] obtain s1 X where h: "handle_constraints env i s = Inr s1"
    and s': "s' = upd_value_fn_inner i (save_solution i X (form_kkt_inner i (form_value_fn_inner i s1)))"
    by blast
  have fr: "stage_inputs s1 = stage_inputs s" by (rule stage_inputs_handle_constraints [OF h])
  let ?s2 = "form_kkt_inner i (form_value_fn_inner i s1)"
  have "stage_inputs ?s2 = stage_inputs s1"
    by (simp add: form_kkt_inner_def form_value_fn_inner_def Let_def stage_inputs_def)
  then have f2: "stage_inputs ?s2 = stage_inputs s" using fr by simp
  have "m_cost s' = m_cost ?s2 \<and> m_dyn s' = m_dyn ?s2 \<and> m_nx s' = m_nx ?s2 \<and> m_nu s' = m_nu ?s2 \<and>
         length (m_tmp s') = length (m_tmp ?s2) \<and> length (m_bp_res s') = length (m_bp_res ?s2) \<and>
         length (m_value s') = length (m_value ?s2) \<and>
         (\<forall>j. j \<noteq> i \<longrightarrow> m_value s' ! j = m_value ?s2 ! j) \<and>
         map bp_lz (m_bp_res s') = map bp_lz (m_bp_res ?s2)"
    unfolding s'
    by (simp add: upd_value_fn_inner_def save_solution_def Let_def map_update_same)
  then show ?thesis using f2 by (simp add: stage_inputs_def)
qed


lemma backward_stages_symmetric:
  assumes "backward_stages env n s = Inr s'"
    and "solves_in_shape env" and "0 < m_nx s" and "0 < m_nu s"
    and "n \<le> length (m_tmp s)" and "n \<le> length (m_bp_res s)" and "n < length (m_value s)"
    and "\<forall>i<n. is_symmetric (m_nx s) (ic_Q (m_cost s ! i)) \<and>
               is_symmetric (m_nu s) (ic_R (m_cost s ! i)) \<and>
               is_mat (m_nu s) (m_nx s) (ic_P (m_cost s ! i)) \<and>
               length (ic_r (m_cost s ! i)) = m_nu s \<and>
               is_mat (m_nx s) (m_nx s) (dyn_A (m_dyn s ! i)) \<and>
               is_mat (m_nx s) (m_nu s) (dyn_B (m_dyn s ! i))"
    and "is_symmetric (m_nx s) (vf_S (m_value s ! n))"
  shows "(\<forall>i\<le>n. is_symmetric (m_nx s) (vf_S (m_value s' ! i))) \<and>
         (\<forall>j>n. m_value s' ! j = m_value s ! j)"
  using assms
proof (induction n arbitrary: s)
  case 0
  then show ?case by simp
next
  case (Suc n)
  from Suc.prems(1) obtain s1 where it: "backward_pass_iter env n s = Inr s1"
    and rest: "backward_stages env n s1 = Inr s'"
    by (auto split: sum.splits)
  note fr = backward_pass_iter_frame [OF it]
  have data: "is_symmetric (m_nx s) (ic_Q (m_cost s ! n))" "is_symmetric (m_nu s) (ic_R (m_cost s ! n))"
    "is_mat (m_nu s) (m_nx s) (ic_P (m_cost s ! n))" "length (ic_r (m_cost s ! n)) = m_nu s"
    "is_mat (m_nx s) (m_nx s) (dyn_A (m_dyn s ! n))" "is_mat (m_nx s) (m_nu s) (dyn_B (m_dyn s ! n))"
    using Suc.prems(8) by simp_all
  have next_sym: "is_symmetric (m_nx s) (vf_S (m_value s ! (n + 1)))"
    using Suc.prems(9) by simp
  have here: "is_symmetric (m_nx s) (vf_S (m_value s1 ! n))"
    using Suc.prems(5,6,7)
    by (intro value_function_symmetric_data [OF it Suc.prems(2) Suc.prems(3) Suc.prems(4) _ _ _ data next_sym])
       simp_all
  have ih: "(\<forall>i\<le>n. is_symmetric (m_nx s1) (vf_S (m_value s' ! i))) \<and>
            (\<forall>j>n. m_value s' ! j = m_value s1 ! j)"
  proof (rule Suc.IH [OF rest Suc.prems(2)])
    show "0 < m_nx s1" "0 < m_nu s1" using fr Suc.prems(3,4) by simp_all
    show "n \<le> length (m_tmp s1)" "n \<le> length (m_bp_res s1)" "n < length (m_value s1)"
      using fr Suc.prems(5,6,7) by simp_all
    show "\<forall>i<n. is_symmetric (m_nx s1) (ic_Q (m_cost s1 ! i)) \<and>
               is_symmetric (m_nu s1) (ic_R (m_cost s1 ! i)) \<and>
               is_mat (m_nu s1) (m_nx s1) (ic_P (m_cost s1 ! i)) \<and>
               length (ic_r (m_cost s1 ! i)) = m_nu s1 \<and>
               is_mat (m_nx s1) (m_nx s1) (dyn_A (m_dyn s1 ! i)) \<and>
               is_mat (m_nx s1) (m_nu s1) (dyn_B (m_dyn s1 ! i))"
      using fr Suc.prems(8) by simp
    show "is_symmetric (m_nx s1) (vf_S (m_value s1 ! n))" using here fr by simp
  qed
  have nx: "m_nx s1 = m_nx s" using fr by simp
  have top: "m_value s' ! Suc n = m_value s ! Suc n"
    using ih fr by simp
  have "is_symmetric (m_nx s) (vf_S (m_value s' ! i))" if "i \<le> Suc n" for i
  proof (cases "i = Suc n")
    case True
    then show ?thesis using top Suc.prems(9) by simp
  next
    case False
    then have "i \<le> n" using that by simp
    then show ?thesis using ih nx by simp
  qed
  moreover have "m_value s' ! j = m_value s ! j" if "j > Suc n" for j
    using that ih fr by simp
  ultimately show ?case by blast
qed

lemma stage_inputs_init:
  assumes "length (m_value s) = m_N s + 1" "length (m_cost s) = m_N s + 1"
  shows "m_cost (backward_pass_init s) = m_cost s" "m_dyn (backward_pass_init s) = m_dyn s"
    "m_nx (backward_pass_init s) = m_nx s" "m_nu (backward_pass_init s) = m_nu s"
    "m_N (backward_pass_init s) = m_N s"
    "length (m_tmp (backward_pass_init s)) = length (m_tmp s)"
    "length (m_bp_res (backward_pass_init s)) = length (m_bp_res s)"
    "length (m_value (backward_pass_init s)) = length (m_value s)"
    "vf_S (m_value (backward_pass_init s) ! m_N s) = add_to_diagonal (m_hxx_reg s) (ic_Q (m_cost s ! m_N s))"
proof -
  let ?s1 = "s\<lparr> m_value := (m_value s)[length (m_value s) - 1 :=
                 \<lparr> vf_S = add_to_diagonal (m_hxx_reg s) (ic_Q (last (m_cost s))),
                   vf_s = ic_q (last (m_cost s)) \<rparr>],
               m_constraint_to_go := cg_set_constraint (last (m_constraint s)) (m_constraint_to_go s) \<rparr>"
  have e: "backward_pass_init s = add_bound_constraint (m_N s) ?s1"
    by (simp add: backward_pass_init_def Let_def)
  have "stage_inputs (backward_pass_init s) = stage_inputs ?s1"
    unfolding e by (rule stage_inputs_add_bound_constraint)
  then have f: "m_cost (backward_pass_init s) = m_cost s" "m_dyn (backward_pass_init s) = m_dyn s"
    "m_nx (backward_pass_init s) = m_nx s" "m_nu (backward_pass_init s) = m_nu s"
    "m_N (backward_pass_init s) = m_N s"
    "length (m_tmp (backward_pass_init s)) = length (m_tmp s)"
    "length (m_bp_res (backward_pass_init s)) = length (m_bp_res s)"
    "m_value (backward_pass_init s) = m_value ?s1"
    by (simp_all add: stage_inputs_def)
  have l: "last (m_cost s) = m_cost s ! m_N s"
  proof -
    have "m_cost s \<noteq> []" using assms(2) by auto
    then show ?thesis using assms(2) by (simp add: last_conv_nth)
  qed
  show "m_cost (backward_pass_init s) = m_cost s" "m_dyn (backward_pass_init s) = m_dyn s"
    "m_nx (backward_pass_init s) = m_nx s" "m_nu (backward_pass_init s) = m_nu s"
    "m_N (backward_pass_init s) = m_N s"
    "length (m_tmp (backward_pass_init s)) = length (m_tmp s)"
    "length (m_bp_res (backward_pass_init s)) = length (m_bp_res s)"
    using f by simp_all
  show "length (m_value (backward_pass_init s)) = length (m_value s)" using f(8) by simp
  show "vf_S (m_value (backward_pass_init s) ! m_N s) = add_to_diagonal (m_hxx_reg s) (ic_Q (m_cost s ! m_N s))"
    using assms(1) by (simp add: f(8) l)
qed

lemma backward_pass_symmetric:
  assumes "backward_stages env (m_N s) (backward_pass_init s) = Inr s'"
    and "solves_in_shape env" and "0 < m_nx s" and "0 < m_nu s"
    and "m_N s \<le> length (m_tmp s)" and "m_N s \<le> length (m_bp_res s)"
    and "length (m_value s) = m_N s + 1" and "length (m_cost s) = m_N s + 1"
    and "\<forall>i<m_N s. is_symmetric (m_nx s) (ic_Q (m_cost s ! i)) \<and>
               is_symmetric (m_nu s) (ic_R (m_cost s ! i)) \<and>
               is_mat (m_nu s) (m_nx s) (ic_P (m_cost s ! i)) \<and>
               length (ic_r (m_cost s ! i)) = m_nu s \<and>
               is_mat (m_nx s) (m_nx s) (dyn_A (m_dyn s ! i)) \<and>
               is_mat (m_nx s) (m_nu s) (dyn_B (m_dyn s ! i))"
    and "is_symmetric (m_nx s) (ic_Q (m_cost s ! m_N s))"
  shows "\<forall>i\<le>m_N s. is_symmetric (m_nx s) (vf_S (m_value s' ! i))"
proof -
  note init = stage_inputs_init [OF assms(7) assms(8)]
  have top: "is_symmetric (m_nx (backward_pass_init s))
               (vf_S (m_value (backward_pass_init s) ! m_N s))"
    using assms(10) by (simp add: init is_symmetric_add_to_diagonal)
  have "(\<forall>i\<le>m_N s. is_symmetric (m_nx (backward_pass_init s)) (vf_S (m_value s' ! i))) \<and>
        (\<forall>j>m_N s. m_value s' ! j = m_value (backward_pass_init s) ! j)"
    using assms(3-9)
    by (intro backward_stages_symmetric [OF assms(1) assms(2)] top) (simp_all add: init)
  then show ?thesis by (simp add: init)
qed

text \<open>
  Over symmetric data the value matrix of a stage is symmetric before the symmetrization
  (\<open>value_function_symmetric_data\<close>), and the statement \<open>S = 0.5*(S + S.transpose())\<close>
  leaves a symmetric matrix as it is. On a matrix that is not symmetric the statement,
  as Eigen runs it, averages the coefficient above the diagonal with the new coefficient
  below it, not with the old one.
\<close>

lemma symmetrize_in_place_aliasing:
  "symmetrize_in_place [[1, 2], [3, 4]] = [[1, 9 / 4], [5 / 2, 4]] \<and>
   symmetrize_spec 2 [[1, 2], [3, 4]] = [[1, 5 / 2], [5 / 2, 4]]"
  by (simp add: symmetrize_in_place_def column_major_def symmetrize_coeff_def upt_conv_Cons
        symmetrize_spec_def mscale_def mtrans_def lin_alg_defs)


subsection \<open>Merit slope\<close>

lemma fold_add_sum: "fold (\<lambda>i (acc::real). acc + g i) [0..<n] a = a + (\<Sum>i<n. g i)"
  by (induction n) (simp_all add: lessThan_Suc)

lemma compute_merit_slope_eq:
  "compute_merit_slope s mu_f mu_c D G =
     (\<Sum>i<m_N s. dot (bp_lz (m_bp_res s ! i)) (tmp_hu (m_tmp s ! i))) - mu_f * D - mu_c * G"
  by (simp add: compute_merit_slope_def fold_add_sum)

lemma backward_stages_keeps_lz:
  "backward_stages env n s = Inr s' \<Longrightarrow> map bp_lz (m_bp_res s') = map bp_lz (m_bp_res s)"
proof (induction n arbitrary: s)
  case 0
  then show ?case by simp
next
  case (Suc n)
  from Suc.prems obtain s1 where it: "backward_pass_iter env n s = Inr s1"
    and rest: "backward_stages env n s1 = Inr s'"
    by (auto split: sum.splits)
  show ?case using Suc.IH [OF rest] backward_pass_iter_frame [OF it] by simp
qed

text \<open>
  Claim C5 says that \<open>compute_merit_slope\<close> pairs the gradient \<open>hu\<close> of each stage
  with the feedforward step saved by the backward pass. The backward pass saves that
  step in \<open>lu\<close>; \<open>compute_merit_slope\<close> reads \<open>lz\<close>, which no stage writes. In the
  example, after the backward pass of stage \<open>0\<close> the saved step is \<open>-1/2\<close> and \<open>lz\<close> is
  still \<open>0\<close>: with \<open>mu_f = 1\<close> and a defect norm of \<open>1\<close> the code returns \<open>-1\<close>, where
  the stated sum gives \<open>-3/2\<close>.
\<close>

theorem merit_slope_reads_lz:
  "backward_pass_iter ex_env 0 (backward_pass_init ex_solver) = Inr ex_stage0 \<and>
   bp_lu (m_bp_res ex_stage0 ! 0) = [- (1 / 2)] \<and>
   bp_lz (m_bp_res ex_stage0 ! 0) = [0] \<and>
   tmp_hu (m_tmp ex_stage0 ! 0) = [1] \<and>
   compute_merit_slope ex_stage0 1 0 1 0 = - 1 \<and>
   merit_slope_spec ex_stage0 1 0 1 0 = - (3 / 2)"
  using ex_iter
  by (simp add: compute_merit_slope_def merit_slope_spec_def ex_stage0_def ex_solver_def
        ex_bp_def ex_tmp_def dot_def)

subsection \<open>Regularization retry\<close>

lemma increase_regularization_hxx_reg:
  "m_hxx_reg (increase_regularization s) =
     max (m_hxx_reg_base s)
         ((if m_hxx_reg s < 1 / 10 ^ 6 then 1 else m_hxx_reg s) * m_hxx_reg_growth_factor s)"
  by (simp add: increase_regularization_def Let_def max_def)

lemma increase_regularization_frame:
  "increase_regularization s = s\<lparr> m_hxx_reg := m_hxx_reg (increase_regularization s) \<rparr>"
  by (simp add: increase_regularization_def Let_def)

text \<open>The stages and the start of the backward pass leave the regularization alone.\<close>

lemma backward_pass_iter_reg:
  assumes "backward_pass_iter env i s = Inr s'"
  shows "m_hxx_reg s' = m_hxx_reg s \<and> m_hxx_reg_base s' = m_hxx_reg_base s \<and>
         m_hxx_reg_growth_factor s' = m_hxx_reg_growth_factor s"
proof -
  from backward_pass_iter_Inr [OF assms] obtain s1 X where h: "handle_constraints env i s = Inr s1"
    and s': "s' = upd_value_fn_inner i (save_solution i X (form_kkt_inner i (form_value_fn_inner i s1)))"
    by blast
  have "stage_inputs s1 = stage_inputs s" by (rule stage_inputs_handle_constraints [OF h])
  then show ?thesis
    unfolding s'
    by (simp add: stage_inputs_def upd_value_fn_inner_def save_solution_def form_kkt_inner_def
          form_value_fn_inner_def Let_def)
qed

lemma backward_stages_part_reg:
  assumes "backward_stages_part env k n s = Inr t"
  shows "m_hxx_reg t = m_hxx_reg s \<and> m_hxx_reg_base t = m_hxx_reg_base s \<and>
         m_hxx_reg_growth_factor t = m_hxx_reg_growth_factor s"
  using assms
proof (induction env k n s rule: backward_stages_part.induct)
  case (3 env k n s)
  from "3.prems" obtain s1 where it: "backward_pass_iter env n s = Inr s1"
    and rest: "backward_stages_part env k n s1 = Inr t"
    by (auto split: sum.splits)
  show ?case using "3.IH" [OF it rest] backward_pass_iter_reg [OF it] by simp
qed simp_all

lemma backward_pass_init_reg:
  "m_hxx_reg (backward_pass_init s) = m_hxx_reg s \<and>
   m_hxx_reg_base (backward_pass_init s) = m_hxx_reg_base s \<and>
   m_hxx_reg_growth_factor (backward_pass_init s) = m_hxx_reg_growth_factor s \<and>
   m_N (backward_pass_init s) = m_N s"
proof -
  let ?s1 = "s\<lparr> m_value := (m_value s)[length (m_value s) - 1 :=
                 \<lparr> vf_S = add_to_diagonal (m_hxx_reg s) (ic_Q (last (m_cost s))),
                   vf_s = ic_q (last (m_cost s)) \<rparr>],
               m_constraint_to_go := cg_set_constraint (last (m_constraint s)) (m_constraint_to_go s) \<rparr>"
  have "stage_inputs (backward_pass_init s) = stage_inputs ?s1"
    unfolding backward_pass_init_def Let_def
    using stage_inputs_add_bound_constraint [of "m_N ?s1" ?s1] by simp
  then show ?thesis by (simp add: stage_inputs_def)
qed

text \<open>
  An exception raised in one of the first stages is the exception of all the stages, and
  stages that return hand over to the stages that follow.
\<close>

lemma backward_stages_split:
  assumes "k \<le> n"
  shows "backward_stages env n s =
           (case backward_stages_part env k n s of
              Inl e \<Rightarrow> Inl e
            | Inr t \<Rightarrow> backward_stages env (n - k) t)"
  using assms
proof (induction env k n s rule: backward_stages_part.induct)
  case (3 env k n s)
  then show ?case by (cases "backward_pass_iter env n s") (simp_all split: sum.splits)
qed simp_all

text \<open>
  A KKT solution that is not finite: with a macro that lets finite values pass and that,
  on a value that is not finite, raises nothing or raises \<open>HessianIndefinite\<close>, the stage
  ends with \<open>HessianIndefinite\<close>. With a macro that raises another exception on such a
  value, the stage ends with that exception.
\<close>

lemma backward_pass_iter_nonfinite:
  assumes "THROW_NAN env True = None"
    and "handle_constraints env i s = Inr s1"
    and "solve_kkt_inner env (m_kkt_decomp_type (form_kkt_inner i (form_value_fn_inner i s1)))
           (tmp_kkt (m_tmp (form_kkt_inner i (form_value_fn_inner i s1)) ! i))
           (tmp_kx0 (m_tmp (form_kkt_inner i (form_value_fn_inner i s1)) ! i)) = Inr None"
  shows "backward_pass_iter env i s =
           Inl (case THROW_NAN env False of None \<Rightarrow> HessianIndefinite | Some e \<Rightarrow> e,
                form_kkt_inner i (form_value_fn_inner i s1))"
  using assms by (simp add: backward_pass_iter_def Let_def raising_def split: option.splits)

lemma backward_pass_restart:
  assumes "backward_stages env (m_N (backward_pass_init s)) (backward_pass_init s)
             = Inl (HessianIndefinite, s1)"
  shows "backward_pass env s = backward_pass env (increase_regularization s1)"
  using assms by (subst backward_pass.simps) (simp add: Let_def)

lemma backward_pass_other_error:
  assumes "backward_stages env (m_N (backward_pass_init s)) (backward_pass_init s) = Inl (e, s1)"
    and "e \<noteq> HessianIndefinite"
  shows "backward_pass env s = Some (Inl (e, s1))"
  using assms by (subst backward_pass.simps) (simp add: Let_def)

lemma backward_pass_return:
  assumes "backward_stages env (m_N (backward_pass_init s)) (backward_pass_init s) = Inr s1"
  shows "backward_pass env s = Some (backward_pass_finish env s1)"
  using assms by (subst backward_pass.simps) (simp add: Let_def)

text \<open>
  The end of the backward pass raises no \<open>HessianIndefinite\<close>, and one raised by a stage
  is caught: no backward pass ends with it.
\<close>

lemma optimize_initial_state_errors:
  "optimize_initial_state env s = Inl (e, t) \<Longrightarrow>
     e = NotFinite \<or> e = InvalidArgument \<or> THROW_NAN env True = Some e \<or> THROW_NAN env False = Some e"
  by (auto simp: optimize_initial_state_def Let_def raising_Inl solve_state_kkt_def
           split: if_splits sum.splits option.splits decomposition_type.splits)


lemma backward_pass_finish_errors:
  "backward_pass_finish env s = Inl (e, t) \<Longrightarrow>
     e = NotFinite \<or> e = InvalidArgument \<or> THROW_NAN env True = Some e \<or> THROW_NAN env False = Some e"
  using optimize_initial_state_errors [of env s e t]
  by (auto simp: backward_pass_finish_def Let_def split: sum.splits if_splits)

lemma backward_pass_hessian_error:
  assumes "backward_pass env s = Some y"
  shows "\<forall>r. y = Inl (HessianIndefinite, r) \<longrightarrow>
           (\<exists>s3. backward_pass_finish env s3 = Inl (HessianIndefinite, r))"
proof (rule backward_pass.raw_induct
         [where P = "\<lambda>env s y. \<forall>r. y = Inl (HessianIndefinite, r) \<longrightarrow>
                       (\<exists>s3. backward_pass_finish env s3 = Inl (HessianIndefinite, r))",
          OF _ assms])
  fix bp :: "numerics \<Rightarrow> solver \<Rightarrow> outcome option" and env s y
  assume IH: "\<And>s b y. bp s b = Some y \<Longrightarrow>
                \<forall>r. y = Inl (HessianIndefinite, r) \<longrightarrow>
                  (\<exists>s3. backward_pass_finish s s3 = Inl (HessianIndefinite, r))"
    and eq: "(let s0 = backward_pass_init s
              in case backward_stages env (m_N s0) s0 of
                   Inl (e, s1) \<Rightarrow>
                     if e = HessianIndefinite then bp env (increase_regularization s1)
                     else Some (Inl (e, s1))
                 | Inr s1 \<Rightarrow> Some (backward_pass_finish env s1)) = Some y"
  show "\<forall>r. y = Inl (HessianIndefinite, r) \<longrightarrow>
          (\<exists>s3. backward_pass_finish env s3 = Inl (HessianIndefinite, r))"
  proof (cases "backward_stages env (m_N (backward_pass_init s)) (backward_pass_init s)")
    case (Inl a)
    obtain e s1 where a: "a = (e, s1)" by (cases a)
    show ?thesis
    proof (cases "e = HessianIndefinite")
      case True
      then have "bp env (increase_regularization s1) = Some y"
        using eq Inl a by (simp add: Let_def)
      then show ?thesis by (rule IH)
    next
      case False
      then have "y = Inl (e, s1)" using eq Inl a by (simp add: Let_def)
      then show ?thesis using False by simp
    qed
  next
    case (Inr s1)
    then have "y = backward_pass_finish env s1" using eq by (simp add: Let_def)
    then show ?thesis by auto
  qed
qed

text \<open>
  Claim C2: a KKT solution that is not finite at stage \<open>i\<close>, after the stages
  \<open>N - 1, \<dots>, i + 1\<close> have returned, ends the stage with \<open>HessianIndefinite\<close>;
  \<open>backward_pass\<close> then is the backward pass started anew, from stage \<open>N\<close>, on the
  solver as it was when the exception was raised, with \<open>hxx_reg\<close> replaced by the larger
  of \<open>hxx_reg_base\<close> and the growth factor times \<open>hxx_reg\<close>, or times \<open>1\<close> when \<open>hxx_reg\<close>
  was below \<open>1e-6\<close>; and no stage's \<open>HessianIndefinite\<close> leaves \<open>backward_pass\<close>. The
  macro \<open>THROW_NAN\<close>, which stands before the test that raises \<open>HessianIndefinite\<close>, is
  taken to let finite values pass and, on a value that is not finite, to raise nothing
  or \<open>HessianIndefinite\<close>; if it raises \<open>HessianIndefinite\<close>, it can do so in
  \<open>optimize_initial_state\<close> as well, outside the \<open>try\<close> block, and that is the only
  \<open>HessianIndefinite\<close> with which \<open>backward_pass\<close> can end.
\<close>

theorem nonfinite_solution_retries:
  assumes "THROW_NAN env True = None"
    and "THROW_NAN env False = None \<or> THROW_NAN env False = Some HessianIndefinite"
    and "i < m_N s"
    and "backward_stages_part env (m_N s - Suc i) (m_N s) (backward_pass_init s) = Inr t"
    and "handle_constraints env i t = Inr s1"
    and "solve_kkt_inner env (m_kkt_decomp_type (form_kkt_inner i (form_value_fn_inner i s1)))
           (tmp_kkt (m_tmp (form_kkt_inner i (form_value_fn_inner i s1)) ! i))
           (tmp_kx0 (m_tmp (form_kkt_inner i (form_value_fn_inner i s1)) ! i)) = Inr None"
  shows "(let s2 = form_kkt_inner i (form_value_fn_inner i s1)
          in backward_pass_iter env i t = Inl (HessianIndefinite, s2) \<and>
             backward_pass env s = backward_pass env (increase_regularization s2) \<and>
             increase_regularization s2 =
               s2\<lparr> m_hxx_reg := max (m_hxx_reg_base s)
                      ((if m_hxx_reg s < 1 / 10 ^ 6 then 1 else m_hxx_reg s)
                        * m_hxx_reg_growth_factor s) \<rparr>) \<and>
         (\<forall>r. backward_pass env s = Some (Inl (HessianIndefinite, r)) \<longrightarrow>
              THROW_NAN env False = Some HessianIndefinite \<and>
              (\<exists>s3. optimize_initial_state env s3 = Inl (HessianIndefinite, r)))"
proof -
  let ?s2 = "form_kkt_inner i (form_value_fn_inner i s1)"
  let ?s0 = "backward_pass_init s"
  have n: "m_N ?s0 = m_N s" by (simp add: backward_pass_init_reg)
  have it: "backward_pass_iter env i t = Inl (HessianIndefinite, ?s2)"
    using backward_pass_iter_nonfinite [OF assms(1) assms(5) assms(6)] assms(2) by auto
  have "backward_stages env (m_N s) ?s0 = backward_stages env (m_N s - (m_N s - Suc i)) t"
    using backward_stages_split [of "m_N s - Suc i" "m_N s" env ?s0] assms(4) by simp
  also have "m_N s - (m_N s - Suc i) = Suc i" using assms(3) by simp
  also have "backward_stages env (Suc i) t = Inl (HessianIndefinite, ?s2)"
    using it by simp
  finally have st: "backward_stages env (m_N ?s0) ?s0 = Inl (HessianIndefinite, ?s2)"
    by (simp add: n)
  have restart: "backward_pass env s = backward_pass env (increase_regularization ?s2)"
    by (rule backward_pass_restart [OF st])
  have "stage_inputs s1 = stage_inputs t" by (rule stage_inputs_handle_constraints [OF assms(5)])
  then have "m_hxx_reg ?s2 = m_hxx_reg t \<and> m_hxx_reg_base ?s2 = m_hxx_reg_base t \<and>
             m_hxx_reg_growth_factor ?s2 = m_hxx_reg_growth_factor t"
    by (simp add: stage_inputs_def form_kkt_inner_def form_value_fn_inner_def Let_def)
  then have reg: "m_hxx_reg ?s2 = m_hxx_reg s" "m_hxx_reg_base ?s2 = m_hxx_reg_base s"
    "m_hxx_reg_growth_factor ?s2 = m_hxx_reg_growth_factor s"
    using backward_stages_part_reg [OF assms(4)] backward_pass_init_reg [of s] by simp_all
  have inc: "increase_regularization ?s2 =
               ?s2\<lparr> m_hxx_reg := max (m_hxx_reg_base s)
                      ((if m_hxx_reg s < 1 / 10 ^ 6 then 1 else m_hxx_reg s)
                        * m_hxx_reg_growth_factor s) \<rparr>"
    using increase_regularization_frame [of ?s2] increase_regularization_hxx_reg [of ?s2]
    by (simp add: reg)
  have out: "THROW_NAN env False = Some HessianIndefinite \<and>
             (\<exists>s3. optimize_initial_state env s3 = Inl (HessianIndefinite, r))"
    if r: "backward_pass env s = Some (Inl (HessianIndefinite, r))" for r
  proof -
    from backward_pass_hessian_error [OF r] obtain s3 where
      f: "backward_pass_finish env s3 = Inl (HessianIndefinite, r)" by blast
    then have o: "optimize_initial_state env s3 = Inl (HessianIndefinite, r)"
      by (auto simp: backward_pass_finish_def Let_def split: sum.splits if_splits)
    from optimize_initial_state_errors [OF o] assms(1)
    show ?thesis using o by auto
  qed
  show ?thesis
    using it restart inc out by (simp add: Let_def)
qed

text \<open>
  With a macro that raises another exception on a value that is not finite, that
  exception leaves \<open>backward_pass\<close> and nothing is retried.
\<close>

lemma nonfinite_solution_other_exception:
  assumes "THROW_NAN env True = None" and "THROW_NAN env False = Some e"
    and "e \<noteq> HessianIndefinite"
    and "i < m_N s"
    and "backward_stages_part env (m_N s - Suc i) (m_N s) (backward_pass_init s) = Inr t"
    and "handle_constraints env i t = Inr s1"
    and "solve_kkt_inner env (m_kkt_decomp_type (form_kkt_inner i (form_value_fn_inner i s1)))
           (tmp_kkt (m_tmp (form_kkt_inner i (form_value_fn_inner i s1)) ! i))
           (tmp_kx0 (m_tmp (form_kkt_inner i (form_value_fn_inner i s1)) ! i)) = Inr None"
  shows "backward_pass env s = Some (Inl (e, form_kkt_inner i (form_value_fn_inner i s1)))"
proof -
  let ?s2 = "form_kkt_inner i (form_value_fn_inner i s1)"
  let ?s0 = "backward_pass_init s"
  have n: "m_N ?s0 = m_N s" by (simp add: backward_pass_init_reg)
  have it: "backward_pass_iter env i t = Inl (e, ?s2)"
    using backward_pass_iter_nonfinite [OF assms(1) assms(6) assms(7)] assms(2) by simp
  have "backward_stages env (m_N s) ?s0 = backward_stages env (m_N s - (m_N s - Suc i)) t"
    using backward_stages_split [of "m_N s - Suc i" "m_N s" env ?s0] assms(5) by simp
  also have "m_N s - (m_N s - Suc i) = Suc i" using assms(4) by simp
  also have "backward_stages env (Suc i) t = Inl (e, ?s2)"
    using it by simp
  finally have "backward_stages env (m_N ?s0) ?s0 = Inl (e, ?s2)" by (simp add: n)
  from backward_pass_other_error [OF this assms(3)] show ?thesis .
qed

lemma ex_singular_init: "backward_pass_init ex_singular = ex_singular"
  by (simp add: ex_singular_def ex_solver_def bwd_defs Let_def)

lemma ex_singular_stage:
  "handle_constraints (ex_numerics macro) 0 ex_singular = Inr ex_singular \<and>
   form_kkt_inner 0 (form_value_fn_inner 0 ex_singular) = ex_singular_thrown \<and>
   solve_kkt_inner (ex_numerics macro) (m_kkt_decomp_type ex_singular_thrown)
     (tmp_kkt (m_tmp ex_singular_thrown ! 0)) (tmp_kx0 (m_tmp ex_singular_thrown ! 0)) = Inr None"
  by (simp add: ex_singular_thrown_def ex_singular_def ex_solver_def ex_numerics_def
        scalar_solve_def ex_bp_def ex_tmp_def bwd_defs lin_alg_defs Let_def)

lemma ex_singular_retry:
  assumes "macro True = None"
  shows "\<exists>r. backward_pass (ex_numerics macro) (increase_regularization ex_singular_thrown) = Some (Inr r) \<and>
          m_hxx_reg r = 10 \<and> vf_S (m_value r ! 0) = [[10]] \<and> bp_lu (m_bp_res r ! 0) = [- (11 / 10)]"
proof -
  let ?s = "increase_regularization ex_singular_thrown"
  have "\<exists>t. backward_stages (ex_numerics macro) (m_N (backward_pass_init ?s)) (backward_pass_init ?s) = Inr t \<and>
          (\<exists>r. backward_pass_finish (ex_numerics macro) t = Inr r \<and>
            m_hxx_reg r = 10 \<and> vf_S (m_value r ! 0) = [[10]] \<and> bp_lu (m_bp_res r ! 0) = [- (11 / 10)])"
    using assms
    by (simp add: increase_regularization_def ex_singular_thrown_def ex_singular_def ex_solver_def
          ex_numerics_def scalar_solve_def ex_bp_def ex_tmp_def bwd_defs lin_alg_defs Let_def
          backward_pass_finish_def optimize_initial_state_def solve_state_kkt_def
          unsatisfied_row_def cwiseAbs_sum_def)
  then obtain t r where t: "backward_stages (ex_numerics macro) (m_N (backward_pass_init ?s)) (backward_pass_init ?s) = Inr t"
    and r: "backward_pass_finish (ex_numerics macro) t = Inr r"
      "m_hxx_reg r = 10" "vf_S (m_value r ! 0) = [[10]]" "bp_lu (m_bp_res r ! 0) = [- (11 / 10)]"
    by blast
  show ?thesis
    using backward_pass_return [OF t] r by simp
qed

theorem nonfinite_solution_retries_witness:
  "THROW_NAN ex_env True = None \<and> THROW_NAN ex_env False = None \<and>
   THROW_NAN ex_env_hi True = None \<and> THROW_NAN ex_env_hi False = Some HessianIndefinite \<and>
   0 < m_N ex_singular \<and>
   backward_pass_iter ex_env 0 (backward_pass_init ex_singular) =
     Inl (HessianIndefinite, ex_singular_thrown) \<and>
   backward_pass_iter ex_env_hi 0 (backward_pass_init ex_singular) =
     Inl (HessianIndefinite, ex_singular_thrown) \<and>
   m_hxx_reg ex_singular = 0 \<and> m_hxx_reg (increase_regularization ex_singular_thrown) = 10 \<and>
   (\<exists>r. backward_pass ex_env ex_singular = Some (Inr r) \<and> m_hxx_reg r = 10 \<and>
        vf_S (m_value r ! 0) = [[10]]) \<and>
   (\<exists>r. backward_pass ex_env_hi ex_singular = Some (Inr r) \<and> m_hxx_reg r = 10 \<and>
        vf_S (m_value r ! 0) = [[10]])"
proof -
  have m: "THROW_NAN ex_env True = None" "THROW_NAN ex_env False = None"
    "THROW_NAN ex_env_hi True = None" "THROW_NAN ex_env_hi False = Some HessianIndefinite"
    by (simp_all add: THROW_NAN_def ex_env_def ex_env_hi_def ex_numerics_def)
  have n: "0 < m_N ex_singular" "m_N ex_singular - Suc 0 = 0" "m_hxx_reg ex_singular = 0"
    "m_hxx_reg_base ex_singular = 0" "m_hxx_reg_growth_factor ex_singular = 10"
    by (simp_all add: ex_singular_def ex_solver_def)
  have p: "backward_stages_part env (m_N ex_singular - Suc 0) (m_N ex_singular)
             (backward_pass_init ex_singular) = Inr ex_singular" for env
    by (simp add: n ex_singular_init)
  note st = ex_singular_stage [of "\<lambda>all_finite. None", folded ex_env_def]
  note st_hi = ex_singular_stage
    [of "\<lambda>all_finite. if all_finite then None else Some HessianIndefinite", folded ex_env_hi_def]
  have h: "handle_constraints ex_env 0 ex_singular = Inr ex_singular"
    and k: "solve_kkt_inner ex_env (m_kkt_decomp_type (form_kkt_inner 0 (form_value_fn_inner 0 ex_singular)))
           (tmp_kkt (m_tmp (form_kkt_inner 0 (form_value_fn_inner 0 ex_singular)) ! 0))
           (tmp_kx0 (m_tmp (form_kkt_inner 0 (form_value_fn_inner 0 ex_singular)) ! 0)) = Inr None"
    using st by simp_all
  have h_hi: "handle_constraints ex_env_hi 0 ex_singular = Inr ex_singular"
    and k_hi: "solve_kkt_inner ex_env_hi (m_kkt_decomp_type (form_kkt_inner 0 (form_value_fn_inner 0 ex_singular)))
           (tmp_kkt (m_tmp (form_kkt_inner 0 (form_value_fn_inner 0 ex_singular)) ! 0))
           (tmp_kx0 (m_tmp (form_kkt_inner 0 (form_value_fn_inner 0 ex_singular)) ! 0)) = Inr None"
    using st_hi by simp_all
  have t: "form_kkt_inner 0 (form_value_fn_inner 0 ex_singular) = ex_singular_thrown"
    using st by simp
  from nonfinite_solution_retries [OF m(1) disjI1 [OF m(2)] n(1) p h k]
  have a: "backward_pass_iter ex_env 0 ex_singular = Inl (HessianIndefinite, ex_singular_thrown)"
    "backward_pass ex_env ex_singular = backward_pass ex_env (increase_regularization ex_singular_thrown)"
    "increase_regularization ex_singular_thrown = ex_singular_thrown\<lparr> m_hxx_reg := 10 \<rparr>"
    by (simp_all add: Let_def t n)
  have a3: "m_hxx_reg (increase_regularization ex_singular_thrown) = 10"
    by (subst a(3)) simp
  from nonfinite_solution_retries [OF m(3) disjI2 [OF m(4)] n(1) p h_hi k_hi]
  have b: "backward_pass_iter ex_env_hi 0 ex_singular = Inl (HessianIndefinite, ex_singular_thrown)"
    "backward_pass ex_env_hi ex_singular = backward_pass ex_env_hi (increase_regularization ex_singular_thrown)"
    by (simp_all add: Let_def t)
  have r: "\<exists>r. backward_pass ex_env ex_singular = Some (Inr r) \<and> m_hxx_reg r = 10 \<and>
        vf_S (m_value r ! 0) = [[10]]"
    using ex_singular_retry [of "\<lambda>all_finite. None", folded ex_env_def] a(2) by auto
  have r_hi: "\<exists>r. backward_pass ex_env_hi ex_singular = Some (Inr r) \<and> m_hxx_reg r = 10 \<and>
        vf_S (m_value r ! 0) = [[10]]"
    using ex_singular_retry
      [of "\<lambda>all_finite. if all_finite then None else Some HessianIndefinite", folded ex_env_hi_def]
      b(2) by auto
  show ?thesis
    using m n(1,3) a(1) a3 b(1) r r_hi by (simp add: ex_singular_init)
qed

text \<open>
  In the same example, with a macro that raises \<open>std::runtime_error\<close> on a value that
  is not finite, the backward pass ends with that exception.
\<close>

lemma nonfinite_solution_runtime_error:
  "backward_pass ex_env_rt ex_singular = Some (Inl (RuntimeError, ex_singular_thrown))"
proof -
  have m: "THROW_NAN ex_env_rt True = None" "THROW_NAN ex_env_rt False = Some RuntimeError"
    by (simp_all add: THROW_NAN_def ex_env_rt_def ex_numerics_def)
  have n: "0 < m_N ex_singular" "m_N ex_singular - Suc 0 = 0"
    by (simp_all add: ex_singular_def ex_solver_def)
  have p: "backward_stages_part ex_env_rt (m_N ex_singular - Suc 0) (m_N ex_singular)
             (backward_pass_init ex_singular) = Inr ex_singular"
    by (simp add: n ex_singular_init)
  note st = ex_singular_stage
    [of "\<lambda>all_finite. if all_finite then None else Some RuntimeError", folded ex_env_rt_def]
  have h: "handle_constraints ex_env_rt 0 ex_singular = Inr ex_singular"
    and k: "solve_kkt_inner ex_env_rt (m_kkt_decomp_type (form_kkt_inner 0 (form_value_fn_inner 0 ex_singular)))
           (tmp_kkt (m_tmp (form_kkt_inner 0 (form_value_fn_inner 0 ex_singular)) ! 0))
           (tmp_kx0 (m_tmp (form_kkt_inner 0 (form_value_fn_inner 0 ex_singular)) ! 0)) = Inr None"
    and t: "form_kkt_inner 0 (form_value_fn_inner 0 ex_singular) = ex_singular_thrown"
    using st by simp_all
  from nonfinite_solution_other_exception [OF m _ n(1) p h k] show ?thesis by (simp add: t)
qed

subsection \<open>Line search\<close>







lemma ls_finish_result:
  "m_fp_res (ls_finish s) = (m_fp_res s)\<lparr> fp_accepted := True \<rparr>"
  "m_xtrj (ls_finish s) = fp_xtrj (m_fp_res s)"
  "m_utrj (ls_finish s) = fp_utrj (m_fp_res s)"
  "m_reported (ls_finish s) =
     m_reported s @ (if fp_accepted (m_fp_res s) then [] else [(m_fp_res s)\<lparr> fp_accepted := True \<rparr>])"
  by (simp_all add: ls_finish_def Let_def report_result_def)


lemmas fwd_defs = forward_pass_def forward_pass_iter_def compute_cost_def compute_constr_def
  constr_at_def compute_defect_def defect_at_def computeDefect_def cost_evaluate_def
  is_valid_def constraint_evaluate_def cwiseAbs_sum_def sumsqr_def









subsection \<open>Infeasible rows of the constraints\<close>

lemma lpNorm_inf_fold: "fold (\<lambda>x m. max \<bar>x\<bar> m) v a < c \<longleftrightarrow> a < c \<and> (\<forall>x\<in>set v. \<bar>x\<bar> < (c::real))"
  by (induction v arbitrary: a) auto

lemma lpNorm_inf_less: "lpNorm_inf v < c \<longleftrightarrow> 0 < c \<and> (\<forall>x\<in>set v. \<bar>x\<bar> < c)"
  by (simp add: lpNorm_inf_def lpNorm_inf_fold)

lemma infeasible_rows_fold:
  "m_constraint_to_go (fold (infeasible_row Cinf hinf) [0..<m] s) =
     cg_add (map (\<lambda>j. Cinf ! j) (filter (\<lambda>j. \<not> is_dropped Cinf hinf j) [0..<m]))
            (map (\<lambda>j. replicate (m_nu s) 0) (filter (\<lambda>j. \<not> is_dropped Cinf hinf j) [0..<m]))
            (map (\<lambda>j. hinf ! j) (filter (\<lambda>j. \<not> is_dropped Cinf hinf j) [0..<m]))
            (m_constraint_to_go s) \<and>
   m_warnings (fold (infeasible_row Cinf hinf) [0..<m] s) =
     m_warnings s @ map LinearlyDependent (filter (is_dropped Cinf hinf) [0..<m]) \<and>
   m_nu (fold (infeasible_row Cinf hinf) [0..<m] s) = m_nu s \<and>
   m_tmp (fold (infeasible_row Cinf hinf) [0..<m] s) = m_tmp s"
proof (induction m)
  case 0
  then show ?case by (simp add: cg_add_def)
next
  case (Suc m)
  then show ?case
    by (simp add: infeasible_row_def is_dropped_def cg_add_def cg_add_state_rows_def)
qed


lemma config_inputs_add_state_bound: "config_inputs (add_state_bound k i s) = config_inputs s"
  by (simp add: add_state_bound_def config_inputs_def)

lemma config_inputs_add_input_bound: "config_inputs (add_input_bound k i s) = config_inputs s"
  by (simp add: add_input_bound_def config_inputs_def)

lemma config_inputs_add_bound_constraint: "config_inputs (add_bound_constraint k s) = config_inputs s"
  by (simp add: add_bound_constraint_def Let_def
        fold_keeps [of config_inputs, OF config_inputs_add_state_bound]
        fold_keeps [of config_inputs, OF config_inputs_add_input_bound])

lemma config_inputs_set_nc:
  "config_inputs (s\<lparr> m_bp_res := b \<rparr>) = config_inputs s"
  "config_inputs (s\<lparr> m_constraint_to_go := cg \<rparr>) = config_inputs s"
  "config_inputs (s\<lparr> m_tmp := t \<rparr>) = config_inputs s"
  by (simp_all add: config_inputs_def)

lemma config_inputs_prepare: "config_inputs (constraint_prepare_inner i s) = config_inputs s"
  unfolding constraint_prepare_inner_def Let_def
  by (simp only: config_inputs_set_nc config_inputs_add_bound_constraint)

lemma prepare_config:
  "m_svd_threshold (constraint_prepare_inner i s) = m_svd_threshold s"
  "m_constr_decomp_type (constraint_prepare_inner i s) = m_constr_decomp_type s"
  "m_warnings (constraint_prepare_inner i s) = m_warnings s"
  "m_nu (constraint_prepare_inner i s) = m_nu s"
  using config_inputs_prepare [of i s] stage_inputs_prepare [of i s]
  by (simp_all add: config_inputs_def stage_inputs_def)

lemma constraint_upd_to_go_inner_result:
  fixes s :: solver and rank :: nat and Q :: mat
  defines "Cinf \<equiv> infeasible_C s rank Q" and "hinf \<equiv> infeasible_h s rank Q"
  defines "kept \<equiv> filter (\<lambda>j. \<not> is_dropped Cinf hinf j) [0..<length hinf]"
  shows "m_constraint_to_go (constraint_upd_to_go_inner i rank Q s) =
           \<lparr> cg_C = map (\<lambda>j. Cinf ! j) kept, cg_D = map (\<lambda>j. replicate (m_nu s) 0) kept,
             cg_h = map (\<lambda>j. hinf ! j) kept, cg_finite = True \<rparr>"
    and "m_warnings (constraint_upd_to_go_inner i rank Q s) =
           m_warnings s @ map LinearlyDependent (filter (is_dropped Cinf hinf) [0..<length hinf])"
    and "i < length (m_tmp s) \<Longrightarrow>
           length (tmp_Cf (m_tmp (constraint_upd_to_go_inner i rank Q s) ! i)) = rank \<and>
           length (tmp_Df (m_tmp (constraint_upd_to_go_inner i rank Q s) ! i)) = rank \<and>
           length (tmp_hf (m_tmp (constraint_upd_to_go_inner i rank Q s) ! i)) = rank"
    and "length hinf = cg_dim (m_constraint_to_go s) - rank"
  unfolding constraint_upd_to_go_inner_def Let_def Cinf_def hinf_def kept_def
    infeasible_C_def infeasible_h_def
  by (simp_all add: infeasible_rows_fold set_feasible_def cg_add_def cg_clear_def
        mat_mul_def mat_vec_def mtrans_def)


lemma constraint_decomp_inner_rank:
  assumes "max_pivot env s D = Some piv"
  shows "\<exists>Q. constraint_decomp_inner env s D =
           Inr (if piv < m_svd_threshold s then 0 else decomp_rank env s D, Q)"
  using assms
  by (auto simp: max_pivot_def constraint_decomp_inner_def decomp_rank_def Let_def
           split: decomposition_type.splits list.splits)

text \<open>
  Claim C7. When \<open>handle_constraints\<close> returns at stage \<open>i\<close> with a non-empty stacked
  block, the constraint-to-go it leaves for stage \<open>i - 1\<close> consists of exactly those
  infeasible rows that fail the drop test, in their order, each with a zero input block;
  the warnings added are exactly the indices of the rows that pass the test; and a row
  passes the test if and only if its residual and every coefficient of its row of
  \<open>Cinf\<close> are below \<open>1e-9\<close> in absolute value. So a row that is not dropped is never lost.
\<close>

theorem infeasible_rows_kept_or_dropped:
  assumes "handle_constraints env i s = Inr s'"
    and "cg_dim (m_constraint_to_go (constraint_prepare_inner i s)) \<noteq> 0"
  shows "\<exists>rank Q.
           constraint_decomp_inner env (constraint_prepare_inner i s)
             (cg_D (m_constraint_to_go (constraint_prepare_inner i s))) = Inr (rank, Q) \<and>
           (let p = constraint_prepare_inner i s;
                Cinf = infeasible_C p rank Q;
                hinf = infeasible_h p rank Q;
                kept = filter (\<lambda>j. \<not> is_dropped Cinf hinf j) [0..<length hinf]
            in m_constraint_to_go s' =
                 \<lparr> cg_C = map (\<lambda>j. Cinf ! j) kept, cg_D = map (\<lambda>j. replicate (m_nu s) 0) kept,
                   cg_h = map (\<lambda>j. hinf ! j) kept, cg_finite = True \<rparr> \<and>
               m_warnings s' =
                 m_warnings s @ map LinearlyDependent (filter (is_dropped Cinf hinf) [0..<length hinf]) \<and>
               (\<forall>j<length hinf. is_dropped Cinf hinf j \<longleftrightarrow>
                  \<bar>hinf ! j\<bar> < 1 / 10 ^ 9 \<and> (\<forall>x\<in>set (Cinf ! j). \<bar>x\<bar> < 1 / 10 ^ 9)))"
proof -
  let ?p = "constraint_prepare_inner i s"
  from handle_constraints_Inr [OF assms(1)] assms(2) obtain rank Q where
    d: "constraint_decomp_inner env ?p (cg_D (m_constraint_to_go ?p)) = Inr (rank, Q)"
    and s': "s' = constraint_upd_to_go_inner i rank Q ?p"
    by auto
  have "\<forall>j<length (infeasible_h ?p rank Q).
          is_dropped (infeasible_C ?p rank Q) (infeasible_h ?p rank Q) j \<longleftrightarrow>
            \<bar>infeasible_h ?p rank Q ! j\<bar> < 1 / 10 ^ 9 \<and>
            (\<forall>x\<in>set (infeasible_C ?p rank Q ! j). \<bar>x\<bar> < 1 / 10 ^ 9)"
    unfolding is_dropped_def lpNorm_inf_less by simp
  then show ?thesis
    using d unfolding s'
    by (intro exI [of _ rank] exI [of _ Q])
       (simp add: Let_def constraint_upd_to_go_inner_result(1,2) prepare_config)
qed

text \<open>
  Claim C6. For each of the three decompositions (complete orthogonal, column-pivoted QR,
  SVD), when the stacked block is not empty, its residuals are finite and \<open>THROW_NAN\<close>
  lets finite matrices pass, \<open>handle_constraints\<close> returns, and the rank it uses is zero
  when the largest pivot (the first singular value, for SVD) is below the configured
  threshold, and the rank reported by the decomposition otherwise. With rank zero the
  feasible block is empty, all \<open>nc\<close> rows of the stacked block are infeasible rows, and
  each of them is either pushed back or dropped.
\<close>

theorem rank_zero_below_threshold:
  assumes "max_pivot env (constraint_prepare_inner i s)
             (cg_D (m_constraint_to_go (constraint_prepare_inner i s))) = Some piv"
    and "cg_dim (m_constraint_to_go (constraint_prepare_inner i s)) \<noteq> 0"
    and "i < length (m_tmp s)"
    and "THROW_NAN env True = None"
    and "cg_finite (m_constraint_to_go (constraint_prepare_inner i s))"
  shows "\<exists>s' Q.
           handle_constraints env i s = Inr s' \<and>
           constraint_decomp_inner env (constraint_prepare_inner i s)
             (cg_D (m_constraint_to_go (constraint_prepare_inner i s))) =
               Inr (if piv < m_svd_threshold s then 0
                    else decomp_rank env (constraint_prepare_inner i s)
                           (cg_D (m_constraint_to_go (constraint_prepare_inner i s))), Q) \<and>
           (piv < m_svd_threshold s \<longrightarrow>
              (let p = constraint_prepare_inner i s;
                   nc = cg_dim (m_constraint_to_go p);
                   Cinf = infeasible_C p 0 Q;
                   hinf = infeasible_h p 0 Q
               in tmp_Cf (m_tmp s' ! i) = [] \<and> tmp_Df (m_tmp s' ! i) = [] \<and>
                  tmp_hf (m_tmp s' ! i) = [] \<and>
                  length hinf = nc \<and>
                  cg_dim (m_constraint_to_go s') +
                    length (filter (is_dropped Cinf hinf) [0..<nc]) = nc))"
proof -
  let ?p = "constraint_prepare_inner i s"
  let ?D = "cg_D (m_constraint_to_go ?p)"
  let ?rank = "if piv < m_svd_threshold s then 0 else decomp_rank env ?p ?D"
  from constraint_decomp_inner_rank [OF assms(1)] obtain Q where
    d: "constraint_decomp_inner env ?p ?D = Inr (?rank, Q)"
    by (auto simp: prepare_config)
  have h: "handle_constraints env i s = Inr (constraint_upd_to_go_inner i ?rank Q ?p)"
    using handle_constraints_rows [OF assms(4) assms(2) assms(5)] d by simp
  have lp: "i < length (m_tmp ?p)" using assms(3) by (simp add: length_tmp_prepare)
  have z: "let nc = cg_dim (m_constraint_to_go ?p);
               Cinf = infeasible_C ?p 0 Q;
               hinf = infeasible_h ?p 0 Q;
               s' = constraint_upd_to_go_inner i 0 Q ?p
           in tmp_Cf (m_tmp s' ! i) = [] \<and> tmp_Df (m_tmp s' ! i) = [] \<and>
              tmp_hf (m_tmp s' ! i) = [] \<and>
              length hinf = nc \<and>
              cg_dim (m_constraint_to_go s') +
                length (filter (is_dropped Cinf hinf) [0..<nc]) = nc"
  proof -
    have l: "length (infeasible_h ?p 0 Q) = cg_dim (m_constraint_to_go ?p)"
      using constraint_upd_to_go_inner_result(4) [of ?p 0 Q] by simp
    have "length (filter (\<lambda>j. \<not> P j) xs) + length (filter P xs) = length xs" for P and xs :: "nat list"
      by (induction xs) simp_all
    from this [of "is_dropped (infeasible_C ?p 0 Q) (infeasible_h ?p 0 Q)"
                  "[0..<cg_dim (m_constraint_to_go ?p)]"]
    have c: "cg_dim (m_constraint_to_go (constraint_upd_to_go_inner i 0 Q ?p)) +
               length (filter (is_dropped (infeasible_C ?p 0 Q) (infeasible_h ?p 0 Q))
                         [0..<cg_dim (m_constraint_to_go ?p)]) = cg_dim (m_constraint_to_go ?p)"
      by (simp add: constraint_upd_to_go_inner_result(1) l cg_dim_def)
    show ?thesis
      using constraint_upd_to_go_inner_result(3) [OF lp, of 0 Q] l c
      by (simp add: Let_def)
  qed
  show ?thesis
    using h d z by (intro exI [of _ "constraint_upd_to_go_inner i ?rank Q ?p"] exI [of _ Q])
                   (simp add: Let_def)
qed

text \<open>
  With two equal infinite bounds on the input the stacked block holds a residual that is
  not finite, and \<open>handle_constraints\<close> does not return in the model: it ends in
  \<open>THROW_NAN(h)\<close>, by the exception of the macro or with the value that is not finite.
\<close>

lemma handle_constraints_infinite_bound:
  "handle_constraints (ex_numerics macro) 0
     (ex_two_rows\<lparr> m_u_lb := [[PInf]], m_u_ub := [[PInf]] \<rparr>) =
   Inl (case macro False of None \<Rightarrow> NotFinite | Some e \<Rightarrow> e,
        constraint_prepare_inner 0 (ex_two_rows\<lparr> m_u_lb := [[PInf]], m_u_ub := [[PInf]] \<rparr>)) \<or>
   macro True \<noteq> None"
  by (cases "macro True"; cases "macro False")
     (simp_all add: handle_constraints_def ex_two_rows_def ex_solver_def ex_numerics_def
        bwd_defs lin_alg_defs Let_def)

lemma ex_two_rows_prepare:
  "constraint_prepare_inner 0 ex_two_rows =
     ex_two_rows\<lparr> m_constraint_to_go :=
                    \<lparr> cg_C = [[1], [0]], cg_D = [[1 / 10 ^ 13], [0]], cg_h = [- 2, 0],
                      cg_finite = True \<rparr>,
                  m_bp_res := [ex_bp\<lparr> bp_nc := 2 \<rparr>] \<rparr>"
  by (simp add: ex_two_rows_def ex_solver_def bwd_defs lin_alg_defs Let_def)

lemma ex_two_rows_decomp:
  "constraint_decomp_inner ex_env (constraint_prepare_inner 0 ex_two_rows)
     (cg_D (m_constraint_to_go (constraint_prepare_inner 0 ex_two_rows))) = Inr (0, [[1, 0], [0, 1]])"
  unfolding ex_two_rows_prepare
  by (simp add: constraint_decomp_inner_def ex_two_rows_def ex_solver_def ex_env_def
        ex_numerics_def scalar_decomp_def Let_def upt_conv_Cons)

lemma ex_two_rows_pivot:
  "max_pivot ex_env (constraint_prepare_inner 0 ex_two_rows)
     (cg_D (m_constraint_to_go (constraint_prepare_inner 0 ex_two_rows))) = Some (1 / 10 ^ 13)"
  "decomp_rank ex_env (constraint_prepare_inner 0 ex_two_rows)
     (cg_D (m_constraint_to_go (constraint_prepare_inner 0 ex_two_rows))) = 1"
  unfolding ex_two_rows_prepare
  by (simp_all add: max_pivot_def decomp_rank_def ex_two_rows_def ex_solver_def ex_env_def
        ex_numerics_def scalar_decomp_def)

lemma ex_two_rows_facts:
  "cg_dim (m_constraint_to_go (constraint_prepare_inner 0 ex_two_rows)) = 2"
  "cg_finite (m_constraint_to_go (constraint_prepare_inner 0 ex_two_rows))"
  "length (m_tmp ex_two_rows) = 1" "m_svd_threshold ex_two_rows = 1 / 10 ^ 12"
  "m_warnings ex_two_rows = []" "m_nu ex_two_rows = 1"
  "infeasible_C (constraint_prepare_inner 0 ex_two_rows) 0 [[1, 0], [0, 1]] = [[1], [0]]"
  "infeasible_h (constraint_prepare_inner 0 ex_two_rows) 0 [[1, 0], [0, 1]] = [- 2, 0]"
  "THROW_NAN ex_env True = None"
  unfolding ex_two_rows_prepare
  by (simp_all add: ex_two_rows_def ex_solver_def cg_dim_def infeasible_C_def infeasible_h_def
        rightCols_def mtrans_def lin_alg_defs Let_def upt_conv_Cons THROW_NAN_def ex_env_def
        ex_numerics_def)

lemma ex_two_rows_returns: "\<exists>s'. handle_constraints ex_env 0 ex_two_rows = Inr s'"
  using handle_constraints_rows [of ex_env 0 ex_two_rows]
  by (simp add: ex_two_rows_facts ex_two_rows_decomp)

theorem infeasible_rows_kept_or_dropped_witness:
  "cg_dim (m_constraint_to_go (constraint_prepare_inner 0 ex_two_rows)) = 2 \<and>
   (\<exists>s'. handle_constraints ex_env 0 ex_two_rows = Inr s' \<and>
         m_constraint_to_go s' =
           \<lparr> cg_C = [[1]], cg_D = [[0]], cg_h = [- 2], cg_finite = True \<rparr> \<and>
         m_warnings s' = [LinearlyDependent 1])"
proof -
  have nz: "cg_dim (m_constraint_to_go (constraint_prepare_inner 0 ex_two_rows)) \<noteq> 0"
    by (simp add: ex_two_rows_facts)
  obtain s' where h: "handle_constraints ex_env 0 ex_two_rows = Inr s'"
    using ex_two_rows_returns by blast
  have d: "is_dropped [[1], [0]] [- 2, 0] 1" "\<not> is_dropped [[1], [0]] [- 2, 0] 0"
    by (simp_all add: is_dropped_def lpNorm_inf_def)
  from infeasible_rows_kept_or_dropped [OF h nz]
  have "m_constraint_to_go s' = \<lparr> cg_C = [[1]], cg_D = [[0]], cg_h = [- 2], cg_finite = True \<rparr> \<and>
        m_warnings s' = [LinearlyDependent 1]"
    by (simp add: ex_two_rows_decomp ex_two_rows_facts Let_def upt_conv_Cons d)
  with h show ?thesis by (auto simp: ex_two_rows_facts)
qed

theorem rank_zero_below_threshold_witness:
  "max_pivot ex_env (constraint_prepare_inner 0 ex_two_rows)
     (cg_D (m_constraint_to_go (constraint_prepare_inner 0 ex_two_rows))) = Some (1 / 10 ^ 13) \<and>
   decomp_rank ex_env (constraint_prepare_inner 0 ex_two_rows)
     (cg_D (m_constraint_to_go (constraint_prepare_inner 0 ex_two_rows))) = 1 \<and>
   (1 / 10 ^ 13 :: real) < m_svd_threshold ex_two_rows \<and>
   cg_dim (m_constraint_to_go (constraint_prepare_inner 0 ex_two_rows)) = 2 \<and>
   cg_finite (m_constraint_to_go (constraint_prepare_inner 0 ex_two_rows)) \<and>
   THROW_NAN ex_env True = None \<and>
   (\<exists>s' Q. handle_constraints ex_env 0 ex_two_rows = Inr s' \<and>
         constraint_decomp_inner ex_env (constraint_prepare_inner 0 ex_two_rows)
           (cg_D (m_constraint_to_go (constraint_prepare_inner 0 ex_two_rows))) = Inr (0, Q) \<and>
         tmp_Cf (m_tmp s' ! 0) = [] \<and> tmp_Df (m_tmp s' ! 0) = [] \<and> tmp_hf (m_tmp s' ! 0) = [] \<and>
         cg_dim (m_constraint_to_go s') + 1 = 2)"
proof -
  have nz: "cg_dim (m_constraint_to_go (constraint_prepare_inner 0 ex_two_rows)) \<noteq> 0"
    and i: "0 < length (m_tmp ex_two_rows)"
    by (simp_all add: ex_two_rows_facts)
  have d: "is_dropped [[1], [0]] [- 2, 0] (Suc 0)" "\<not> is_dropped [[1], [0]] [- 2, 0] 0"
    by (simp_all add: is_dropped_def lpNorm_inf_def)
  from rank_zero_below_threshold [OF ex_two_rows_pivot(1) nz i ex_two_rows_facts(9)
         ex_two_rows_facts(2)]
  have "\<exists>s' Q. handle_constraints ex_env 0 ex_two_rows = Inr s' \<and>
         constraint_decomp_inner ex_env (constraint_prepare_inner 0 ex_two_rows)
           (cg_D (m_constraint_to_go (constraint_prepare_inner 0 ex_two_rows))) = Inr (0, Q) \<and>
         tmp_Cf (m_tmp s' ! 0) = [] \<and> tmp_Df (m_tmp s' ! 0) = [] \<and> tmp_hf (m_tmp s' ! 0) = [] \<and>
         cg_dim (m_constraint_to_go s') + 1 = 2"
    by (auto simp: ex_two_rows_decomp ex_two_rows_facts Let_def upt_conv_Cons d)
  then show ?thesis
    using ex_two_rows_pivot by (simp add: ex_two_rows_facts)
qed

subsection \<open>Stopping test\<close>

lemma norm_fro_half: "norm_fro [[- (1 / 2)]] = 1 / 2"
proof -
  have "sqrt ((1 / 2)\<^sup>2) = \<bar>1 / 2 :: real\<bar>" by (rule real_sqrt_abs)
  then show ?thesis by (simp add: norm_fro_def power2_eq_square)
qed

lemma ex_neg_prepare:
  "ls_prepare 0 ex_neg = ((1, 0, - (1 / 4), - 1),
     ex_neg\<lparr> m_lam_x := [[1 / 2]],
             m_fp_res := ex_fp\<lparr> fp_cost := - (5 / 4), fp_mu_f := 1, fp_mu_c := 0,
                              fp_merit := - (1 / 4), fp_merit_der := - 1 \<rparr>,
             m_reported := [ex_fp\<lparr> fp_cost := - (5 / 4), fp_mu_f := 1, fp_mu_c := 0,
                                  fp_merit := - (1 / 4) \<rparr>] \<rparr>)"
  by (simp add: ls_prepare_def compute_merit_weights_def merit_weights_at_def
        compute_merit_value_def compute_merit_slope_def report_result_def
        ex_neg_def ex_stage0_def ex_solver_def ex_bp_def ex_tmp_def ex_fp_def dot_def Let_def)

text \<open>
  Claim C1 says that the solver stops exactly when the result is feasible and the
  absolute normalised slope or the normalised step is below \<open>1e-9\<close>. The code, which
  means to stop when the normalised slope ``is too close to zero'', tests
  \<open>merit_der / merit > -1e-9\<close>, without absolute values. With a negative merit and a
  negative slope the quotient is positive and the test holds however steep the slope
  is. In the example the cost is negative: the first line search accepts the full
  step, with defect and constraint violation \<open>0\<close>, merit \<open>-1\<close>, slope \<open>-1\<close> and a
  normalised step of \<open>1\<close>, and \<open>should_stop\<close> holds, where the stated rule does not.
\<close>

theorem should_stop_negative_merit:
  "\<exists>r. line_search 0 ex_neg = Inr r \<and>
       fp_defect_norm (m_fp_res r) = 0 \<and> fp_constraint_violation (m_fp_res r) = 0 \<and>
       fp_merit (m_fp_res r) = - 1 \<and> fp_merit_der (m_fp_res r) = - 1 \<and>
       fp_step_length (m_fp_res r) = 1 / 2 \<and> m_utrj r = [[- (1 / 2)]] \<and>
       should_stop r \<and> \<not> stop_spec r"
proof -
  let ?s4 = "ex_neg\<lparr> m_lam_x := [[1 / 2]],
             m_fp_res := ex_fp\<lparr> fp_cost := - (5 / 4), fp_mu_f := 1, fp_mu_c := 0,
                              fp_merit := - (1 / 4), fp_merit_der := - 1 \<rparr>,
             m_reported := [ex_fp\<lparr> fp_cost := - (5 / 4), fp_mu_f := 1, fp_mu_c := 0,
                                  fp_merit := - (1 / 4) \<rparr>] \<rparr>"
  have "\<exists>t. ls_try 1 0 (- (1 / 4)) (- 1) 1 ?s4 = Inr t \<and> fp_accepted (m_fp_res t) \<and>
          fp_defect_norm (m_fp_res t) = 0 \<and> fp_constraint_violation (m_fp_res t) = 0 \<and>
          fp_merit (m_fp_res t) = - 1 \<and> fp_merit_der (m_fp_res t) = - 1 \<and>
          fp_step_length (m_fp_res t) = 1 / 2 \<and> fp_utrj (m_fp_res t) = [[- (1 / 2)]]"
    by (simp add: ls_try_def report_result_def compute_merit_value_def eta_def fwd_defs
          ex_neg_def ex_stage0_def ex_solver_def ex_bp_def ex_tmp_def ex_fp_def
          lin_alg_defs Let_def)
  then obtain t where t: "ls_try 1 0 (- (1 / 4)) (- 1) 1 ?s4 = Inr t" "fp_accepted (m_fp_res t)"
    "fp_defect_norm (m_fp_res t) = 0" "fp_constraint_violation (m_fp_res t) = 0"
    "fp_merit (m_fp_res t) = - 1" "fp_merit_der (m_fp_res t) = - 1"
    "fp_step_length (m_fp_res t) = 1 / 2" "fp_utrj (m_fp_res t) = [[- (1 / 2)]]"
    by blast
  have "ls_loop 1 0 (- (1 / 4)) (- 1) 1 ?s4 = Inr t"
    using t(1,2) by (subst ls_loop.simps) (simp add: alpha_min_def)
  then have r: "line_search 0 ex_neg = Inr (ls_finish t)"
    by (simp add: line_search_def ex_neg_prepare)
  have "should_stop (ls_finish t) \<and> \<not> stop_spec (ls_finish t)"
    using t by (simp add: should_stop_def stop_spec_def quot_gt_def quot_lt_def ls_finish_result
                  norm_fro_half)
  then show ?thesis
    using r t by (simp add: ls_finish_result)
qed

end
